theory Spec2Isabelle
  imports Main
begin

section \<open>Storage reconciliation of a host (controllers/host/storage.go)\<close>

text \<open>
  A shallow embedding of the storage reconcilers of the host controller.  Go pointers
  that may be nil are options, Go slices are lists, Go \<open>int\<close> is \<open>int\<close> (the code only
  compares and copies sizes), Go strings are byte strings.  Logging and the event
  recorder are not modelled; every call to the inventory client is recorded in a
  call log, and the answers of the remote system are given by a client oracle that
  sees the log of the calls made so far.
\<close>

subsection \<open>Constants of the client library\<close>

definition PersonalityWorker :: string where
  "PersonalityWorker = ''worker''"

definition PersonalityStorage :: string where
  "PersonalityStorage = ''storage''"

definition PVTypePartition :: string where
  "PVTypePartition = ''partition''"

definition FunctionOSD :: string where
  "FunctionOSD = ''osd''"

definition FunctionJournal :: string where
  "FunctionJournal = ''journal''"

text \<open>
  \<open>partitions.StatusCreating\<close>, \<open>StatusModifying\<close> and \<open>StatusDeleting\<close> are the three
  status values the code names; every other status string is \<open>StatusOther\<close>.
\<close>

datatype PartitionStatus =
  StatusCreating | StatusModifying | StatusDeleting | StatusOther string

subsection \<open>strings.EqualFold against an ASCII lower-case word\<close>

text \<open>
  Go's \<open>strings.EqualFold s t\<close> decodes both strings rune by rune and accepts a pair
  of runes when they are equal under Unicode simple case folding.  For a target \<open>t\<close>
  made of lower-case ASCII letters, a rune of \<open>s\<close> folds to the letter \<open>c\<close> when it
  is \<open>c\<close>, its upper-case form, or one of the two non-ASCII runes whose folding orbit
  holds an ASCII letter: U+017F (bytes C5 BF) for \<open>s\<close> and U+212A (bytes E2 84 AA)
  for \<open>k\<close>.  \<open>EqualFold\<close> below is that function; its second argument must be a word
  of lower-case ASCII letters.
\<close>

definition is_upper_of :: "char \<Rightarrow> char \<Rightarrow> bool" where
  "is_upper_of c t \<longleftrightarrow> (of_char c :: nat) + 32 = of_char t"

fun EqualFold :: "string \<Rightarrow> string \<Rightarrow> bool" where
  "EqualFold [] [] = True"
| "EqualFold [] (t # ts) = False"
| "EqualFold (c # cs) [] = False"
| "EqualFold (c # cs) (t # ts) =
     (if c = t \<or> is_upper_of c t then EqualFold cs ts
      else if t = CHR ''s'' \<and> c = CHR 0xC5 then
        (case cs of d # ds \<Rightarrow> d = CHR 0xBF \<and> EqualFold ds ts | [] \<Rightarrow> False)
      else if t = CHR ''k'' \<and> c = CHR 0xE2 then
        (case cs of d # e # ds \<Rightarrow> d = CHR 0x84 \<and> e = CHR 0xAA \<and> EqualFold ds ts
         | _ \<Rightarrow> False)
      else False)"

subsection \<open>Results of a reconciler\<close>

text \<open>
  Messages keep the format string and its arguments as the code passes them to
  \<open>fmt.Sprintf\<close>; \<open>ArgStruct\<close> stands for the text of \<open>FormatStruct\<close>, which is not
  modelled.
\<close>

datatype fmtarg = ArgString string | ArgInt int | ArgStruct

datatype message = Sprintf string "fmtarg list"

text \<open>The resource a reconciler is working for: \<open>starlingxv1.Host\<close>.\<close>

record Host =
  inst_Name :: string
  inst_Namespace :: string

datatype err =
  MissingSystemResource message
| UserDataError message
| ClientError string
| Wrap err message

text \<open>The monitors that the code starts, with the arguments of their constructors.\<close>

datatype monitor =
  PartitionStateMonitor Host string
| ClusterPresenceMonitor Host string
| ClusterDeploymentModelMonitor Host string
| StorageMonitorCountMonitor Host int
| StorageTierMonitor Host string string
| UnlockedAvailableHostMonitor Host string

text \<open>
  The Go functions return \<open>error\<close>: nil is \<open>Continue\<close>.  \<open>NilDeref\<close> is the panic of
  dereferencing a nil pointer of the profile.

  Modelled from the spec: \<open>StartMonitor\<close> is not in the source at hand; by the spec
  it yields a Wait Descriptor (target kind, target identifier or name, reason),
  which is not an error.  It is the constructor \<open>Wait\<close>.
\<close>

datatype outcome = Continue | Wait monitor message | Fail err | NilDeref

definition StartMonitor :: "monitor \<Rightarrow> message \<Rightarrow> outcome" where
  "StartMonitor m msg = Wait m msg"

subsection \<open>The desired profile (starlingxv1)\<close>

record MonitorInfo =
  mi_Size :: "int option"

record JournalInfo =
  ji_Location :: string
  ji_Size :: int

text \<open>\<open>oi_ClusterName\<close> is the value of the method \<open>GetClusterName()\<close>.\<close>

record OSDInfo =
  oi_Function :: string
  oi_Path :: string
  oi_Journal :: "JournalInfo option"
  oi_ClusterName :: string

record PhysicalVolumeInfo =
  pvi_Type :: string
  pvi_Path :: string
  pvi_Size :: "int option"

record VolumeGroupInfo =
  vgi_Name :: string
  vgi_LVMType :: "string option"
  vgi_PhysicalVolumes :: "PhysicalVolumeInfo list"

record FileSystemInfo =
  fsi_Name :: string
  fsi_Size :: int

record ProfileStorageInfo =
  ps_Monitor :: "MonitorInfo option"
  ps_OSDs :: "OSDInfo list option"
  ps_VolumeGroups :: "VolumeGroupInfo list option"
  ps_FileSystems :: "FileSystemInfo list option"

record HostProfileSpec =
  prof_Personality :: "string option"
  prof_Storage :: "ProfileStorageInfo option"

subsection \<open>The host snapshot (v1info.HostInfo) and the records of the inventory\<close>

record CephMonitor =
  mon_HostUUID :: string
  mon_Size :: int

record Disk =
  disk_ID :: string
  disk_DevicePath :: string

record Partition =
  part_ID :: string
  part_DevicePath :: string
  part_DiskID :: string
  part_Size :: int
  part_Status :: PartitionStatus

record PhysicalVolume =
  pv_ID :: string
  pv_Type :: string
  pv_DevicePath :: string
  pv_Size :: int
  pv_VolumeGroupID :: string

record VolumeGroup =
  vg_ID :: string
  vg_Name :: string

text \<open>
  \<open>osd_JournalLocation\<close> is \<open>JournalInfo.Location\<close> of the record and
  \<open>osd_JournalGibibytes\<close> the value of \<open>JournalInfo.Gibibytes()\<close>.
\<close>

record OSD =
  osd_ID :: string
  osd_Function :: string
  osd_DiskID :: string
  osd_JournalLocation :: "string option"
  osd_JournalGibibytes :: int

record Cluster =
  cluster_ID :: string
  cluster_Name :: string
  cluster_DeploymentModel :: string

record StorageTier =
  tier_ID :: string

record FileSystem =
  fs_ID :: string
  fs_Name :: string
  fs_Size :: int

text \<open>
  The code reads \<open>ID\<close>, \<open>Personality\<close>, \<open>Partitions\<close>, \<open>PhysicalVolumes\<close>,
  \<open>VolumeGroups\<close>, \<open>OSDs\<close>, \<open>FileSystems\<close> and \<open>StorageTiers\<close> directly; the disks,
  the clusters and the three state attributes are read only through methods of
  the snapshot.
\<close>

record HostInfo =
  host_ID :: string
  host_Personality :: string
  host_AdministrativeState :: string
  host_OperationalState :: string
  host_AvailabilityState :: string
  host_Disks :: "Disk list"
  host_Partitions :: "Partition list"
  host_PhysicalVolumes :: "PhysicalVolume list"
  host_VolumeGroups :: "VolumeGroup list"
  host_OSDs :: "OSD list"
  host_FileSystems :: "FileSystem list"
  host_StorageTiers :: "string \<rightharpoonup> StorageTier"
  host_Clusters :: "Cluster list"

subsection \<open>Requests of the inventory client\<close>

record CephMonitorOpts =
  mo_HostUUID :: "string option"
  mo_Size :: "int option"

record DiskPartitionOpts =
  dpo_HostID :: string
  dpo_DiskID :: string
  dpo_TypeName :: "string option"
  dpo_TypeGUID :: "string option"
  dpo_Size :: int

record PhysicalVolumeOpts =
  pvo_HostID :: string
  pvo_DeviceID :: string
  pvo_VolumeGroupID :: string
  pvo_Type :: string

record VolumeGroupOpts =
  vgo_HostID :: "string option"
  vgo_Name :: "string option"
  vgo_Capabilities :: "string option option"

record OSDOpts =
  oo_HostID :: "string option"
  oo_DiskID :: "string option"
  oo_Function :: "string option"
  oo_JournalLocation :: "string option"
  oo_JournalSize :: "int option"
  oo_TierUUID :: "string option"

record CreateFileSystemOpts =
  cfo_Name :: string
  cfo_Size :: int
  cfo_HostUUID :: string

record FileSystemOpts =
  fo_Name :: string
  fo_Size :: int

text \<open>
  One constructor for each operation of the inventory client that the spec lists
  (List, Create, Update, Delete per resource kind) and that exists for the kinds
  handled here.  \<open>CephMonitorDelete\<close> is part of that interface; no function below
  builds it.  \<open>SystemPartitionsPopulate\<close> is the client traffic of the snapshot's
  method \<open>PopulateSystemPartitions\<close>.
\<close>

datatype call =
  CephMonitorList
| CephMonitorUpdate string CephMonitorOpts
| CephMonitorCreate CephMonitorOpts
| CephMonitorDelete string
| PartitionCreate DiskPartitionOpts
| PartitionList string
| SystemPartitionsPopulate
| PhysicalVolumeCreate PhysicalVolumeOpts
| PhysicalVolumeList string
| VolumeGroupCreate VolumeGroupOpts
| VolumeGroupList string
| OSDDelete string
| OSDUpdate string OSDOpts
| OSDCreate OSDOpts
| OSDList string
| FileSystemDelete string
| FileSystemCreate CreateFileSystemOpts
| FileSystemList string
| FileSystemUpdate string "FileSystemOpts list"

text \<open>
  The remote system: each answer is a function of the calls made before.  A
  mutation answers \<open>None\<close> on success and \<open>Some e\<close> on failure; a list call answers
  \<open>Inl e\<close> on failure.
\<close>

record ServiceClient =
  cl_mutate :: "call list \<Rightarrow> call \<Rightarrow> string option"
  cl_ListCephMonitors :: "call list \<Rightarrow> string + CephMonitor list"
  cl_ListPartitions :: "call list \<Rightarrow> string + Partition list"
  cl_PopulateSystemPartitions :: "call list \<Rightarrow> HostInfo \<Rightarrow> string + HostInfo"
  cl_ListPhysicalVolumes :: "call list \<Rightarrow> string + PhysicalVolume list"
  cl_ListVolumeGroups :: "call list \<Rightarrow> string + VolumeGroup list"
  cl_ListOSDs :: "call list \<Rightarrow> string + OSD list"
  cl_ListFileSystems :: "call list \<Rightarrow> string + FileSystem list"

subsection \<open>Collaborators of the reconciler\<close>

text \<open>
  Modelled from the spec: \<open>cloudManager.SystemType\<close> is not in the source at hand.
  The spec names the single-combined-node (all-in-one) and the multi-node
  (standard) topology; \<open>SystemTypeOther\<close> is any other value of the type.
\<close>

datatype SystemType = SystemTypeAllInOne | SystemTypeStandard | SystemTypeOther string

datatype RequiredState =
  RequiredStateNone | RequiredStateEnabled | RequiredStateDisabled | RequiredStateAny

datatype ReconcilerName =
  Storage | StorageMonitor | Partition | PhysicalVolume | VolumeGroup | OSD
| FileSystemTypes | FileSystemSizes

text \<open>
  Everything the functions of storage.go call that is defined elsewhere: the methods
  of the reconciler (\<open>GetSystemType\<close>, \<open>MonitorsEnabled\<close>), the enablement flags
  (\<open>common.IsReconcilerEnabled\<close>), \<open>common.ListDelta\<close> and the two allow-lists of
  filesystem kinds, the lookup methods of the snapshot, and the constants of the
  client library whose values the code only passes on or compares.  A lookup
  yields \<open>None\<close> where the Go method returns a nil pointer and \<open>false\<close>.
\<close>

record HostReconciler =
  GetSystemType :: "string \<Rightarrow> SystemType"
  MonitorsEnabled :: "int \<Rightarrow> bool"
  IsReconcilerEnabled :: "ReconcilerName \<Rightarrow> bool"
  ListDelta :: "string list \<Rightarrow> string list \<Rightarrow> string list \<times> string list \<times> string list"
  FileSystemCreationAllowed :: "string list"
  FileSystemDeletionAllowed :: "string list"
  FindPartitionByPath :: "HostInfo \<Rightarrow> string \<Rightarrow> int \<Rightarrow> string \<Rightarrow> Partition option"
  FindDiskByPath :: "HostInfo \<Rightarrow> string \<Rightarrow> Disk option"
  FindVolumeGroup :: "HostInfo \<Rightarrow> string \<Rightarrow> VolumeGroup option"
  FindPhysicalVolume :: "HostInfo \<Rightarrow> string \<Rightarrow> string \<Rightarrow> string \<Rightarrow> int \<Rightarrow> PhysicalVolume option"
  FindOSDByPath :: "HostInfo \<Rightarrow> string \<Rightarrow> OSD option"
  FindClusterByName :: "HostInfo \<Rightarrow> string \<Rightarrow> Cluster option"
  IsUnlockedAvailable :: "HostInfo \<Rightarrow> bool"
  DeploymentModelUndefined :: string
  DeploymentModelStorage :: string
  DeploymentModelController :: string
  OSDMinimumMonitorCount :: int
  StorageTierName :: string
  PartitionTypeLVM :: string
  PartitionTypeMap :: "string \<Rightarrow> string"

text \<open>The state of one pass: the snapshot and the log of the client calls.\<close>

record pass =
  host :: HostInfo
  calls :: "call list"

definition mutate :: "ServiceClient \<Rightarrow> call \<Rightarrow> pass \<Rightarrow> string option \<times> pass" where
  "mutate client c s = (cl_mutate client (calls s) c, s\<lparr>calls := calls s @ [c]\<rparr>)"

definition logged :: "call \<Rightarrow> pass \<Rightarrow> pass" where
  "logged c s = s\<lparr>calls := calls s @ [c]\<rparr>"

subsection \<open>OSDProvisioningState\<close>

definition OSDProvisioningState :: "HostReconciler \<Rightarrow> string \<Rightarrow> string \<Rightarrow> RequiredState" where
  "OSDProvisioningState r namespace personality =
     (case GetSystemType r namespace of
        SystemTypeAllInOne \<Rightarrow> RequiredStateAny
      | SystemTypeStandard \<Rightarrow>
          (if EqualFold personality PersonalityStorage then RequiredStateDisabled
           else RequiredStateEnabled)
      | SystemTypeOther t \<Rightarrow> RequiredStateNone)"

subsection \<open>Iteration\<close>

text \<open>
  A Go \<open>for ... range\<close> loop whose body may return from the function: the body
  yields \<open>Continue\<close> to go on with the next element, anything else leaves the loop
  with that result.
\<close>

fun for_range :: "('a \<Rightarrow> 's \<Rightarrow> outcome \<times> 's) \<Rightarrow> 'a list \<Rightarrow> 's \<Rightarrow> outcome \<times> 's" where
  "for_range body [] s = (Continue, s)"
| "for_range body (x # xs) s =
     (let (out, s') = body x s
      in if out = Continue then for_range body xs s' else (out, s'))"

subsection \<open>ReconcileMonitor\<close>

fun monitor_step ::
  "ServiceClient \<Rightarrow> MonitorInfo \<Rightarrow> CephMonitor \<Rightarrow> bool \<times> pass \<Rightarrow> outcome \<times> bool \<times> pass" where
  "monitor_step client mi m (found, s) =
     (if mon_HostUUID m = host_ID (host s) then
        (if mi_Size mi \<noteq> None \<and> mi_Size mi \<noteq> Some (mon_Size m) then
           (case mutate client
                   (CephMonitorUpdate (host_ID (host s))
                      \<lparr>mo_HostUUID = None, mo_Size = mi_Size mi\<rparr>) s of
              (Some e, s') \<Rightarrow>
                (Fail (Wrap (ClientError e) (Sprintf ''failed to update Ceph monitor'' [])),
                 True, s')
            | (None, s') \<Rightarrow> (Continue, True, s'))
         else (Continue, True, s))
      else (Continue, found, s))"

definition ReconcileMonitor ::
  "HostReconciler \<Rightarrow> ServiceClient \<Rightarrow> Host \<Rightarrow> HostProfileSpec \<Rightarrow> pass \<Rightarrow> outcome \<times> pass" where
  "ReconcileMonitor r client inst profile s =
     (if \<not> IsReconcilerEnabled r StorageMonitor then (Continue, s)
      else if prof_Personality profile \<noteq> Some PersonalityWorker then (Continue, s)
      else
        (case cl_ListCephMonitors client (calls s) of
           Inl e \<Rightarrow>
             (Fail (Wrap (ClientError e) (Sprintf ''failed to list monitors on host'' [])),
              logged CephMonitorList s)
         | Inr monitors \<Rightarrow>
             (let s1 = logged CephMonitorList s in
              case prof_Storage profile of
                None \<Rightarrow> (NilDeref, s1)
              | Some storage \<Rightarrow>
                  (case ps_Monitor storage of
                     None \<Rightarrow> (Continue, s1)
                   | Some mi \<Rightarrow>
                       (let (out, found, s2) =
                              for_range (monitor_step client mi) monitors (False, s1)
                        in if out \<noteq> Continue then (out, s2)
                           else if \<not> found then
                             (case mutate client
                                     (CephMonitorCreate
                                        \<lparr>mo_HostUUID = Some (host_ID (host s2)),
                                         mo_Size = mi_Size mi\<rparr>) s2 of
                                (Some e, s3) \<Rightarrow>
                                  (Fail (Wrap (ClientError e)
                                           (Sprintf ''failed to create Ceph monitor'' [])), s3)
                              | (None, s3) \<Rightarrow> (Continue, s3))
                           else (Continue, s2))))))"

subsection \<open>ReconcilePartitions\<close>

fun partition_step ::
  "HostReconciler \<Rightarrow> ServiceClient \<Rightarrow> VolumeGroupInfo \<Rightarrow> PhysicalVolumeInfo \<Rightarrow>
   bool \<times> pass \<Rightarrow> outcome \<times> bool \<times> pass" where
  "partition_step r client grp pvInfo (updated, s) =
     (if pvi_Type pvInfo \<noteq> PVTypePartition \<or> pvi_Size pvInfo = None then
        (Continue, updated, s)
      else
        (let size = (case pvi_Size pvInfo of Some n \<Rightarrow> n | None \<Rightarrow> 0) in
         case FindPartitionByPath r (host s) (pvi_Path pvInfo) size (vgi_Name grp) of
           Some p \<Rightarrow> (Continue, updated, s)
         | None \<Rightarrow>
             (case FindDiskByPath r (host s) (pvi_Path pvInfo) of
                None \<Rightarrow>
                  (Fail (MissingSystemResource
                           (Sprintf ''failed to find disk for path %s''
                              [ArgString (pvi_Path pvInfo)])),
                   updated, s)
              | Some disk \<Rightarrow>
                  (case mutate client
                          (PartitionCreate
                             \<lparr>dpo_HostID = host_ID (host s), dpo_DiskID = disk_ID disk,
                              dpo_TypeName = Some (PartitionTypeLVM r),
                              dpo_TypeGUID = Some (PartitionTypeMap r (PartitionTypeLVM r)),
                              dpo_Size = size\<rparr>) s of
                     (Some e, s') \<Rightarrow>
                       (Fail (Wrap (ClientError e)
                                (Sprintf ''failed to create new partition: %s'' [ArgStruct])),
                        updated, s')
                   | (None, s') \<Rightarrow> (Continue, True, s')))))"

definition refresh_partitions :: "ServiceClient \<Rightarrow> pass \<Rightarrow> outcome \<times> pass" where
  "refresh_partitions client s =
     (case cl_ListPartitions client (calls s) of
        Inl e \<Rightarrow>
          (Fail (Wrap (ClientError e) (Sprintf ''failed to refresh partitions on host'' [])),
           logged (PartitionList (host_ID (host s))) s)
      | Inr result \<Rightarrow>
          (let s1 = (logged (PartitionList (host_ID (host s))) s)
                      \<lparr>host := (host s)\<lparr>host_Partitions := result\<rparr>\<rparr> in
           case cl_PopulateSystemPartitions client (calls s1) (host s1) of
             Inl e \<Rightarrow> (Fail (ClientError e), logged SystemPartitionsPopulate s1)
           | Inr h \<Rightarrow> (Continue, (logged SystemPartitionsPopulate s1)\<lparr>host := h\<rparr>)))"

definition transient :: "Partition \<Rightarrow> bool" where
  "transient p \<longleftrightarrow>
     (case part_Status p of
        StatusDeleting \<Rightarrow> True | StatusModifying \<Rightarrow> True | StatusCreating \<Rightarrow> True
      | StatusOther t \<Rightarrow> False)"

definition partition_status_step :: "Host \<Rightarrow> Partition \<Rightarrow> pass \<Rightarrow> outcome \<times> pass" where
  "partition_status_step inst p s =
     (if transient p then
        (StartMonitor (PartitionStateMonitor inst (host_ID (host s)))
           (Sprintf ''waiting for partitions to transition to ready state'' []), s)
      else (Continue, s))"

definition ReconcilePartitions ::
  "HostReconciler \<Rightarrow> ServiceClient \<Rightarrow> Host \<Rightarrow> HostProfileSpec \<Rightarrow> VolumeGroupInfo \<Rightarrow>
   pass \<Rightarrow> outcome \<times> pass" where
  "ReconcilePartitions r client inst profile grp s =
     (if \<not> IsReconcilerEnabled r Partition then (Continue, s)
      else
        (let (out, updated, s1) =
               for_range (partition_step r client grp) (vgi_PhysicalVolumes grp) (False, s)
         in if out \<noteq> Continue then (out, s1)
            else
              (let (out2, s2) = (if updated then refresh_partitions client s1 else (Continue, s1))
               in if out2 \<noteq> Continue then (out2, s2)
                  else for_range (partition_status_step inst) (host_Partitions (host s2)) s2)))"

subsection \<open>ReconcilePhysicalVolumes\<close>

fun physical_volume_step ::
  "HostReconciler \<Rightarrow> ServiceClient \<Rightarrow> VolumeGroupInfo \<Rightarrow> VolumeGroup \<Rightarrow> PhysicalVolumeInfo \<Rightarrow>
   bool \<times> pass \<Rightarrow> outcome \<times> bool \<times> pass" where
  "physical_volume_step r client grp vg pvInfo (updated, s) =
     (let size = (case pvi_Size pvInfo of Some n \<Rightarrow> n | None \<Rightarrow> 0) in
      case FindPhysicalVolume r (host s) (vgi_Name grp) (pvi_Type pvInfo)
             (pvi_Path pvInfo) size of
        Some pv \<Rightarrow> (Continue, updated, s)
      | None \<Rightarrow>
          (let deviceID =
                 (if pvi_Type pvInfo = PVTypePartition then
                    (case FindPartitionByPath r (host s) (pvi_Path pvInfo) size
                            (vgi_Name grp) of
                       Some p \<Rightarrow> part_ID p | None \<Rightarrow> [])
                  else
                    (case FindDiskByPath r (host s) (pvi_Path pvInfo) of
                       Some disk \<Rightarrow> disk_ID disk | None \<Rightarrow> []))
           in if deviceID = [] then
                (Fail (MissingSystemResource
                         (Sprintf ''failed to find physical volume device: %s(%s)''
                            [ArgString (pvi_Path pvInfo), ArgString (pvi_Type pvInfo)])),
                 updated, s)
              else
                (case mutate client
                        (PhysicalVolumeCreate
                           \<lparr>pvo_HostID = host_ID (host s), pvo_DeviceID = deviceID,
                            pvo_VolumeGroupID = vg_ID vg, pvo_Type = pvi_Type pvInfo\<rparr>) s of
                   (Some e, s') \<Rightarrow>
                     (Fail (Wrap (ClientError e)
                              (Sprintf ''failed to create physical volume'' [])),
                      updated, s')
                 | (None, s') \<Rightarrow> (Continue, True, s'))))"

definition refresh_physical_volumes :: "ServiceClient \<Rightarrow> pass \<Rightarrow> outcome \<times> pass" where
  "refresh_physical_volumes client s =
     (case cl_ListPhysicalVolumes client (calls s) of
        Inl e \<Rightarrow>
          (Fail (Wrap (ClientError e) (Sprintf ''failed to refresh physical volume list'' [])),
           logged (PhysicalVolumeList (host_ID (host s))) s)
      | Inr result \<Rightarrow>
          (Continue,
           (logged (PhysicalVolumeList (host_ID (host s))) s)
             \<lparr>host := (host s)\<lparr>host_PhysicalVolumes := result\<rparr>\<rparr>))"

definition ReconcilePhysicalVolumes ::
  "HostReconciler \<Rightarrow> ServiceClient \<Rightarrow> Host \<Rightarrow> HostProfileSpec \<Rightarrow> VolumeGroupInfo \<Rightarrow>
   pass \<Rightarrow> outcome \<times> pass" where
  "ReconcilePhysicalVolumes r client inst profile grp s =
     (if \<not> IsReconcilerEnabled r PhysicalVolume then (Continue, s)
      else
        (case FindVolumeGroup r (host s) (vgi_Name grp) of
           None \<Rightarrow>
             (Fail (MissingSystemResource
                      (Sprintf ''unable to find volume group %s'' [ArgString (vgi_Name grp)])),
              s)
         | Some vg \<Rightarrow>
             (let (out, s1) = ReconcilePartitions r client inst profile grp s
              in if out \<noteq> Continue then (out, s1)
                 else
                   (let (out2, updated, s2) =
                          for_range (physical_volume_step r client grp vg)
                            (vgi_PhysicalVolumes grp) (False, s1)
                    in if out2 \<noteq> Continue then (out2, s2)
                       else if updated then refresh_physical_volumes client s2
                       else (Continue, s2)))))"

subsection \<open>ReconcileVolumeGroups\<close>

text \<open>
  \<open>vgo_Capabilities\<close> is the pointer to \<open>CapabilitiesOpts\<close>, of which the code sets
  the field \<open>LVMType\<close> only.
\<close>

fun volume_group_step ::
  "HostReconciler \<Rightarrow> ServiceClient \<Rightarrow> VolumeGroupInfo \<Rightarrow> bool \<times> pass \<Rightarrow>
   outcome \<times> bool \<times> pass" where
  "volume_group_step r client vgInfo (updated, s) =
     (case FindVolumeGroup r (host s) (vgi_Name vgInfo) of
        Some vg \<Rightarrow> (Continue, updated, s)
      | None \<Rightarrow>
          (case mutate client
                  (VolumeGroupCreate
                     \<lparr>vgo_HostID = Some (host_ID (host s)), vgo_Name = Some (vgi_Name vgInfo),
                      vgo_Capabilities =
                        (if vgi_LVMType vgInfo \<noteq> None then Some (vgi_LVMType vgInfo)
                         else None)\<rparr>) s of
             (Some e, s') \<Rightarrow>
               (Fail (Wrap (ClientError e)
                        (Sprintf ''failed to create volume group, %s'' [ArgStruct])),
                updated, s')
           | (None, s') \<Rightarrow> (Continue, True, s')))"

definition refresh_volume_groups :: "ServiceClient \<Rightarrow> pass \<Rightarrow> outcome \<times> pass" where
  "refresh_volume_groups client s =
     (case cl_ListVolumeGroups client (calls s) of
        Inl e \<Rightarrow>
          (Fail (Wrap (ClientError e) (Sprintf ''failed to refresh volume groups'' [])),
           logged (VolumeGroupList (host_ID (host s))) s)
      | Inr result \<Rightarrow>
          (Continue,
           (logged (VolumeGroupList (host_ID (host s))) s)
             \<lparr>host := (host s)\<lparr>host_VolumeGroups := result\<rparr>\<rparr>))"

definition ReconcileVolumeGroups ::
  "HostReconciler \<Rightarrow> ServiceClient \<Rightarrow> Host \<Rightarrow> HostProfileSpec \<Rightarrow> pass \<Rightarrow> outcome \<times> pass" where
  "ReconcileVolumeGroups r client inst profile s =
     (case prof_Storage profile of
        None \<Rightarrow> (NilDeref, s)
      | Some storage \<Rightarrow>
          (case ps_VolumeGroups storage of
             None \<Rightarrow> (Continue, s)
           | Some vgs \<Rightarrow>
               if \<not> IsReconcilerEnabled r VolumeGroup then (Continue, s)
               else
                 (let (out, updated, s1) = for_range (volume_group_step r client) vgs (False, s)
                  in if out \<noteq> Continue then (out, s1)
                     else
                       (let (out2, s2) =
                              (if updated then refresh_volume_groups client s1
                               else (Continue, s1))
                        in if out2 \<noteq> Continue then (out2, s2)
                           else for_range (ReconcilePhysicalVolumes r client inst profile)
                                  vgs s2))))"

subsection \<open>OSDs: update test, stale OSDs, admission gate, request payload\<close>

definition no_OSDOpts :: OSDOpts where
  "no_OSDOpts =
     \<lparr>oo_HostID = None, oo_DiskID = None, oo_Function = None, oo_JournalLocation = None,
      oo_JournalSize = None, oo_TierUUID = None\<rparr>"

definition osdUpdateRequired :: "OSDInfo \<Rightarrow> OSD \<Rightarrow> OSDOpts \<times> bool" where
  "osdUpdateRequired osdInfo osd =
     (case oi_Journal osdInfo of
        None \<Rightarrow> (no_OSDOpts, False)
      | Some journal \<Rightarrow>
          (if osd_JournalLocation osd = None then
             (no_OSDOpts\<lparr>oo_JournalLocation := Some (ji_Location journal),
                         oo_JournalSize := Some (ji_Size journal)\<rparr>, True)
           else if osd_JournalGibibytes osd \<noteq> ji_Size journal then
             (no_OSDOpts\<lparr>oo_JournalSize := Some (ji_Size journal)\<rparr>, True)
           else (no_OSDOpts, False)))"

text \<open>
  The two Go maps \<open>present\<close> and \<open>updated\<close> of ReconcileStaleOSDs, from identifiers to
  bool: a key that was never set reads as false.
\<close>

fun stale_mark ::
  "HostReconciler \<Rightarrow> HostInfo \<Rightarrow> OSDInfo \<Rightarrow> (string \<Rightarrow> bool) \<times> (string \<Rightarrow> bool) \<Rightarrow>
   (string \<Rightarrow> bool) \<times> (string \<Rightarrow> bool)" where
  "stale_mark r h osdInfo (present, updated) =
     (case FindOSDByPath r h (oi_Path osdInfo) of
        None \<Rightarrow> (present, updated)
      | Some osd \<Rightarrow>
          (let present' = present(osd_ID osd := True) in
           if osd_Function osd \<noteq> oi_Function osdInfo then
             (present', updated(osd_ID osd := True))
           else if oi_Journal osdInfo = None \<and> osd_JournalLocation osd \<noteq> None then
             (if osd_JournalLocation osd \<noteq> Some (osd_ID osd) then
                (present', updated(osd_ID osd := True))
              else (present', updated))
           else (present', updated)))"

fun stale_delete_step ::
  "ServiceClient \<Rightarrow> (string \<Rightarrow> bool) \<Rightarrow> (string \<Rightarrow> bool) \<Rightarrow> OSD \<Rightarrow> bool \<times> pass \<Rightarrow>
   outcome \<times> bool \<times> pass" where
  "stale_delete_step client present updated osd (changes, s) =
     (if \<not> present (osd_ID osd) \<or> updated (osd_ID osd) then
        (case mutate client (OSDDelete (osd_ID osd)) s of
           (Some e, s') \<Rightarrow>
             (Fail (Wrap (ClientError e) (Sprintf ''failed to delete OSD: %s'' [ArgStruct])),
              changes, s')
         | (None, s') \<Rightarrow> (Continue, True, s'))
      else (Continue, changes, s))"

definition refresh_osds :: "ServiceClient \<Rightarrow> pass \<Rightarrow> outcome \<times> pass" where
  "refresh_osds client s =
     (case cl_ListOSDs client (calls s) of
        Inl e \<Rightarrow>
          (Fail (Wrap (ClientError e) (Sprintf ''failed to refresh OSD list for host'' [])),
           logged (OSDList (host_ID (host s))) s)
      | Inr result \<Rightarrow>
          (Continue,
           (logged (OSDList (host_ID (host s))) s)\<lparr>host := (host s)\<lparr>host_OSDs := result\<rparr>\<rparr>))"

definition ReconcileStaleOSDs ::
  "HostReconciler \<Rightarrow> ServiceClient \<Rightarrow> Host \<Rightarrow> HostProfileSpec \<Rightarrow> pass \<Rightarrow> outcome \<times> pass" where
  "ReconcileStaleOSDs r client inst profile s =
     (case prof_Storage profile of
        None \<Rightarrow> (NilDeref, s)
      | Some storage \<Rightarrow>
          (case ps_OSDs storage of
             None \<Rightarrow> (Continue, s)
           | Some osdInfos \<Rightarrow>
               if \<not> IsReconcilerEnabled r OSD then (Continue, s)
               else
                 (let (present, updated) =
                        fold (stale_mark r (host s)) osdInfos (\<lambda>k. False, \<lambda>k. False);
                      (out, changes, s1) =
                        for_range (stale_delete_step client present updated)
                          (host_OSDs (host s)) (False, s)
                  in if out \<noteq> Continue then (out, s1)
                     else if changes then refresh_osds client s1
                     else (Continue, s1))))"

definition OSDProvisioningAllowed ::
  "HostReconciler \<Rightarrow> Host \<Rightarrow> OSDInfo \<Rightarrow> string option \<Rightarrow> HostInfo \<Rightarrow> outcome" where
  "OSDProvisioningAllowed r inst osdInfo tierUUID h =
     (let clusterName = oi_ClusterName osdInfo in
      case FindClusterByName r h clusterName of
        None \<Rightarrow>
          StartMonitor (ClusterPresenceMonitor inst clusterName)
            (Sprintf ''waiting for the %q cluster to be created before allowing OSDs''
               [ArgString clusterName])
      | Some cluster \<Rightarrow>
          if cluster_DeploymentModel cluster = DeploymentModelUndefined r then
            StartMonitor (ClusterDeploymentModelMonitor inst (cluster_ID cluster))
              (Sprintf ''waiting for storage deployment model to be defined before allowing OSDs''
                 [])
          else if (cluster_DeploymentModel cluster = DeploymentModelStorage r
                   \<or> cluster_DeploymentModel cluster = DeploymentModelController r)
                  \<and> GetSystemType r (inst_Namespace inst) = SystemTypeStandard
                  \<and> \<not> MonitorsEnabled r (OSDMinimumMonitorCount r) then
            StartMonitor (StorageMonitorCountMonitor inst (OSDMinimumMonitorCount r))
              (Sprintf ''waiting for %d monitor(s) to be enabled before allowing OSDs''
                 [ArgInt (OSDMinimumMonitorCount r)])
          else if tierUUID = None then
            StartMonitor (StorageTierMonitor inst (cluster_ID cluster) (StorageTierName r))
              (Sprintf ''waiting for the %q %s tier to be created''
                 [ArgString clusterName, ArgString (StorageTierName r)])
          else Continue)"

definition buildOSDOpts :: "HostReconciler \<Rightarrow> HostInfo \<Rightarrow> OSDInfo \<Rightarrow> err + OSDOpts" where
  "buildOSDOpts r h osdInfo =
     (case FindDiskByPath r h (oi_Path osdInfo) of
        None \<Rightarrow>
          Inl (MissingSystemResource
                 (Sprintf ''unable to find disk for path: %s'' [ArgString (oi_Path osdInfo)]))
      | Some disk \<Rightarrow>
          (let opts = no_OSDOpts\<lparr>oo_HostID := Some (host_ID h), oo_DiskID := Some (disk_ID disk),
                                  oo_Function := Some (oi_Function osdInfo)\<rparr>;
               tiered = (\<lambda>opts. case host_StorageTiers h (oi_ClusterName osdInfo) of
                                   Some tier \<Rightarrow> opts\<lparr>oo_TierUUID := Some (tier_ID tier)\<rparr>
                                 | None \<Rightarrow> opts)
           in case oi_Journal osdInfo of
                None \<Rightarrow> Inr (tiered opts)
              | Some ji \<Rightarrow>
                  (case FindOSDByPath r h (ji_Location ji) of
                     None \<Rightarrow>
                       Inl (MissingSystemResource
                              (Sprintf ''unable to find journal OSD with path: %s''
                                 [ArgString (ji_Location ji)]))
                   | Some journal \<Rightarrow>
                       if osd_Function journal \<noteq> FunctionJournal then
                         Inl (UserDataError
                                (Sprintf ''OSD on disk %s is not a Journal OSD''
                                   [ArgString (osd_DiskID journal)]))
                       else
                         Inr (tiered (opts\<lparr>oo_JournalLocation := Some (osd_ID journal),
                                           oo_JournalSize := Some (ji_Size ji)\<rparr>)))))"

subsection \<open>ReconcileOSDsByType and ReconcileOSDs\<close>

fun osd_step ::
  "HostReconciler \<Rightarrow> ServiceClient \<Rightarrow> Host \<Rightarrow> string \<Rightarrow> OSDInfo \<Rightarrow> bool \<times> pass \<Rightarrow>
   outcome \<times> bool \<times> pass" where
  "osd_step r client inst function osdInfo (updated, s) =
     (if oi_Function osdInfo \<noteq> function then (Continue, updated, s)
      else
        (case FindOSDByPath r (host s) (oi_Path osdInfo) of
           Some osd \<Rightarrow>
             (let (opts, ok) = osdUpdateRequired osdInfo osd in
              if ok then
                (case mutate client (OSDUpdate (osd_ID osd) opts) s of
                   (Some e, s') \<Rightarrow>
                     (Fail (Wrap (ClientError e)
                              (Sprintf ''failed to update OSD: %s, %s''
                                 [ArgString (osd_ID osd), ArgStruct])),
                      updated, s')
                 | (None, s') \<Rightarrow> (Continue, True, s'))
              else (Continue, updated, s))
         | None \<Rightarrow>
             (case buildOSDOpts r (host s) osdInfo of
                Inl e \<Rightarrow> (Fail e, updated, s)
              | Inr opts \<Rightarrow>
                  (let allowed = OSDProvisioningAllowed r inst osdInfo (oo_TierUUID opts) (host s)
                   in if allowed \<noteq> Continue then (allowed, updated, s)
                      else
                        (case mutate client (OSDCreate opts) s of
                           (Some e, s') \<Rightarrow>
                             (Fail (Wrap (ClientError e) (Sprintf ''failed to create OSD'' [])),
                              updated, s')
                         | (None, s') \<Rightarrow> (Continue, True, s'))))))"

definition ReconcileOSDsByType ::
  "HostReconciler \<Rightarrow> ServiceClient \<Rightarrow> Host \<Rightarrow> HostProfileSpec \<Rightarrow> string \<Rightarrow> pass \<Rightarrow>
   outcome \<times> pass" where
  "ReconcileOSDsByType r client inst profile function s =
     (case prof_Storage profile of
        None \<Rightarrow> (NilDeref, s)
      | Some storage \<Rightarrow>
          (case ps_OSDs storage of
             None \<Rightarrow> (NilDeref, s)
           | Some osdInfos \<Rightarrow>
               (let (out, updated, s1) =
                      for_range (osd_step r client inst function) osdInfos (False, s)
                in if out \<noteq> Continue then (out, s1)
                   else if updated then refresh_osds client s1
                   else (Continue, s1))))"

definition ReconcileOSDs ::
  "HostReconciler \<Rightarrow> ServiceClient \<Rightarrow> Host \<Rightarrow> HostProfileSpec \<Rightarrow> pass \<Rightarrow> outcome \<times> pass" where
  "ReconcileOSDs r client inst profile s =
     (case prof_Storage profile of
        None \<Rightarrow> (NilDeref, s)
      | Some storage \<Rightarrow>
          (case ps_OSDs storage of
             None \<Rightarrow> (Continue, s)
           | Some osdInfos \<Rightarrow>
               if \<not> IsReconcilerEnabled r OSD then (Continue, s)
               else if length osdInfos = 0 then (Continue, s)
               else for_range (ReconcileOSDsByType r client inst profile)
                      [FunctionJournal, FunctionOSD] s))"

subsection \<open>Filesystems\<close>

definition refresh_file_systems :: "ServiceClient \<Rightarrow> pass \<Rightarrow> outcome \<times> pass" where
  "refresh_file_systems client s =
     (case cl_ListFileSystems client (calls s) of
        Inl e \<Rightarrow>
          (Fail (Wrap (ClientError e) (Sprintf ''failed to list file systems'' [])),
           logged (FileSystemList (host_ID (host s))) s)
      | Inr result \<Rightarrow>
          (Continue,
           (logged (FileSystemList (host_ID (host s))) s)
             \<lparr>host := (host s)\<lparr>host_FileSystems := result\<rparr>\<rparr>))"

fun delete_file_system_step ::
  "ServiceClient \<Rightarrow> string \<Rightarrow> FileSystem \<Rightarrow> bool \<times> pass \<Rightarrow> outcome \<times> bool \<times> pass" where
  "delete_file_system_step client fsInfo fs (updated, s) =
     (if fsInfo = fs_Name fs then
        (case mutate client (FileSystemDelete (fs_ID fs)) s of
           (Some e, s') \<Rightarrow>
             (Fail (Wrap (ClientError e) (Sprintf ''failed to remove file systems'' [])),
              updated, s')
         | (None, s') \<Rightarrow>
             (let (out, s'') = refresh_file_systems client s' in (out, True, s'')))
      else (Continue, updated, s))"

text \<open>
  The inner \<open>range\<close> expression is evaluated when the inner loop starts: the loop
  goes over the filesystems of the snapshot as they were then, also after the body
  has replaced the list.
\<close>

definition DeleteFileSystems ::
  "HostReconciler \<Rightarrow> ServiceClient \<Rightarrow> string list \<Rightarrow> pass \<Rightarrow> outcome \<times> bool \<times> pass" where
  "DeleteFileSystems r client removed s =
     for_range
       (\<lambda>fsInfo (updated, s').
          for_range (delete_file_system_step client fsInfo) (host_FileSystems (host s'))
            (updated, s'))
       removed (False, s)"

fun create_file_system_step ::
  "ServiceClient \<Rightarrow> string \<Rightarrow> FileSystemInfo \<Rightarrow> bool \<times> pass \<Rightarrow> outcome \<times> bool \<times> pass" where
  "create_file_system_step client fsInfo fs (updated, s) =
     (if fsInfo = fsi_Name fs then
        (case mutate client
                (FileSystemCreate
                   \<lparr>cfo_Name = fsi_Name fs, cfo_Size = fsi_Size fs,
                    cfo_HostUUID = host_ID (host s)\<rparr>) s of
           (Some e, s') \<Rightarrow>
             (Fail (Wrap (ClientError e) (Sprintf ''failed to create file systems'' [])),
              updated, s')
         | (None, s') \<Rightarrow>
             (let (out, s'') = refresh_file_systems client s' in (out, True, s'')))
      else (Continue, updated, s))"

definition CreateFileSystems ::
  "HostReconciler \<Rightarrow> ServiceClient \<Rightarrow> string list \<Rightarrow> HostProfileSpec \<Rightarrow> pass \<Rightarrow>
   outcome \<times> bool \<times> pass" where
  "CreateFileSystems r client added profile s =
     for_range
       (\<lambda>fsInfo (updated, s').
          case prof_Storage profile of
            None \<Rightarrow> (NilDeref, updated, s')
          | Some storage \<Rightarrow>
              (case ps_FileSystems storage of
                 None \<Rightarrow> (NilDeref, updated, s')
               | Some fss \<Rightarrow>
                   for_range (create_file_system_step client fsInfo) fss (updated, s')))
       added (False, s)"

definition ReconcileFileSystemTypes ::
  "HostReconciler \<Rightarrow> ServiceClient \<Rightarrow> Host \<Rightarrow> HostProfileSpec \<Rightarrow> pass \<Rightarrow> outcome \<times> pass" where
  "ReconcileFileSystemTypes r client inst profile s =
     (case prof_Storage profile of
        None \<Rightarrow> (NilDeref, s)
      | Some storage \<Rightarrow>
          (case ps_FileSystems storage of
             None \<Rightarrow> (Continue, s)
           | Some fss \<Rightarrow>
               if \<not> IsReconcilerEnabled r FileSystemTypes then (Continue, s)
               else if length fss = 0 then (Continue, s)
               else
                 (let configured = map fsi_Name fss;
                      current = map fs_Name (host_FileSystems (host s));
                      (added, removed, unchanged) = ListDelta r current configured;
                      (a1, r1, fs_to_add) = ListDelta r added (FileSystemCreationAllowed r);
                      (a2, r2, fs_to_remove) = ListDelta r removed (FileSystemDeletionAllowed r);
                      (out, upd, s1) =
                        (if length fs_to_remove > 0 then DeleteFileSystems r client fs_to_remove s
                         else (Continue, False, s))
                  in if out \<noteq> Continue then (out, s1)
                     else if length fs_to_add > 0 then
                       (let (out2, upd2, s2) = CreateFileSystems r client fs_to_add profile s1
                        in (out2, s2))
                     else (Continue, s1))))"

text \<open>
  The inner loop of ReconcileFileSystemSizes has no early return: it is a fold over
  the filesystems of the snapshot, carrying \<open>found\<close> and the slice \<open>updates\<close>.
\<close>

fun file_system_size_inner ::
  "FileSystemInfo \<Rightarrow> FileSystem \<Rightarrow> bool \<times> FileSystemOpts list \<Rightarrow> bool \<times> FileSystemOpts list" where
  "file_system_size_inner fsInfo fs (found, updates) =
     (if fs_Name fs \<noteq> fsi_Name fsInfo then (found, updates)
      else if fsi_Size fsInfo > fs_Size fs then
        (True, updates @ [\<lparr>fo_Name = fsi_Name fsInfo, fo_Size = fsi_Size fsInfo\<rparr>])
      else (True, updates))"

definition file_system_size_step ::
  "HostInfo \<Rightarrow> FileSystemInfo \<Rightarrow> FileSystemOpts list \<Rightarrow> outcome \<times> FileSystemOpts list" where
  "file_system_size_step h fsInfo updates =
     (let (found, updates') =
            fold (file_system_size_inner fsInfo) (host_FileSystems h) (False, updates)
      in if \<not> found then
           (Fail (MissingSystemResource
                    (Sprintf ''unknown host filesystem %q'' [ArgString (fsi_Name fsInfo)])),
            updates')
         else (Continue, updates'))"

definition ReconcileFileSystemSizes ::
  "HostReconciler \<Rightarrow> ServiceClient \<Rightarrow> Host \<Rightarrow> HostProfileSpec \<Rightarrow> pass \<Rightarrow> outcome \<times> pass" where
  "ReconcileFileSystemSizes r client inst profile s =
     (case prof_Storage profile of
        None \<Rightarrow> (NilDeref, s)
      | Some storage \<Rightarrow>
          (case ps_FileSystems storage of
             None \<Rightarrow> (Continue, s)
           | Some fss \<Rightarrow>
               if \<not> IsReconcilerEnabled r FileSystemSizes then (Continue, s)
               else if length fss = 0 then (Continue, s)
               else if \<not> IsUnlockedAvailable r (host s) then
                 (StartMonitor (UnlockedAvailableHostMonitor inst (host_ID (host s)))
                    (Sprintf ''waiting for host to reach available state'' []), s)
               else
                 (let (out, updates) = for_range (file_system_size_step (host s)) fss []
                  in if out \<noteq> Continue then (out, s)
                     else if length updates > 0 then
                       (case mutate client (FileSystemUpdate (host_ID (host s)) updates) s of
                          (Some e, s') \<Rightarrow>
                            (Fail (Wrap (ClientError e)
                                     (Sprintf ''failed to update filesystems sizes'' [])), s')
                        | (None, s') \<Rightarrow> (Continue, s'))
                     else (Continue, s))))"

subsection \<open>ReconcileStorage\<close>

definition ReconcileStorage ::
  "HostReconciler \<Rightarrow> ServiceClient \<Rightarrow> Host \<Rightarrow> HostProfileSpec \<Rightarrow> pass \<Rightarrow> outcome \<times> pass" where
  "ReconcileStorage r client inst profile s =
     (if \<not> IsReconcilerEnabled r Storage then (Continue, s)
      else if prof_Storage profile = None then (Continue, s)
      else
        (let (out1, s1) = ReconcileMonitor r client inst profile s in
         if out1 \<noteq> Continue then (out1, s1)
         else
           (let (out2, s2) = ReconcileFileSystemTypes r client inst profile s1 in
            if out2 \<noteq> Continue then (out2, s2)
            else
              (let (out3, s3) = ReconcileVolumeGroups r client inst profile s2 in
               if out3 \<noteq> Continue then (out3, s3)
               else
                 (let (out4, s4) = ReconcileStaleOSDs r client inst profile s3 in
                  if out4 \<noteq> Continue then (out4, s4)
                  else
                    (case OSDProvisioningState r (inst_Namespace inst)
                            (host_Personality (host s4)) of
                       RequiredStateDisabled \<Rightarrow> ReconcileOSDs r client inst profile s4
                     | RequiredStateAny \<Rightarrow> ReconcileOSDs r client inst profile s4
                     | RequiredStateEnabled \<Rightarrow> (Continue, s4)
                     | RequiredStateNone \<Rightarrow> (Continue, s4)))))))"

section \<open>What the claims speak of\<close>

subsection \<open>Monitor updates\<close>

text \<open>
  The updates of a pass of ReconcileMonitor that wants the monitor \<open>mi\<close>: one for each
  monitor of the host whose size differs from a specified desired size.
\<close>

definition monitor_updates :: "string \<Rightarrow> MonitorInfo \<Rightarrow> CephMonitor list \<Rightarrow> call list" where
  "monitor_updates hid mi ms =
     map (\<lambda>m. CephMonitorUpdate hid \<lparr>mo_HostUUID = None, mo_Size = mi_Size mi\<rparr>)
       (filter (\<lambda>m. mon_HostUUID m = hid \<and> mi_Size mi \<noteq> None
                   \<and> mi_Size mi \<noteq> Some (mon_Size m)) ms)"

subsection \<open>Stale OSDs\<close>

text \<open>
  The desired entry \<open>e\<close> matches the record with identifier \<open>k\<close> by backing path; it
  asks for the record to be created again when the functions differ, or when the
  entry has no journal and the record has a journal location other than its own
  identifier.
\<close>

definition matches_desired :: "HostReconciler \<Rightarrow> HostInfo \<Rightarrow> OSDInfo \<Rightarrow> string \<Rightarrow> bool" where
  "matches_desired r h e k \<longleftrightarrow>
     (case FindOSDByPath r h (oi_Path e) of Some osd \<Rightarrow> osd_ID osd = k | None \<Rightarrow> False)"

definition recreate_needed :: "HostReconciler \<Rightarrow> HostInfo \<Rightarrow> OSDInfo \<Rightarrow> string \<Rightarrow> bool" where
  "recreate_needed r h e k \<longleftrightarrow>
     (case FindOSDByPath r h (oi_Path e) of
        Some osd \<Rightarrow>
          osd_ID osd = k \<and>
          (osd_Function osd \<noteq> oi_Function e
           \<or> (oi_Journal e = None \<and> osd_JournalLocation osd \<noteq> None
               \<and> osd_JournalLocation osd \<noteq> Some (osd_ID osd)))
      | None \<Rightarrow> False)"

definition stale_osd :: "HostReconciler \<Rightarrow> HostInfo \<Rightarrow> OSDInfo list \<Rightarrow> OSD \<Rightarrow> bool" where
  "stale_osd r h ds osd \<longleftrightarrow>
     \<not> list_ex (\<lambda>e. matches_desired r h e (osd_ID osd)) ds
     \<or> list_ex (\<lambda>e. recreate_needed r h e (osd_ID osd)) ds"

text \<open>The deletions of a pass of ReconcileStaleOSDs, in the order of the snapshot.\<close>

definition stale_deletes :: "HostReconciler \<Rightarrow> HostInfo \<Rightarrow> OSDInfo list \<Rightarrow> call list" where
  "stale_deletes r h ds =
     map (\<lambda>osd. OSDDelete (osd_ID osd)) (filter (stale_osd r h ds) (host_OSDs h))"

subsection \<open>Growing filesystems\<close>

text \<open>
  The entries of the combined update: for each desired filesystem in turn, one entry
  for each filesystem of that name on the host whose size is strictly below the
  desired size.
\<close>

definition growing :: "HostInfo \<Rightarrow> FileSystemInfo list \<Rightarrow> FileSystemOpts list" where
  "growing h fis =
     concat (map (\<lambda>fi. map (\<lambda>fs. \<lparr>fo_Name = fsi_Name fi, fo_Size = fsi_Size fi\<rparr>)
                          (filter (\<lambda>fs. fs_Name fs = fsi_Name fi \<and> fs_Size fs < fsi_Size fi)
                             (host_FileSystems h))) fis)"

definition on_host :: "HostInfo \<Rightarrow> FileSystemInfo \<Rightarrow> bool" where
  "on_host h fi \<longleftrightarrow> list_ex (\<lambda>fs. fs_Name fs = fsi_Name fi) (host_FileSystems h)"

subsection \<open>Partitions that need no work\<close>

text \<open>
  ReconcilePartitions passes over an entry that is not of partition type, that has
  no size, or for which a matching partition is in the snapshot.
\<close>

definition passed_over :: "HostReconciler \<Rightarrow> HostInfo \<Rightarrow> VolumeGroupInfo \<Rightarrow> PhysicalVolumeInfo \<Rightarrow> bool" where
  "passed_over r h grp pvInfo \<longleftrightarrow>
     (case pvi_Size pvInfo of
        None \<Rightarrow> True
      | Some n \<Rightarrow>
          pvi_Type pvInfo \<noteq> PVTypePartition
          \<or> FindPartitionByPath r h (pvi_Path pvInfo) n (vgi_Name grp) \<noteq> None)"

text \<open>
  A desired physical volume that needs a partition for which the snapshot has neither
  a matching partition nor a disk at the backing path.
\<close>

definition lacks_disk :: "HostReconciler \<Rightarrow> HostInfo \<Rightarrow> VolumeGroupInfo \<Rightarrow> PhysicalVolumeInfo \<Rightarrow> bool" where
  "lacks_disk r h grp pvInfo \<longleftrightarrow>
     \<not> passed_over r h grp pvInfo \<and> FindDiskByPath r h (pvi_Path pvInfo) = None"

text \<open>The request that ReconcilePartitions sends for an entry whose disk is \<open>d\<close>.\<close>

definition partition_request :: "HostReconciler \<Rightarrow> HostInfo \<Rightarrow> PhysicalVolumeInfo \<Rightarrow> Disk \<Rightarrow> call" where
  "partition_request r h pvInfo d =
     PartitionCreate
       \<lparr>dpo_HostID = host_ID h, dpo_DiskID = disk_ID d,
        dpo_TypeName = Some (PartitionTypeLVM r),
        dpo_TypeGUID = Some (PartitionTypeMap r (PartitionTypeLVM r)),
        dpo_Size = (case pvi_Size pvInfo of Some n \<Rightarrow> n | None \<Rightarrow> 0)\<rparr>"

subsection \<open>The admission gate\<close>

text \<open>
  The third condition of the gate: the deployment model of the cluster is that of
  storage or of controller nodes, the system is a standard one, and fewer than the
  minimum number of monitors are enabled.
\<close>

definition monitors_lacking :: "HostReconciler \<Rightarrow> Host \<Rightarrow> Cluster \<Rightarrow> bool" where
  "monitors_lacking r inst cluster \<longleftrightarrow>
     (cluster_DeploymentModel cluster = DeploymentModelStorage r
      \<or> cluster_DeploymentModel cluster = DeploymentModelController r)
     \<and> GetSystemType r (inst_Namespace inst) = SystemTypeStandard
     \<and> \<not> MonitorsEnabled r (OSDMinimumMonitorCount r)"

subsection \<open>The steps of the orchestrator\<close>

text \<open>
  The last step of ReconcileStorage: ReconcileOSDs when the required state is
  Disabled or Any, nothing otherwise.
\<close>

definition osd_stage ::
  "HostReconciler \<Rightarrow> ServiceClient \<Rightarrow> Host \<Rightarrow> HostProfileSpec \<Rightarrow> pass \<Rightarrow> outcome \<times> pass" where
  "osd_stage r client inst profile s =
     (if OSDProvisioningState r (inst_Namespace inst) (host_Personality (host s))
           \<in> {RequiredStateDisabled, RequiredStateAny}
      then ReconcileOSDs r client inst profile s else (Continue, s))"

definition storage_steps ::
  "HostReconciler \<Rightarrow> ServiceClient \<Rightarrow> Host \<Rightarrow> HostProfileSpec \<Rightarrow> (pass \<Rightarrow> outcome \<times> pass) list" where
  "storage_steps r client inst profile =
     [ReconcileMonitor r client inst profile,
      ReconcileFileSystemTypes r client inst profile,
      ReconcileVolumeGroups r client inst profile,
      ReconcileStaleOSDs r client inst profile,
      osd_stage r client inst profile]"

text \<open>
  Steps run in order; the first one that does not yield \<open>Continue\<close> ends the pass.
\<close>

definition run_steps :: "(pass \<Rightarrow> outcome \<times> pass) list \<Rightarrow> pass \<Rightarrow> outcome \<times> pass" where
  "run_steps steps s = for_range (\<lambda>step. step) steps s"

text \<open>
  Modelled from the spec: whether the current power state of the host satisfies a
  required state is decided outside storage.go.  By the spec, Any is satisfied at
  any power state, Enabled by a powered-up/enabled host, Disabled by a powered-down/
  disabled host, and None by no state.
\<close>

definition host_state_satisfies :: "RequiredState \<Rightarrow> HostInfo \<Rightarrow> bool" where
  "host_state_satisfies required h \<longleftrightarrow>
     (case required of
        RequiredStateAny \<Rightarrow> True
      | RequiredStateEnabled \<Rightarrow> host_OperationalState h = ''enabled''
      | RequiredStateDisabled \<Rightarrow> host_OperationalState h = ''disabled''
      | RequiredStateNone \<Rightarrow> False)"

text \<open>
  The last step of the pass as the spec words it: ReconcileOSDs when the power
  state of the host satisfies the required state, nothing otherwise.
\<close>

definition claimed_osd_stage ::
  "HostReconciler \<Rightarrow> ServiceClient \<Rightarrow> Host \<Rightarrow> HostProfileSpec \<Rightarrow> pass \<Rightarrow> outcome \<times> pass" where
  "claimed_osd_stage r client inst profile s =
     (if host_state_satisfies
           (OSDProvisioningState r (inst_Namespace inst) (host_Personality (host s))) (host s)
      then ReconcileOSDs r client inst profile s else (Continue, s))"

definition claimed_steps ::
  "HostReconciler \<Rightarrow> ServiceClient \<Rightarrow> Host \<Rightarrow> HostProfileSpec \<Rightarrow> (pass \<Rightarrow> outcome \<times> pass) list" where
  "claimed_steps r client inst profile =
     [ReconcileMonitor r client inst profile,
      ReconcileFileSystemTypes r client inst profile,
      ReconcileVolumeGroups r client inst profile,
      ReconcileStaleOSDs r client inst profile,
      claimed_osd_stage r client inst profile]"

text \<open>
  The operational state of the host of a pass, and a remote system whose system
  partitions leave that state alone.
\<close>

definition power_state :: "pass \<Rightarrow> string" where
  "power_state s = host_OperationalState (host s)"

definition keeps_power_state :: "ServiceClient \<Rightarrow> bool" where
  "keeps_power_state client \<longleftrightarrow>
     (\<forall>tr h h'. cl_PopulateSystemPartitions client tr h = Inr h' \<longrightarrow>
        host_OperationalState h' = host_OperationalState h)"

section \<open>A sample platform\<close>

text \<open>
  Concrete collaborators on which the functions above are run.

  Modelled from the spec: the lookup methods of the snapshot and \<open>common.ListDelta\<close>
  are not in the source at hand.  The sample lookups search the snapshot by backing
  path, by name, and by (group, type, path, size), as the spec words them; the sample
  delta gives the names added, removed and unchanged.
\<close>

definition sample_ListDelta ::
  "string list \<Rightarrow> string list \<Rightarrow> string list \<times> string list \<times> string list" where
  "sample_ListDelta current configured =
     (filter (\<lambda>x. x \<notin> set current) configured,
      filter (\<lambda>x. x \<notin> set configured) current,
      filter (\<lambda>x. x \<in> set configured) current)"

definition sample_FindDiskByPath :: "HostInfo \<Rightarrow> string \<Rightarrow> Disk option" where
  "sample_FindDiskByPath h path = find (\<lambda>d. disk_DevicePath d = path) (host_Disks h)"

definition sample_FindVolumeGroup :: "HostInfo \<Rightarrow> string \<Rightarrow> VolumeGroup option" where
  "sample_FindVolumeGroup h name = find (\<lambda>vg. vg_Name vg = name) (host_VolumeGroups h)"

definition in_group :: "HostInfo \<Rightarrow> string \<Rightarrow> PhysicalVolume \<Rightarrow> bool" where
  "in_group h name pv \<longleftrightarrow>
     list_ex (\<lambda>vg. vg_ID vg = pv_VolumeGroupID pv \<and> vg_Name vg = name) (host_VolumeGroups h)"

definition sample_FindPartitionByPath ::
  "HostInfo \<Rightarrow> string \<Rightarrow> int \<Rightarrow> string \<Rightarrow> Partition option" where
  "sample_FindPartitionByPath h path n name =
     (case sample_FindDiskByPath h path of
        None \<Rightarrow> None
      | Some d \<Rightarrow>
          find (\<lambda>p. part_DiskID p = disk_ID d \<and> part_Size p = n
                    \<and> list_all (\<lambda>pv. pv_DevicePath pv = part_DevicePath p \<longrightarrow> in_group h name pv)
                        (host_PhysicalVolumes h))
            (host_Partitions h))"

definition sample_FindPhysicalVolume ::
  "HostInfo \<Rightarrow> string \<Rightarrow> string \<Rightarrow> string \<Rightarrow> int \<Rightarrow> PhysicalVolume option" where
  "sample_FindPhysicalVolume h name type path n =
     find (\<lambda>pv. in_group h name pv \<and> pv_Type pv = type \<and> pv_DevicePath pv = path
                 \<and> pv_Size pv = n)
       (host_PhysicalVolumes h)"

definition sample_FindOSDByPath :: "HostInfo \<Rightarrow> string \<Rightarrow> OSD option" where
  "sample_FindOSDByPath h path =
     (case sample_FindDiskByPath h path of
        None \<Rightarrow> None
      | Some d \<Rightarrow> find (\<lambda>osd. osd_DiskID osd = disk_ID d) (host_OSDs h))"

definition sample_FindClusterByName :: "HostInfo \<Rightarrow> string \<Rightarrow> Cluster option" where
  "sample_FindClusterByName h name = find (\<lambda>c. cluster_Name c = name) (host_Clusters h)"

definition sample_IsUnlockedAvailable :: "HostInfo \<Rightarrow> bool" where
  "sample_IsUnlockedAvailable h \<longleftrightarrow>
     host_AdministrativeState h = ''unlocked'' \<and> host_AvailabilityState h = ''available''"

definition sample_reconciler :: "SystemType \<Rightarrow> HostReconciler" where
  "sample_reconciler t =
     \<lparr>GetSystemType = (\<lambda>namespace. t),
      MonitorsEnabled = (\<lambda>n. True),
      IsReconcilerEnabled = (\<lambda>k. True),
      ListDelta = sample_ListDelta,
      FileSystemCreationAllowed = [''instances''],
      FileSystemDeletionAllowed = [''instances''],
      FindPartitionByPath = sample_FindPartitionByPath,
      FindDiskByPath = sample_FindDiskByPath,
      FindVolumeGroup = sample_FindVolumeGroup,
      FindPhysicalVolume = sample_FindPhysicalVolume,
      FindOSDByPath = sample_FindOSDByPath,
      FindClusterByName = sample_FindClusterByName,
      IsUnlockedAvailable = sample_IsUnlockedAvailable,
      DeploymentModelUndefined = ''undefined'',
      DeploymentModelStorage = ''storage-nodes'',
      DeploymentModelController = ''controller-nodes'',
      OSDMinimumMonitorCount = 2,
      StorageTierName = ''storage'',
      PartitionTypeLVM = ''lvm_phys_vol'',
      PartitionTypeMap = (\<lambda>name. ''ba5eba11-0000-1111-2222-000000000001'')\<rparr>"

text \<open>A remote system where every call succeeds and every list is \<open>osds\<close> or empty.\<close>

definition sample_client :: "OSD list \<Rightarrow> ServiceClient" where
  "sample_client osds =
     \<lparr>cl_mutate = (\<lambda>tr c. None),
      cl_ListCephMonitors = (\<lambda>tr. Inr []),
      cl_ListPartitions = (\<lambda>tr. Inr []),
      cl_PopulateSystemPartitions = (\<lambda>tr h. Inr h),
      cl_ListPhysicalVolumes = (\<lambda>tr. Inr []),
      cl_ListVolumeGroups = (\<lambda>tr. Inr []),
      cl_ListOSDs = (\<lambda>tr. Inr osds),
      cl_ListFileSystems = (\<lambda>tr. Inr [])\<rparr>"

definition sample_instance :: Host where
  "sample_instance = \<lparr>inst_Name = ''storage-0'', inst_Namespace = ''deployment''\<rparr>"

text \<open>
  An unlocked, enabled and available host with two disks, one cluster with a
  defined deployment model and its storage tier, and nothing provisioned.
\<close>

definition sample_host :: "string \<Rightarrow> HostInfo" where
  "sample_host personality =
     \<lparr>host_ID = ''host-1'',
      host_Personality = personality,
      host_AdministrativeState = ''unlocked'',
      host_OperationalState = ''enabled'',
      host_AvailabilityState = ''available'',
      host_Disks = [\<lparr>disk_ID = ''disk-a'', disk_DevicePath = ''/dev/sda''\<rparr>,
                    \<lparr>disk_ID = ''disk-b'', disk_DevicePath = ''/dev/sdb''\<rparr>],
      host_Partitions = [],
      host_PhysicalVolumes = [],
      host_VolumeGroups = [],
      host_OSDs = [],
      host_FileSystems = [],
      host_StorageTiers = [''ceph_cluster'' \<mapsto> \<lparr>tier_ID = ''tier-1''\<rparr>],
      host_Clusters = [\<lparr>cluster_ID = ''cluster-1'', cluster_Name = ''ceph_cluster'',
                        cluster_DeploymentModel = ''controller-nodes''\<rparr>]\<rparr>"

definition sample_journal_osd :: OSDInfo where
  "sample_journal_osd =
     \<lparr>oi_Function = FunctionJournal, oi_Path = ''/dev/sda'', oi_Journal = None,
      oi_ClusterName = ''ceph_cluster''\<rparr>"

definition sample_data_osd :: OSDInfo where
  "sample_data_osd =
     \<lparr>oi_Function = FunctionOSD, oi_Path = ''/dev/sdb'',
      oi_Journal = Some \<lparr>ji_Location = ''/dev/sda'', ji_Size = 1\<rparr>,
      oi_ClusterName = ''ceph_cluster''\<rparr>"

definition sample_profile :: "OSDInfo list option \<Rightarrow> HostProfileSpec" where
  "sample_profile osds =
     \<lparr>prof_Personality = Some PersonalityStorage,
      prof_Storage = Some \<lparr>ps_Monitor = None, ps_OSDs = osds, ps_VolumeGroups = None,
                           ps_FileSystems = None\<rparr>\<rparr>"

subsection \<open>Sample inputs\<close>

text \<open>Two monitors, the second one on the sample host; a worker profile.\<close>

definition sample_monitors :: "CephMonitor list" where
  "sample_monitors = [\<lparr>mon_HostUUID = ''host-0'', mon_Size = 20\<rparr>, \<lparr>mon_HostUUID = ''host-1'', mon_Size = 20\<rparr>]"

definition worker_profile :: "MonitorInfo option \<Rightarrow> HostProfileSpec" where
  "worker_profile m =
     \<lparr>prof_Personality = Some PersonalityWorker,
      prof_Storage = Some \<lparr>ps_Monitor = m, ps_OSDs = None, ps_VolumeGroups = None,
                           ps_FileSystems = None\<rparr>\<rparr>"

definition monitor_client :: ServiceClient where
  "monitor_client = (sample_client [])\<lparr>cl_ListCephMonitors := (\<lambda>tr. Inr sample_monitors)\<rparr>"

text \<open>
  A volume group that wants a partition of size 10 on a path where the sample host has no
  disk, and a partition that is being created.
\<close>

definition sample_group :: VolumeGroupInfo where
  "sample_group =
     \<lparr>vgi_Name = ''cgts-vg'', vgi_LVMType = None,
      vgi_PhysicalVolumes =
        [\<lparr>pvi_Type = PVTypePartition, pvi_Path = ''/dev/sdc'', pvi_Size = Some 10\<rparr>]\<rparr>"

definition creating_partition :: Partition where
  "creating_partition =
     \<lparr>part_ID = ''part-1'', part_DevicePath = ''/dev/sda1'', part_DiskID = ''disk-a'',
      part_Size = 10, part_Status = StatusCreating\<rparr>"

text \<open>The sample reconciler with the partition reconciler switched off.\<close>

definition partition_reconciler_off :: HostReconciler where
  "partition_reconciler_off =
     (sample_reconciler SystemTypeStandard)\<lparr>IsReconcilerEnabled := (\<lambda>k. k \<noteq> Partition)\<rparr>"

text \<open>
  Two OSDs of the sample host: the first on the first disk, with a journal located on
  itself; the second on the second disk.  A desired entry for the first disk.
\<close>

definition sample_osd_a :: OSD where
  "sample_osd_a =
     \<lparr>osd_ID = ''osd-a'', osd_Function = FunctionOSD, osd_DiskID = ''disk-a'',
      osd_JournalLocation = Some ''osd-a'', osd_JournalGibibytes = 1\<rparr>"

definition sample_osd_b :: OSD where
  "sample_osd_b =
     \<lparr>osd_ID = ''osd-b'', osd_Function = FunctionOSD, osd_DiskID = ''disk-b'',
      osd_JournalLocation = None, osd_JournalGibibytes = 0\<rparr>"

definition sample_plain_osd :: OSDInfo where
  "sample_plain_osd =
     \<lparr>oi_Function = FunctionOSD, oi_Path = ''/dev/sda'', oi_Journal = None,
      oi_ClusterName = ''ceph_cluster''\<rparr>"

definition host_with_osds :: HostInfo where
  "host_with_osds = (sample_host PersonalityStorage)\<lparr>host_OSDs := [sample_osd_a, sample_osd_b]\<rparr>"

text \<open>Hosts and reconcilers for the five ways through the gate.\<close>

definition gate_host :: "string \<Rightarrow> HostInfo" where
  "gate_host model =
     (sample_host PersonalityStorage)
       \<lparr>host_Clusters := [\<lparr>cluster_ID = ''cluster-1'', cluster_Name = ''ceph_cluster'',
                           cluster_DeploymentModel = model\<rparr>]\<rparr>"

definition few_monitors :: HostReconciler where
  "few_monitors = (sample_reconciler SystemTypeStandard)\<lparr>MonitorsEnabled := (\<lambda>n. False)\<rparr>"

text \<open>
  A host with two filesystems of size 10, and a profile that wants the first smaller and
  the second larger.
\<close>

definition host_with_filesystems :: HostInfo where
  "host_with_filesystems =
     (sample_host PersonalityStorage)
       \<lparr>host_FileSystems := [\<lparr>fs_ID = ''fs-1'', fs_Name = ''backup'', fs_Size = 10\<rparr>,
                             \<lparr>fs_ID = ''fs-2'', fs_Name = ''docker'', fs_Size = 10\<rparr>]\<rparr>"

definition filesystem_profile :: "FileSystemInfo list \<Rightarrow> HostProfileSpec" where
  "filesystem_profile fis =
     \<lparr>prof_Personality = Some PersonalityStorage,
      prof_Storage = Some \<lparr>ps_Monitor = None, ps_OSDs = None, ps_VolumeGroups = None,
                           ps_FileSystems = Some fis\<rparr>\<rparr>"

text \<open>
  The record that the remote system keeps for the journal OSD of the sample profile,
  and the two requests that the pass sends.
\<close>

definition sample_journal_record :: OSD where
  "sample_journal_record =
     \<lparr>osd_ID = ''osd-j'', osd_Function = FunctionJournal, osd_DiskID = ''disk-a'',
      osd_JournalLocation = None, osd_JournalGibibytes = 0\<rparr>"

definition journal_request :: OSDOpts where
  "journal_request =
     \<lparr>oo_HostID = Some ''host-1'', oo_DiskID = Some ''disk-a'',
      oo_Function = Some FunctionJournal, oo_JournalLocation = None, oo_JournalSize = None,
      oo_TierUUID = Some ''tier-1''\<rparr>"

definition data_request :: OSDOpts where
  "data_request =
     \<lparr>oo_HostID = Some ''host-1'', oo_DiskID = Some ''disk-b'',
      oo_Function = Some FunctionOSD, oo_JournalLocation = Some ''osd-j'',
      oo_JournalSize = Some 1, oo_TierUUID = Some ''tier-1''\<rparr>"

text \<open>
  The request for an OSD on the first disk.
\<close>

definition plain_request :: OSDOpts where
  "plain_request =
     \<lparr>oo_HostID = Some ''host-1'', oo_DiskID = Some ''disk-a'',
      oo_Function = Some FunctionOSD, oo_JournalLocation = None, oo_JournalSize = None,
      oo_TierUUID = Some ''tier-1''\<rparr>"

text \<open>
  A locked and disabled host that holds the second sample OSD, a remote system that
  answers every list with one record, and a profile that wants a monitor, a
  filesystem, a volume group on a partition of the second disk, and an OSD on the
  first disk.
\<close>

definition ready_partition :: Partition where
  "ready_partition =
     \<lparr>part_ID = ''part-2'', part_DevicePath = ''/dev/sdb1'', part_DiskID = ''disk-b'',
      part_Size = 10, part_Status = StatusOther ''Ready''\<rparr>"

definition nova_group :: VolumeGroupInfo where
  "nova_group =
     \<lparr>vgi_Name = ''nova-local'', vgi_LVMType = None,
      vgi_PhysicalVolumes =
        [\<lparr>pvi_Type = PVTypePartition, pvi_Path = ''/dev/sdb'', pvi_Size = Some 10\<rparr>]\<rparr>"

definition storage_client :: "Partition \<Rightarrow> ServiceClient" where
  "storage_client p =
     \<lparr>cl_mutate = (\<lambda>tr c. None),
      cl_ListCephMonitors = (\<lambda>tr. Inr []),
      cl_ListPartitions = (\<lambda>tr. Inr [p]),
      cl_PopulateSystemPartitions = (\<lambda>tr h. Inr h),
      cl_ListPhysicalVolumes =
        (\<lambda>tr. Inr [\<lparr>pv_ID = ''pv-1'', pv_Type = PVTypePartition, pv_DevicePath = ''/dev/sdb1'',
                     pv_Size = 10, pv_VolumeGroupID = ''vg-1''\<rparr>]),
      cl_ListVolumeGroups = (\<lambda>tr. Inr [\<lparr>vg_ID = ''vg-1'', vg_Name = ''nova-local''\<rparr>]),
      cl_ListOSDs = (\<lambda>tr. Inr []),
      cl_ListFileSystems =
        (\<lambda>tr. Inr [\<lparr>fs_ID = ''fs-1'', fs_Name = ''instances'', fs_Size = 10\<rparr>])\<rparr>"

definition full_profile :: "string \<Rightarrow> HostProfileSpec" where
  "full_profile personality =
     \<lparr>prof_Personality = Some personality,
      prof_Storage =
        Some \<lparr>ps_Monitor = Some \<lparr>mi_Size = Some 20\<rparr>, ps_OSDs = Some [sample_plain_osd],
              ps_VolumeGroups = Some [nova_group],
              ps_FileSystems = Some [\<lparr>fsi_Name = ''instances'', fsi_Size = 10\<rparr>]\<rparr>\<rparr>"

definition locked_pass :: "string \<Rightarrow> pass" where
  "locked_pass personality =
     \<lparr>host = (sample_host personality)
               \<lparr>host_AdministrativeState := ''locked'', host_OperationalState := ''disabled'',
                host_AvailabilityState := ''online'', host_OSDs := [sample_osd_b]\<rparr>,
      calls = []\<rparr>"

section \<open>Properties\<close>

subsection \<open>Iteration and client calls\<close>

lemma mutate_calls [simp]: "calls (snd (mutate client c s)) = calls s @ [c]"
  by (simp add: mutate_def)

lemma mutate_host [simp]: "host (snd (mutate client c s)) = host s"
  by (simp add: mutate_def)

lemma mutate_ok:
  "\<forall>tr c. cl_mutate client tr c = None \<Longrightarrow>
   mutate client c s = (None, s\<lparr>calls := calls s @ [c]\<rparr>)"
  by (simp add: mutate_def)

subsection \<open>The provisioning state\<close>

lemma storage_folds:
  "EqualFold ''storage'' PersonalityStorage" "EqualFold ''Storage'' PersonalityStorage"
  "\<not> EqualFold ''controller'' PersonalityStorage" "\<not> EqualFold PersonalityWorker PersonalityStorage"
  by (simp_all add: PersonalityStorage_def PersonalityWorker_def is_upper_of_def)

text \<open>
  Claim C1, as the code has it.  The required state depends on the system type and the
  personality only.  On an all-in-one system it is Any.  On a standard system it is
  Disabled for a host whose personality is \<open>storage\<close> up to case folding, and Enabled
  for every other personality.  It is None exactly when the system type is neither
  all-in-one nor standard.
\<close>

theorem OSDProvisioningState_cases:
  "(GetSystemType r ns = SystemTypeAllInOne \<longrightarrow> OSDProvisioningState r ns p = RequiredStateAny) \<and>
   (GetSystemType r ns = SystemTypeStandard \<and> EqualFold p PersonalityStorage \<longrightarrow>
      OSDProvisioningState r ns p = RequiredStateDisabled) \<and>
   (GetSystemType r ns = SystemTypeStandard \<and> \<not> EqualFold p PersonalityStorage \<longrightarrow>
      OSDProvisioningState r ns p = RequiredStateEnabled) \<and>
   (OSDProvisioningState r ns p = RequiredStateNone \<longleftrightarrow>
      GetSystemType r ns \<noteq> SystemTypeAllInOne \<and> GetSystemType r ns \<noteq> SystemTypeStandard) \<and>
   (GetSystemType r' ns' = GetSystemType r ns \<longrightarrow>
      OSDProvisioningState r' ns' p = OSDProvisioningState r ns p)"
  by (simp add: OSDProvisioningState_def split: SystemType.splits)

text \<open>
  The theorem at work on the sample platform: any state on an all-in-one system;
  on a standard system Disabled for \<open>Storage\<close>, Enabled for \<open>controller\<close> and for
  \<open>worker\<close>; None on a system of another type.
\<close>

theorem OSDProvisioningState_cases_witness:
  "OSDProvisioningState (sample_reconciler SystemTypeAllInOne) ''deployment'' ''controller''
     = RequiredStateAny \<and>
   OSDProvisioningState (sample_reconciler SystemTypeStandard) ''deployment'' ''Storage''
     = RequiredStateDisabled \<and>
   OSDProvisioningState (sample_reconciler SystemTypeStandard) ''deployment'' ''controller''
     = RequiredStateEnabled \<and>
   OSDProvisioningState (sample_reconciler SystemTypeStandard) ''deployment'' PersonalityWorker
     = RequiredStateEnabled \<and>
   OSDProvisioningState (sample_reconciler (SystemTypeOther ''unknown'')) ''deployment'' ''storage''
     = RequiredStateNone"
proof -
  have t: "GetSystemType (sample_reconciler t) ''deployment'' = t" for t
    by (simp add: sample_reconciler_def)
  note c = OSDProvisioningState_cases [where ns = "''deployment''" and r' = r and ns' = ns
      and r = "sample_reconciler t" for t r ns]
  have "OSDProvisioningState (sample_reconciler SystemTypeAllInOne) ''deployment'' ''controller''
     = RequiredStateAny"
    using c [of SystemTypeAllInOne "''controller''"] by (simp only: t simp_thms)
  moreover have "OSDProvisioningState (sample_reconciler SystemTypeStandard) ''deployment''
     ''Storage'' = RequiredStateDisabled"
    using c [of SystemTypeStandard "''Storage''"] storage_folds(2) by (simp only: t simp_thms)
  moreover have "OSDProvisioningState (sample_reconciler SystemTypeStandard) ''deployment''
     ''controller'' = RequiredStateEnabled"
    using c [of SystemTypeStandard "''controller''"] storage_folds(3) by (simp only: t simp_thms)
  moreover have "OSDProvisioningState (sample_reconciler SystemTypeStandard) ''deployment''
     PersonalityWorker = RequiredStateEnabled"
    using c [of SystemTypeStandard PersonalityWorker] storage_folds(4) by (simp only: t simp_thms)
  moreover have "OSDProvisioningState (sample_reconciler (SystemTypeOther ''unknown''))
     ''deployment'' ''storage'' = RequiredStateNone"
    using c [of "SystemTypeOther ''unknown''" "''storage''"]
    by (simp only: t simp_thms SystemType.distinct)
  ultimately show ?thesis by blast
qed

text \<open>
  Claim C1 as stated fails: on a standard system a worker, which is neither a storage
  nor a controller host, gets Enabled and not None.
\<close>

theorem OSDProvisioningState_worker_counterexample:
  "\<not> EqualFold PersonalityWorker PersonalityStorage \<and> PersonalityWorker \<noteq> ''controller'' \<and>
   GetSystemType (sample_reconciler SystemTypeStandard) ''deployment'' = SystemTypeStandard \<and>
   OSDProvisioningState (sample_reconciler SystemTypeStandard) ''deployment'' PersonalityWorker
     = RequiredStateEnabled \<and>
   OSDProvisioningState (sample_reconciler SystemTypeStandard) ''deployment'' PersonalityWorker
     \<noteq> RequiredStateNone"
  by (simp add: OSDProvisioningState_def sample_reconciler_def PersonalityStorage_def
      PersonalityWorker_def is_upper_of_def)

subsection \<open>The monitor reconciler\<close>

lemma monitor_loop_general:
  "for_range (monitor_step client mi) ms (found, s) = (out, found', s') \<Longrightarrow>
   host s' = host s \<and> (\<exists>new. calls s' = calls s @ new \<and>
      (\<forall>c\<in>set new. c = CephMonitorUpdate (host_ID (host s)) \<lparr>mo_HostUUID = None, mo_Size = mi_Size mi\<rparr>))"
proof (induction ms arbitrary: found s)
  case Nil
  then show ?case by simp
next
  case (Cons m ms)
  obtain o1 f1 s1 where step: "monitor_step client mi m (found, s) = (o1, f1, s1)"
    by (metis prod_cases3)
  have s1: "host s1 = host s \<and> (calls s1 = calls s \<or> calls s1 = calls s @ [CephMonitorUpdate (host_ID (host s)) \<lparr>mo_HostUUID = None, mo_Size = mi_Size mi\<rparr>])"
    using step by (auto simp: mutate_def split: if_splits option.splits)
  show ?case
  proof (cases "o1 = Continue")
    case True
    with Cons.prems step have "for_range (monitor_step client mi) ms (f1, s1) = (out, found', s')"
      by simp
    from Cons.IH[OF this] s1 show ?thesis by auto
  next
    case False
    with Cons.prems step have "s' = s1" by simp
    with s1 show ?thesis by auto
  qed
qed

lemma monitor_loop_ok:
  assumes ok: "\<forall>tr c. cl_mutate client tr c = None"
  shows "for_range (monitor_step client mi) ms (found, s) =
     (Continue, found \<or> (\<exists>m\<in>set ms. mon_HostUUID m = host_ID (host s)),
      s\<lparr>calls := calls s @
          map (\<lambda>m. CephMonitorUpdate (host_ID (host s)) \<lparr>mo_HostUUID = None, mo_Size = mi_Size mi\<rparr>)
            (filter (\<lambda>m. mon_HostUUID m = host_ID (host s) \<and> mi_Size mi \<noteq> None
                        \<and> mi_Size mi \<noteq> Some (mon_Size m)) ms)\<rparr>)"
proof (induction ms arbitrary: found s)
  case Nil
  then show ?case by simp
next
  case (Cons m ms)
  show ?case
    by (simp add: Cons.IH mutate_ok[OF ok])
qed

lemma ReconcileMonitor_calls:
  assumes res: "ReconcileMonitor r client inst profile s = (out, s')"
  shows "host s' = host s \<and>
     (\<exists>new. calls s' = calls s @ new \<and>
        (\<forall>c\<in>set new. c = CephMonitorList \<or> (\<exists>opts. c = CephMonitorUpdate (host_ID (host s)) opts)
                        \<or> (\<exists>opts. c = CephMonitorCreate opts)))"
proof (cases "IsReconcilerEnabled r StorageMonitor \<and> prof_Personality profile = Some PersonalityWorker")
  case False
  with res show ?thesis by (auto simp: ReconcileMonitor_def split: if_splits)
next
  case en: True
  show ?thesis
  proof (cases "cl_ListCephMonitors client (calls s)")
    case (Inl e)
    with res en show ?thesis by (auto simp: ReconcileMonitor_def logged_def)
  next
    case (Inr ms)
    show ?thesis
    proof (cases "prof_Storage profile")
      case None
      with res en Inr show ?thesis by (auto simp: ReconcileMonitor_def logged_def)
    next
      case (Some st)
      show ?thesis
      proof (cases "ps_Monitor st")
        case None
        with res en Inr Some show ?thesis by (auto simp: ReconcileMonitor_def logged_def)
      next
        case (Some mi)
        obtain o2 f2 s2 where loop:
          "for_range (monitor_step client mi) ms (False, logged CephMonitorList s) = (o2, f2, s2)"
          by (metis prod_cases3)
        from monitor_loop_general[OF loop] obtain new where
          h2: "host s2 = host s" and c2: "calls s2 = calls s @ CephMonitorList # new"
          and n2: "\<forall>c\<in>set new. c = CephMonitorUpdate (host_ID (host s)) \<lparr>mo_HostUUID = None, mo_Size = mi_Size mi\<rparr>"
          by (auto simp: logged_def)
        have "s' = s2 \<or> s' = snd (mutate client (CephMonitorCreate \<lparr>mo_HostUUID = Some (host_ID (host s2)), mo_Size = mi_Size mi\<rparr>) s2)"
          using res en Inr \<open>prof_Storage profile = Some st\<close> Some loop
          by (auto simp: ReconcileMonitor_def Let_def split: if_splits prod.splits option.splits)
        then show ?thesis
        proof
          assume "s' = s2"
          with h2 c2 n2 show ?thesis by auto
        next
          assume "s' = snd (mutate client (CephMonitorCreate \<lparr>mo_HostUUID = Some (host_ID (host s2)), mo_Size = mi_Size mi\<rparr>) s2)"
          then have "host s' = host s" and "calls s' = calls s @ (CephMonitorList # new @ [CephMonitorCreate \<lparr>mo_HostUUID = Some (host_ID (host s2)), mo_Size = mi_Size mi\<rparr>])"
            using h2 c2 by simp_all
          with n2 show ?thesis by (intro conjI exI[of _ "CephMonitorList # new @ [CephMonitorCreate \<lparr>mo_HostUUID = Some (host_ID (host s2)), mo_Size = mi_Size mi\<rparr>]"]) auto
        qed
      qed
    qed
  qed
qed

lemma ReconcileMonitor_desired:
  assumes en: "IsReconcilerEnabled r StorageMonitor" "prof_Personality profile = Some PersonalityWorker"
    and st: "prof_Storage profile = Some st" "ps_Monitor st = Some mi"
    and ls: "cl_ListCephMonitors client (calls s) = Inr ms"
    and ok: "\<forall>tr c. cl_mutate client tr c = None"
  shows "ReconcileMonitor r client inst profile s =
     (Continue, s\<lparr>calls := calls s @ [CephMonitorList] @ monitor_updates (host_ID (host s)) mi ms @
         (if \<exists>m\<in>set ms. mon_HostUUID m = host_ID (host s) then []
          else [CephMonitorCreate \<lparr>mo_HostUUID = Some (host_ID (host s)), mo_Size = mi_Size mi\<rparr>])\<rparr>)"
  using en st ls
  by (auto simp add: ReconcileMonitor_def monitor_loop_ok[OF ok] mutate_ok[OF ok] logged_def monitor_updates_def Let_def)

text \<open>
  Claim C8.  ReconcileMonitor leaves the snapshot as it is and calls the client only to
  list, update and create monitors: it never deletes one.  On a host whose profile is
  not that of a worker it does nothing.  When no monitor is desired it only lists the
  monitors, so a stale monitor stays.  When a monitor is desired and the calls succeed,
  it updates each monitor of the host whose size differs from a specified desired size,
  and creates a monitor only when the host has none.
\<close>

theorem ReconcileMonitor_never_deletes:
  assumes res: "ReconcileMonitor r client inst profile s = (out, s')"
  shows "host s' = host s \<and>
     (\<exists>new. calls s' = calls s @ new \<and>
        (\<forall>c\<in>set new. (\<forall>k. c \<noteq> CephMonitorDelete k) \<and>
           (c = CephMonitorList \<or> (\<exists>opts. c = CephMonitorUpdate (host_ID (host s)) opts)
            \<or> (\<exists>opts. c = CephMonitorCreate opts)))) \<and>
     (prof_Personality profile \<noteq> Some PersonalityWorker \<longrightarrow> out = Continue \<and> s' = s) \<and>
     (IsReconcilerEnabled r StorageMonitor \<and> prof_Personality profile = Some PersonalityWorker \<and>
      (\<exists>st. prof_Storage profile = Some st \<and> ps_Monitor st = None) \<longrightarrow>
        calls s' = calls s @ [CephMonitorList]) \<and>
     (\<forall>st mi ms. IsReconcilerEnabled r StorageMonitor \<and>
        prof_Personality profile = Some PersonalityWorker \<and>
        prof_Storage profile = Some st \<and> ps_Monitor st = Some mi \<and>
        cl_ListCephMonitors client (calls s) = Inr ms \<and> (\<forall>tr c. cl_mutate client tr c = None) \<longrightarrow>
        out = Continue \<and>
        calls s' = calls s @ [CephMonitorList] @ monitor_updates (host_ID (host s)) mi ms @
          (if \<exists>m\<in>set ms. mon_HostUUID m = host_ID (host s) then []
           else [CephMonitorCreate \<lparr>mo_HostUUID = Some (host_ID (host s)), mo_Size = mi_Size mi\<rparr>]))"
proof (intro conjI)
  from ReconcileMonitor_calls[OF res] show "host s' = host s" by simp
  from ReconcileMonitor_calls[OF res] obtain new where
    n: "calls s' = calls s @ new"
       "\<forall>c\<in>set new. c = CephMonitorList \<or> (\<exists>opts. c = CephMonitorUpdate (host_ID (host s)) opts)
                        \<or> (\<exists>opts. c = CephMonitorCreate opts)"
    by blast
  have "\<forall>c\<in>set new. (\<forall>k. c \<noteq> CephMonitorDelete k) \<and>
           (c = CephMonitorList \<or> (\<exists>opts. c = CephMonitorUpdate (host_ID (host s)) opts)
            \<or> (\<exists>opts. c = CephMonitorCreate opts))"
  proof
    fix c assume "c \<in> set new"
    with n(2) have "c = CephMonitorList \<or> (\<exists>opts. c = CephMonitorUpdate (host_ID (host s)) opts)
                        \<or> (\<exists>opts. c = CephMonitorCreate opts)" by blast
    then show "(\<forall>k. c \<noteq> CephMonitorDelete k) \<and>
           (c = CephMonitorList \<or> (\<exists>opts. c = CephMonitorUpdate (host_ID (host s)) opts)
            \<or> (\<exists>opts. c = CephMonitorCreate opts))" by auto
  qed
  with n(1) show "\<exists>new. calls s' = calls s @ new \<and>
        (\<forall>c\<in>set new. (\<forall>k. c \<noteq> CephMonitorDelete k) \<and>
           (c = CephMonitorList \<or> (\<exists>opts. c = CephMonitorUpdate (host_ID (host s)) opts)
            \<or> (\<exists>opts. c = CephMonitorCreate opts)))" by blast
  show "prof_Personality profile \<noteq> Some PersonalityWorker \<longrightarrow> out = Continue \<and> s' = s"
    using res by (auto simp: ReconcileMonitor_def split: if_splits)
  show "IsReconcilerEnabled r StorageMonitor \<and> prof_Personality profile = Some PersonalityWorker \<and>
      (\<exists>st. prof_Storage profile = Some st \<and> ps_Monitor st = None) \<longrightarrow>
        calls s' = calls s @ [CephMonitorList]"
    using res by (auto simp: ReconcileMonitor_def logged_def split: sum.splits if_splits)
  show "\<forall>st mi ms. IsReconcilerEnabled r StorageMonitor \<and>
        prof_Personality profile = Some PersonalityWorker \<and>
        prof_Storage profile = Some st \<and> ps_Monitor st = Some mi \<and>
        cl_ListCephMonitors client (calls s) = Inr ms \<and> (\<forall>tr c. cl_mutate client tr c = None) \<longrightarrow>
        out = Continue \<and>
        calls s' = calls s @ [CephMonitorList] @ monitor_updates (host_ID (host s)) mi ms @
          (if \<exists>m\<in>set ms. mon_HostUUID m = host_ID (host s) then []
           else [CephMonitorCreate \<lparr>mo_HostUUID = Some (host_ID (host s)), mo_Size = mi_Size mi\<rparr>])"
  proof (intro allI impI)
    fix st mi ms
    assume a: "IsReconcilerEnabled r StorageMonitor \<and>
        prof_Personality profile = Some PersonalityWorker \<and>
        prof_Storage profile = Some st \<and> ps_Monitor st = Some mi \<and>
        cl_ListCephMonitors client (calls s) = Inr ms \<and> (\<forall>tr c. cl_mutate client tr c = None)"
    then have "ReconcileMonitor r client inst profile s =
     (Continue, s\<lparr>calls := calls s @ [CephMonitorList] @ monitor_updates (host_ID (host s)) mi ms @
         (if \<exists>m\<in>set ms. mon_HostUUID m = host_ID (host s) then []
          else [CephMonitorCreate \<lparr>mo_HostUUID = Some (host_ID (host s)), mo_Size = mi_Size mi\<rparr>])\<rparr>)"
      by (intro ReconcileMonitor_desired) auto
    with res show "out = Continue \<and>
        calls s' = calls s @ [CephMonitorList] @ monitor_updates (host_ID (host s)) mi ms @
          (if \<exists>m\<in>set ms. mon_HostUUID m = host_ID (host s) then []
           else [CephMonitorCreate \<lparr>mo_HostUUID = Some (host_ID (host s)), mo_Size = mi_Size mi\<rparr>])"
      by auto
  qed
qed

theorem ReconcileMonitor_never_deletes_witness:
  "calls (snd (ReconcileMonitor (sample_reconciler SystemTypeStandard) monitor_client sample_instance
       (worker_profile (Some \<lparr>mi_Size = Some 40\<rparr>)) \<lparr>host = sample_host PersonalityWorker, calls = []\<rparr>))
     = [CephMonitorList, CephMonitorUpdate ''host-1'' \<lparr>mo_HostUUID = None, mo_Size = Some 40\<rparr>] \<and>
   calls (snd (ReconcileMonitor (sample_reconciler SystemTypeStandard) monitor_client sample_instance
       (worker_profile None) \<lparr>host = sample_host PersonalityWorker, calls = []\<rparr>))
     = [CephMonitorList] \<and>
   ReconcileMonitor (sample_reconciler SystemTypeStandard) monitor_client sample_instance
       (sample_profile None) \<lparr>host = sample_host PersonalityStorage, calls = []\<rparr>
     = (Continue, \<lparr>host = sample_host PersonalityStorage, calls = []\<rparr>)"
proof -
  let ?r = "sample_reconciler SystemTypeStandard"
  let ?s = "\<lparr>host = sample_host PersonalityWorker, calls = []\<rparr>"
  let ?p = "worker_profile (Some \<lparr>mi_Size = Some 40\<rparr>)"
  have en: "IsReconcilerEnabled ?r StorageMonitor" by (simp add: sample_reconciler_def)
  have ok: "\<forall>tr c. cl_mutate monitor_client tr c = None"
    by (simp add: monitor_client_def sample_client_def)
  have ls: "cl_ListCephMonitors monitor_client (calls ?s) = Inr sample_monitors"
    by (simp add: monitor_client_def sample_client_def)
  have hid: "host_ID (sample_host PersonalityWorker) = ''host-1''" by (simp add: sample_host_def)
  have ups: "monitor_updates ''host-1'' \<lparr>mi_Size = Some 40\<rparr> sample_monitors
      = [CephMonitorUpdate ''host-1'' \<lparr>mo_HostUUID = None, mo_Size = Some 40\<rparr>]"
    by (simp add: monitor_updates_def sample_monitors_def)
  have ex: "\<exists>m\<in>set sample_monitors. mon_HostUUID m = ''host-1''" by (simp add: sample_monitors_def)
  have a: "calls (snd (ReconcileMonitor ?r monitor_client sample_instance ?p ?s))
     = [CephMonitorList, CephMonitorUpdate ''host-1'' \<lparr>mo_HostUUID = None, mo_Size = Some 40\<rparr>]"
    using ReconcileMonitor_never_deletes [OF prod.collapse [symmetric], of ?r monitor_client
        sample_instance ?p ?s] en ok ls ups ex
    by (simp add: worker_profile_def hid)
  have b: "calls (snd (ReconcileMonitor ?r monitor_client sample_instance (worker_profile None) ?s))
     = [CephMonitorList]"
    using ReconcileMonitor_never_deletes [OF prod.collapse [symmetric], of ?r monitor_client
        sample_instance "worker_profile None" ?s] en
    by (simp add: worker_profile_def)
  have "ReconcileMonitor ?r monitor_client sample_instance
       (sample_profile None) \<lparr>host = sample_host PersonalityStorage, calls = []\<rparr>
     = (Continue, \<lparr>host = sample_host PersonalityStorage, calls = []\<rparr>)"
    using ReconcileMonitor_never_deletes [OF prod.collapse [symmetric], of ?r monitor_client
        sample_instance "sample_profile None" "\<lparr>host = sample_host PersonalityStorage, calls = []\<rparr>"]
    by (simp add: sample_profile_def PersonalityStorage_def PersonalityWorker_def prod_eq_iff)
  with a b show ?thesis by blast
qed

subsection \<open>The partition reconciler\<close>

lemma partition_step_passed_over:
  "passed_over r (host s) grp pv \<Longrightarrow> partition_step r client grp pv (u, s) = (Continue, u, s)"
  by (auto simp: passed_over_def split: option.splits)

lemma partition_step_lacks_disk:
  "lacks_disk r (host s) grp pv \<Longrightarrow>
   partition_step r client grp pv (u, s) =
     (Fail (MissingSystemResource
              (Sprintf ''failed to find disk for path %s'' [ArgString (pvi_Path pv)])), u, s)"
  by (auto simp: lacks_disk_def passed_over_def split: option.splits)

lemma partition_step_create:
  "\<not> passed_over r (host s) grp pv \<Longrightarrow> FindDiskByPath r (host s) (pvi_Path pv) = Some d \<Longrightarrow>
   partition_step r client grp pv (u, s) =
     (case cl_mutate client (calls s) (partition_request r (host s) pv d) of
        None \<Rightarrow> (Continue, True, logged (partition_request r (host s) pv d) s)
      | Some e \<Rightarrow>
          (Fail (Wrap (ClientError e) (Sprintf ''failed to create new partition: %s'' [ArgStruct])),
           u, logged (partition_request r (host s) pv d) s))"
  by (auto simp: passed_over_def partition_request_def mutate_def logged_def split: option.splits)

declare partition_step.simps [simp del]

lemma partition_step_cases:
  obtains (skip) "passed_over r (host s) grp pv"
  | (missing) "lacks_disk r (host s) grp pv"
  | (create) d where "\<not> passed_over r (host s) grp pv" "FindDiskByPath r (host s) (pvi_Path pv) = Some d"
  by (cases "FindDiskByPath r (host s) (pvi_Path pv)") (auto simp: lacks_disk_def)

lemma partition_loop_general:
  "for_range (partition_step r client grp) pvs (u, s) = (out, u', s') \<Longrightarrow>
   host s' = host s \<and> (out = Continue \<or> (\<exists>e. out = Fail e)) \<and>
   (\<exists>new. calls s' = calls s @ new \<and> (out = Continue \<longrightarrow> u' = (u \<or> new \<noteq> [])) \<and>
      (\<forall>c\<in>set new. \<exists>e\<in>set pvs. \<exists>d. FindDiskByPath r (host s) (pvi_Path e) = Some d
          \<and> c = partition_request r (host s) e d))"
proof (induction pvs arbitrary: u s)
  case Nil
  then show ?case by simp
next
  case (Cons pv pvs)
  show ?case
  proof (cases rule: partition_step_cases[of r s grp pv])
    case skip
    with Cons.prems have "for_range (partition_step r client grp) pvs (u, s) = (out, u', s')"
      by (simp add: partition_step_passed_over)
    from Cons.IH[OF this] show ?thesis by auto
  next
    case missing
    with Cons.prems show ?thesis by (auto simp: partition_step_lacks_disk)
  next
    case (create d)
    let ?c = "partition_request r (host s) pv d"
    show ?thesis
    proof (cases "cl_mutate client (calls s) ?c")
      case None
      with Cons.prems create
      have "for_range (partition_step r client grp) pvs (True, logged ?c s) = (out, u', s')"
        by (simp add: partition_step_create)
      from Cons.IH[OF this] obtain new where
        n: "host s' = host s" "out = Continue \<or> (\<exists>e. out = Fail e)"
           "calls s' = calls s @ ?c # new" "out = Continue \<longrightarrow> u'"
           "\<forall>c\<in>set new. \<exists>e\<in>set pvs. \<exists>d. FindDiskByPath r (host s) (pvi_Path e) = Some d
              \<and> c = partition_request r (host s) e d"
        by (auto simp: logged_def)
      show ?thesis
        using n create(2)
        by (intro conjI exI[of _ "?c # new"]) auto
    next
      case (Some e)
      with Cons.prems create show ?thesis
        by (intro conjI exI[of _ "[?c]"]) (auto simp: partition_step_create logged_def)
    qed
  qed
qed

lemma partition_loop_passed_over:
  "\<forall>pv\<in>set pvs. passed_over r (host s) grp pv \<Longrightarrow>
   for_range (partition_step r client grp) pvs (u, s) = (Continue, u, s)"
  by (induction pvs) (simp_all add: partition_step_passed_over)

lemma partition_loop_lacks_disk:
  "\<exists>pv\<in>set pvs. lacks_disk r (host s) grp pv \<Longrightarrow>
   for_range (partition_step r client grp) pvs (u, s) = (out, u', s') \<Longrightarrow>
   (\<exists>e. out = Fail e) \<and>
   ((\<forall>tr c. cl_mutate client tr c = None) \<longrightarrow>
      (\<exists>pv\<in>set pvs. lacks_disk r (host s) grp pv \<and>
         out = Fail (MissingSystemResource
                       (Sprintf ''failed to find disk for path %s'' [ArgString (pvi_Path pv)]))))"
proof (induction pvs arbitrary: u s)
  case Nil
  then show ?case by simp
next
  case (Cons pv pvs)
  show ?case
  proof (cases rule: partition_step_cases[of r s grp pv])
    case skip
    then have "\<not> lacks_disk r (host s) grp pv" by (simp add: lacks_disk_def)
    with Cons.prems(1) have ex: "\<exists>pv\<in>set pvs. lacks_disk r (host s) grp pv" by simp
    from skip Cons.prems(2) have "for_range (partition_step r client grp) pvs (u, s) = (out, u', s')"
      by (simp add: partition_step_passed_over)
    from Cons.IH[OF ex this] show ?thesis by auto
  next
    case missing
    with Cons.prems(2) show ?thesis by (auto simp: partition_step_lacks_disk)
  next
    case (create d)
    let ?c = "partition_request r (host s) pv d"
    from create have "\<not> lacks_disk r (host s) grp pv" by (simp add: lacks_disk_def)
    with Cons.prems(1) have ex: "\<exists>pv\<in>set pvs. lacks_disk r (host (logged ?c s)) grp pv"
      by (simp add: logged_def)
    show ?thesis
    proof (cases "cl_mutate client (calls s) ?c")
      case None
      with Cons.prems(2) create
      have "for_range (partition_step r client grp) pvs (True, logged ?c s) = (out, u', s')"
        by (simp add: partition_step_create)
      from Cons.IH[OF ex this] show ?thesis by (auto simp: logged_def)
    next
      case (Some e)
      with Cons.prems(2) create show ?thesis by (auto simp: partition_step_create)
    qed
  qed
qed

lemma partition_status_loop:
  "for_range (partition_status_step inst) ps s =
     (if \<exists>p\<in>set ps. transient p then
        (Wait (PartitionStateMonitor inst (host_ID (host s)))
           (Sprintf ''waiting for partitions to transition to ready state'' []), s)
      else (Continue, s))"
  by (induction ps) (simp_all add: partition_status_step_def StartMonitor_def)

lemma refresh_partitions_general:
  "refresh_partitions client s = (out, s') \<Longrightarrow>
   (out = Continue \<or> (\<exists>e. out = Fail e)) \<and>
   (\<exists>new. calls s' = calls s @ new \<and> (\<forall>c\<in>set new. c = PartitionList (host_ID (host s)) \<or> c = SystemPartitionsPopulate))"
  by (auto simp: refresh_partitions_def logged_def Let_def split: sum.splits)

lemma ReconcilePartitions_unfold:
  assumes en: "IsReconcilerEnabled r Partition"
    and loop: "for_range (partition_step r client grp) (vgi_PhysicalVolumes grp) (False, s) = (o1, u1, s1)"
  shows "ReconcilePartitions r client inst profile grp s =
     (if o1 \<noteq> Continue then (o1, s1)
      else if u1 then
        (case refresh_partitions client s1 of
           (o2, s2) \<Rightarrow> if o2 \<noteq> Continue then (o2, s2)
                       else for_range (partition_status_step inst) (host_Partitions (host s2)) s2)
      else for_range (partition_status_step inst) (host_Partitions (host s1)) s1)"
  using en loop by (simp add: ReconcilePartitions_def split: prod.splits)

text \<open>
  What an enabled ReconcilePartitions does about partitions that are being created,
  modified or deleted.
\<close>

lemma ReconcilePartitions_enabled:
  assumes en: "IsReconcilerEnabled r Partition"
    and res: "ReconcilePartitions r client inst profile grp s = (out, s')"
  shows "(out = Continue \<longrightarrow> (\<forall>p\<in>set (host_Partitions (host s')). \<not> transient p)) \<and>
     ((\<forall>e. out \<noteq> Fail e) \<and> (\<exists>p\<in>set (host_Partitions (host s')). transient p) \<longrightarrow>
        out = Wait (PartitionStateMonitor inst (host_ID (host s')))
                (Sprintf ''waiting for partitions to transition to ready state'' [])) \<and>
     ((\<forall>pv\<in>set (vgi_PhysicalVolumes grp). passed_over r (host s) grp pv) \<and>
      (\<exists>p\<in>set (host_Partitions (host s)). transient p) \<longrightarrow>
        out = Wait (PartitionStateMonitor inst (host_ID (host s)))
                (Sprintf ''waiting for partitions to transition to ready state'' []) \<and>
        s' = s)"
proof -
  obtain o1 u1 s1 where
    loop: "for_range (partition_step r client grp) (vgi_PhysicalVolumes grp) (False, s) = (o1, u1, s1)"
    by (metis prod_cases3)
  obtain o2 s2 where rf: "refresh_partitions client s1 = (o2, s2)"
    by (metis surj_pair)
  from partition_loop_general[OF loop] have o1: "o1 = Continue \<or> (\<exists>e. o1 = Fail e)" by simp
  from refresh_partitions_general[OF rf] have o2: "o2 = Continue \<or> (\<exists>e. o2 = Fail e)" by simp
  have unf: "(out, s') =
     (if o1 \<noteq> Continue then (o1, s1)
      else if u1 then
        (if o2 \<noteq> Continue then (o2, s2)
         else for_range (partition_status_step inst) (host_Partitions (host s2)) s2)
      else for_range (partition_status_step inst) (host_Partitions (host s1)) s1)"
    using ReconcilePartitions_unfold[OF en loop, of inst profile] res rf by simp
  have a: "out = Continue \<longrightarrow> (\<forall>p\<in>set (host_Partitions (host s')). \<not> transient p)"
    using unf by (auto simp: partition_status_loop split: if_splits)
  have b: "(\<forall>e. out \<noteq> Fail e) \<and> (\<exists>p\<in>set (host_Partitions (host s')). transient p) \<longrightarrow>
        out = Wait (PartitionStateMonitor inst (host_ID (host s')))
                (Sprintf ''waiting for partitions to transition to ready state'' [])"
    using unf o1 o2 by (auto simp: partition_status_loop split: if_splits)
  have c: "(\<forall>pv\<in>set (vgi_PhysicalVolumes grp). passed_over r (host s) grp pv) \<and>
      (\<exists>p\<in>set (host_Partitions (host s)). transient p) \<longrightarrow>
        out = Wait (PartitionStateMonitor inst (host_ID (host s)))
                (Sprintf ''waiting for partitions to transition to ready state'' []) \<and>
        s' = s"
  proof
    assume h: "(\<forall>pv\<in>set (vgi_PhysicalVolumes grp). passed_over r (host s) grp pv) \<and>
      (\<exists>p\<in>set (host_Partitions (host s)). transient p)"
    then have "for_range (partition_step r client grp) (vgi_PhysicalVolumes grp) (False, s)
        = (Continue, False, s)"
      by (simp add: partition_loop_passed_over)
    with loop have "o1 = Continue" "u1 = False" "s1 = s" by simp_all
    with unf h show "out = Wait (PartitionStateMonitor inst (host_ID (host s)))
                (Sprintf ''waiting for partitions to transition to ready state'' []) \<and> s' = s"
      by (auto simp: partition_status_loop)
  qed
  from a b c show ?thesis by blast
qed

text \<open>
  Claim C7.  Let a desired physical volume of partition type have a size, no matching
  partition in the snapshot and no disk at its backing path.  Then an enabled
  ReconcilePartitions ends with an error, never with a wait or with success; when the
  client calls succeed the error is the missing resource of the first such entry.  The
  snapshot is unchanged, and every call made is the creation of a partition on a disk
  that was found at the path of its entry, so none is made for the entry without a
  disk.  An enabled ReconcilePhysicalVolumes ends with an error as well: the missing
  volume group, or the result of ReconcilePartitions.
\<close>

theorem partition_without_disk_is_missing_resource:
  assumes en: "IsReconcilerEnabled r Partition"
    and pv: "pv \<in> set (vgi_PhysicalVolumes grp)" "pvi_Type pv = PVTypePartition"
      "pvi_Size pv = Some n"
    and nopart: "FindPartitionByPath r (host s) (pvi_Path pv) n (vgi_Name grp) = None"
    and nodisk: "FindDiskByPath r (host s) (pvi_Path pv) = None"
    and res: "ReconcilePartitions r client inst profile grp s = (out, s')"
    and res2: "ReconcilePhysicalVolumes r client inst profile grp s = (out2, s2)"
  shows "(\<exists>e. out = Fail e) \<and>
     ((\<forall>tr c. cl_mutate client tr c = None) \<longrightarrow>
        (\<exists>e\<in>set (vgi_PhysicalVolumes grp). lacks_disk r (host s) grp e \<and>
           out = Fail (MissingSystemResource
                         (Sprintf ''failed to find disk for path %s'' [ArgString (pvi_Path e)])))) \<and>
     host s' = host s \<and>
     (\<exists>new. calls s' = calls s @ new \<and>
        (\<forall>c\<in>set new. \<exists>e\<in>set (vgi_PhysicalVolumes grp). \<exists>d.
            FindDiskByPath r (host s) (pvi_Path e) = Some d \<and>
            c = partition_request r (host s) e d)) \<and>
     (IsReconcilerEnabled r PhysicalVolume \<longrightarrow>
        (\<exists>e. out2 = Fail e) \<and>
        ((\<forall>tr c. cl_mutate client tr c = None) \<longrightarrow> (\<exists>m. out2 = Fail (MissingSystemResource m))) \<and>
        ((out2, s2) = (out, s') \<or>
         (out2, s2) = (Fail (MissingSystemResource
                               (Sprintf ''unable to find volume group %s''
                                  [ArgString (vgi_Name grp)])), s)))"
proof -
  have lack: "\<exists>e\<in>set (vgi_PhysicalVolumes grp). lacks_disk r (host s) grp e"
    using pv nopart nodisk by (auto simp: lacks_disk_def passed_over_def intro!: bexI[of _ pv])
  obtain o1 u1 s1 where
    loop: "for_range (partition_step r client grp) (vgi_PhysicalVolumes grp) (False, s) = (o1, u1, s1)"
    by (metis prod_cases3)
  from partition_loop_lacks_disk[OF lack loop] have
    f: "\<exists>e. o1 = Fail e"
    and m: "(\<forall>tr c. cl_mutate client tr c = None) \<longrightarrow>
      (\<exists>e\<in>set (vgi_PhysicalVolumes grp). lacks_disk r (host s) grp e \<and>
         o1 = Fail (MissingSystemResource
                       (Sprintf ''failed to find disk for path %s'' [ArgString (pvi_Path e)])))"
    by simp_all
  from f have "o1 \<noteq> Continue" by auto
  with ReconcilePartitions_unfold[OF en loop, of inst profile] res
  have eq: "out = o1" "s' = s1" by simp_all
  from partition_loop_general[OF loop] have
    g: "host s1 = host s"
       "\<exists>new. calls s1 = calls s @ new \<and>
        (\<forall>c\<in>set new. \<exists>e\<in>set (vgi_PhysicalVolumes grp). \<exists>d.
            FindDiskByPath r (host s) (pvi_Path e) = Some d \<and>
            c = partition_request r (host s) e d)"
    by blast+
  have pvr: "IsReconcilerEnabled r PhysicalVolume \<longrightarrow>
        ((out2, s2) = (out, s') \<or>
         (out2, s2) = (Fail (MissingSystemResource
                               (Sprintf ''unable to find volume group %s''
                                  [ArgString (vgi_Name grp)])), s))"
    using res res2 f eq
    by (auto simp: ReconcilePhysicalVolumes_def split: option.splits)
  have pvf: "IsReconcilerEnabled r PhysicalVolume \<longrightarrow> (\<exists>e. out2 = Fail e)"
    using pvr f eq by auto
  have pvm: "IsReconcilerEnabled r PhysicalVolume \<longrightarrow>
        ((\<forall>tr c. cl_mutate client tr c = None) \<longrightarrow> (\<exists>m. out2 = Fail (MissingSystemResource m)))"
    using pvr m eq by auto
  from f eq have c1: "\<exists>e. out = Fail e" by simp
  from m eq have c2: "(\<forall>tr c. cl_mutate client tr c = None) \<longrightarrow>
        (\<exists>e\<in>set (vgi_PhysicalVolumes grp). lacks_disk r (host s) grp e \<and>
           out = Fail (MissingSystemResource
                         (Sprintf ''failed to find disk for path %s'' [ArgString (pvi_Path e)])))"
    by simp
  from g eq have c3: "host s' = host s" and c4: "\<exists>new. calls s' = calls s @ new \<and>
        (\<forall>c\<in>set new. \<exists>e\<in>set (vgi_PhysicalVolumes grp). \<exists>d.
            FindDiskByPath r (host s) (pvi_Path e) = Some d \<and>
            c = partition_request r (host s) e d)"
    by simp_all
  from c1 c2 c3 c4 pvf pvm pvr show ?thesis by blast
qed

text \<open>
  Claim C10, as the code has it.  With the partition reconciler disabled,
  ReconcilePartitions returns success at once and checks nothing.  With it enabled, it
  never returns success while a partition of the snapshot is being created, modified or
  deleted: whenever it does not fail with an error and such a partition is in the
  snapshot it ends with, it returns the wait on the partition state monitor.  That holds
  in particular for a pass that creates no partition and refreshes nothing, which then
  leaves the snapshot and the call log as they were.
\<close>

theorem ReconcilePartitions_transient_wait:
  assumes res: "ReconcilePartitions r client inst profile grp s = (out, s')"
  shows "(\<not> IsReconcilerEnabled r Partition \<longrightarrow> out = Continue \<and> s' = s) \<and>
     (IsReconcilerEnabled r Partition \<longrightarrow>
        (out = Continue \<longrightarrow> (\<forall>p\<in>set (host_Partitions (host s')). \<not> transient p)) \<and>
        ((\<forall>e. out \<noteq> Fail e) \<and> (\<exists>p\<in>set (host_Partitions (host s')). transient p) \<longrightarrow>
           out = Wait (PartitionStateMonitor inst (host_ID (host s')))
                   (Sprintf ''waiting for partitions to transition to ready state'' [])) \<and>
        ((\<forall>pv\<in>set (vgi_PhysicalVolumes grp). passed_over r (host s) grp pv) \<and>
         (\<exists>p\<in>set (host_Partitions (host s)). transient p) \<longrightarrow>
           out = Wait (PartitionStateMonitor inst (host_ID (host s)))
                   (Sprintf ''waiting for partitions to transition to ready state'' []) \<and>
           s' = s))"
proof (rule conjI)
  show "\<not> IsReconcilerEnabled r Partition \<longrightarrow> out = Continue \<and> s' = s"
    using res by (auto simp: ReconcilePartitions_def)
  show "IsReconcilerEnabled r Partition \<longrightarrow>
        (out = Continue \<longrightarrow> (\<forall>p\<in>set (host_Partitions (host s')). \<not> transient p)) \<and>
        ((\<forall>e. out \<noteq> Fail e) \<and> (\<exists>p\<in>set (host_Partitions (host s')). transient p) \<longrightarrow>
           out = Wait (PartitionStateMonitor inst (host_ID (host s')))
                   (Sprintf ''waiting for partitions to transition to ready state'' [])) \<and>
        ((\<forall>pv\<in>set (vgi_PhysicalVolumes grp). passed_over r (host s) grp pv) \<and>
         (\<exists>p\<in>set (host_Partitions (host s)). transient p) \<longrightarrow>
           out = Wait (PartitionStateMonitor inst (host_ID (host s)))
                   (Sprintf ''waiting for partitions to transition to ready state'' []) \<and>
           s' = s)"
    using ReconcilePartitions_enabled [OF _ res] by blast
qed

text \<open>
  The theorem at work: with a partition that is being created in the snapshot and no
  partition to create, the enabled reconciler waits and the disabled one returns
  success; both leave the pass as it was.
\<close>

theorem ReconcilePartitions_transient_wait_witness:
  "ReconcilePartitions (sample_reconciler SystemTypeStandard) (sample_client []) sample_instance
     (sample_profile None) (sample_group\<lparr>vgi_PhysicalVolumes := []\<rparr>)
     \<lparr>host = (sample_host PersonalityStorage)\<lparr>host_Partitions := [creating_partition]\<rparr>,
      calls = []\<rparr>
   = (Wait (PartitionStateMonitor sample_instance ''host-1'')
        (Sprintf ''waiting for partitions to transition to ready state'' []),
      \<lparr>host = (sample_host PersonalityStorage)\<lparr>host_Partitions := [creating_partition]\<rparr>,
       calls = []\<rparr>) \<and>
   ReconcilePartitions partition_reconciler_off (sample_client []) sample_instance
     (sample_profile None) (sample_group\<lparr>vgi_PhysicalVolumes := []\<rparr>)
     \<lparr>host = (sample_host PersonalityStorage)\<lparr>host_Partitions := [creating_partition]\<rparr>,
      calls = []\<rparr>
   = (Continue,
      \<lparr>host = (sample_host PersonalityStorage)\<lparr>host_Partitions := [creating_partition]\<rparr>,
       calls = []\<rparr>)"
proof -
  let ?r = "sample_reconciler SystemTypeStandard"
  let ?g = "sample_group\<lparr>vgi_PhysicalVolumes := []\<rparr>"
  let ?s = "\<lparr>host = (sample_host PersonalityStorage)\<lparr>host_Partitions := [creating_partition]\<rparr>,
      calls = []\<rparr>"
  have en: "IsReconcilerEnabled ?r Partition" by (simp add: sample_reconciler_def)
  have off: "\<not> IsReconcilerEnabled partition_reconciler_off Partition"
    by (simp add: partition_reconciler_off_def)
  have po: "\<forall>pv\<in>set (vgi_PhysicalVolumes ?g). passed_over ?r (host ?s) ?g pv" by simp
  have tr: "\<exists>p\<in>set (host_Partitions (host ?s)). transient p"
    by (simp add: transient_def creating_partition_def)
  have hid: "host_ID (host ?s) = ''host-1''" by (simp add: sample_host_def)
  from ReconcilePartitions_transient_wait [OF prod.collapse [symmetric], of ?r "sample_client []"
      sample_instance "sample_profile None" ?g ?s] en po tr
  have "fst (ReconcilePartitions ?r (sample_client []) sample_instance (sample_profile None) ?g ?s)
      = Wait (PartitionStateMonitor sample_instance (host_ID (host ?s)))
                (Sprintf ''waiting for partitions to transition to ready state'' []) \<and>
    snd (ReconcilePartitions ?r (sample_client []) sample_instance (sample_profile None) ?g ?s) = ?s"
    by blast
  then have a: "ReconcilePartitions ?r (sample_client []) sample_instance (sample_profile None) ?g ?s
      = (Wait (PartitionStateMonitor sample_instance ''host-1'')
           (Sprintf ''waiting for partitions to transition to ready state'' []), ?s)"
    unfolding hid by (simp add: prod_eq_iff)
  from ReconcilePartitions_transient_wait [OF prod.collapse [symmetric],
      of partition_reconciler_off "sample_client []" sample_instance "sample_profile None" ?g ?s] off
  have "fst (ReconcilePartitions partition_reconciler_off (sample_client []) sample_instance
        (sample_profile None) ?g ?s) = Continue \<and>
    snd (ReconcilePartitions partition_reconciler_off (sample_client []) sample_instance
        (sample_profile None) ?g ?s) = ?s"
    by blast
  then have b: "ReconcilePartitions partition_reconciler_off (sample_client []) sample_instance
      (sample_profile None) ?g ?s = (Continue, ?s)"
    by (simp add: prod_eq_iff)
  from a b show ?thesis by blast
qed

text \<open>
  Claim C10 as stated fails: with the partition reconciler disabled, a pass returns
  success although a partition of the snapshot is being created.
\<close>

theorem ReconcilePartitions_disabled_counterexample:
  "transient creating_partition \<and>
   host_Partitions (sample_host PersonalityStorage\<lparr>host_Partitions := [creating_partition]\<rparr>)
     = [creating_partition] \<and>
   ReconcilePartitions partition_reconciler_off (sample_client []) sample_instance
     (sample_profile None) sample_group
     \<lparr>host = (sample_host PersonalityStorage)\<lparr>host_Partitions := [creating_partition]\<rparr>,
      calls = []\<rparr>
   = (Continue,
      \<lparr>host = (sample_host PersonalityStorage)\<lparr>host_Partitions := [creating_partition]\<rparr>,
       calls = []\<rparr>)"
  by (simp add: ReconcilePartitions_def partition_reconciler_off_def transient_def
      creating_partition_def)

theorem partition_without_disk_is_missing_resource_witness:
  "fst (ReconcilePartitions (sample_reconciler SystemTypeStandard) (sample_client []) sample_instance
     (sample_profile None) sample_group \<lparr>host = sample_host PersonalityStorage, calls = []\<rparr>)
   = Fail (MissingSystemResource (Sprintf ''failed to find disk for path %s'' [ArgString ''/dev/sdc'']))
   \<and> host (snd (ReconcilePartitions (sample_reconciler SystemTypeStandard) (sample_client [])
       sample_instance (sample_profile None) sample_group
       \<lparr>host = sample_host PersonalityStorage, calls = []\<rparr>)) = sample_host PersonalityStorage
   \<and> calls (snd (ReconcilePartitions (sample_reconciler SystemTypeStandard) (sample_client [])
       sample_instance (sample_profile None) sample_group
       \<lparr>host = sample_host PersonalityStorage, calls = []\<rparr>)) = []"
proof -
  let ?r = "sample_reconciler SystemTypeStandard"
  let ?s = "\<lparr>host = sample_host PersonalityStorage, calls = []\<rparr>"
  let ?pv = "\<lparr>pvi_Type = PVTypePartition, pvi_Path = ''/dev/sdc'', pvi_Size = Some 10\<rparr>"
  let ?R = "ReconcilePartitions ?r (sample_client []) sample_instance (sample_profile None)
     sample_group ?s"
  have en: "IsReconcilerEnabled ?r Partition" by (simp add: sample_reconciler_def)
  have pvs: "vgi_PhysicalVolumes sample_group = [?pv]" by (simp add: sample_group_def)
  have pv: "?pv \<in> set (vgi_PhysicalVolumes sample_group)" "pvi_Type ?pv = PVTypePartition"
    "pvi_Size ?pv = Some 10"
    by (simp_all add: sample_group_def)
  have nodisk: "FindDiskByPath ?r (host ?s) (pvi_Path ?pv) = None"
    by (simp add: sample_reconciler_def sample_FindDiskByPath_def sample_host_def)
  have nopart: "FindPartitionByPath ?r (host ?s) (pvi_Path ?pv) 10 (vgi_Name sample_group) = None"
    by (simp add: sample_reconciler_def sample_FindPartitionByPath_def sample_FindDiskByPath_def
        sample_host_def)
  have ok: "\<forall>tr c. cl_mutate (sample_client []) tr c = None" by (simp add: sample_client_def)
  note t = partition_without_disk_is_missing_resource [OF en pv nopart nodisk
      prod.collapse [symmetric] prod.collapse [symmetric], of "sample_client []" sample_instance
      "sample_profile None"]
  from t ok have a: "fst ?R
      = Fail (MissingSystemResource (Sprintf ''failed to find disk for path %s'' [ArgString ''/dev/sdc'']))"
    unfolding pvs by simp
  from t have b: "host (snd ?R) = sample_host PersonalityStorage" by simp
  from t nodisk have c: "calls (snd ?R) = []"
    unfolding pvs by auto
  from a b c show ?thesis by blast
qed

subsection \<open>The stale OSD reconciler\<close>

lemma stale_mark_step:
  "stale_mark r h e (P, U) =
     (\<lambda>k. P k \<or> matches_desired r h e k, \<lambda>k. U k \<or> recreate_needed r h e k)"
  by (auto simp: matches_desired_def recreate_needed_def fun_eq_iff Let_def split: option.splits)

declare stale_mark.simps [simp del]

lemma stale_mark_fold:
  "fold (stale_mark r h) ds (P, U) =
     (\<lambda>k. P k \<or> list_ex (\<lambda>e. matches_desired r h e k) ds,
      \<lambda>k. U k \<or> list_ex (\<lambda>e. recreate_needed r h e k) ds)"
proof (induction ds arbitrary: P U)
  case Nil
  then show ?case by simp
next
  case (Cons e ds)
  show ?case by (simp add: stale_mark_step Cons.IH disj_assoc)
qed

lemma stale_marks:
  "fold (stale_mark r h) ds (\<lambda>k. False, \<lambda>k. False) = (P, U) \<Longrightarrow>
   (\<not> P (osd_ID osd) \<or> U (osd_ID osd)) = stale_osd r h ds osd"
  by (auto simp: stale_mark_fold stale_osd_def)

lemma stale_delete_loop_ok:
  assumes ok: "\<forall>tr c. cl_mutate client tr c = None"
  shows "for_range (stale_delete_step client P U) osds (ch, s) =
     (Continue, ch \<or> list_ex (\<lambda>osd. \<not> P (osd_ID osd) \<or> U (osd_ID osd)) osds,
      s\<lparr>calls := calls s @ map (\<lambda>osd. OSDDelete (osd_ID osd))
                               (filter (\<lambda>osd. \<not> P (osd_ID osd) \<or> U (osd_ID osd)) osds)\<rparr>)"
proof (induction osds arbitrary: ch s)
  case Nil
  then show ?case by simp
next
  case (Cons osd osds)
  show ?case by (simp add: Cons.IH mutate_ok[OF ok])
qed

lemma stale_delete_loop_general:
  "for_range (stale_delete_step client P U) osds (ch, s) = (out, ch', s') \<Longrightarrow>
   host s' = host s \<and> (out = Continue \<or> (\<exists>e. out = Fail e)) \<and>
   (\<exists>new. calls s' = calls s @ new \<and> (out = Continue \<longrightarrow> ch' = (ch \<or> new \<noteq> [])) \<and>
      (\<forall>c\<in>set new. \<exists>osd\<in>set osds. (\<not> P (osd_ID osd) \<or> U (osd_ID osd)) \<and> c = OSDDelete (osd_ID osd)))"
proof (induction osds arbitrary: ch s)
  case Nil
  then show ?case by simp
next
  case (Cons osd osds)
  show ?case
  proof (cases "\<not> P (osd_ID osd) \<or> U (osd_ID osd)")
    case False
    with Cons.prems have "for_range (stale_delete_step client P U) osds (ch, s) = (out, ch', s')"
      by simp
    from Cons.IH[OF this] show ?thesis by auto
  next
    case stale: True
    let ?c = "OSDDelete (osd_ID osd)"
    show ?thesis
    proof (cases "cl_mutate client (calls s) ?c")
      case None
      with Cons.prems stale
      have "for_range (stale_delete_step client P U) osds (True, logged ?c s) = (out, ch', s')"
        by (auto simp: mutate_def logged_def)
      from Cons.IH[OF this] obtain new where
        n: "host s' = host s" "out = Continue \<or> (\<exists>e. out = Fail e)"
           "calls s' = calls s @ ?c # new" "out = Continue \<longrightarrow> ch'"
           "\<forall>c\<in>set new. \<exists>osd\<in>set osds. (\<not> P (osd_ID osd) \<or> U (osd_ID osd)) \<and> c = OSDDelete (osd_ID osd)"
        by (auto simp: logged_def)
      show ?thesis
        using n stale by (intro conjI exI[of _ "?c # new"]) auto
    next
      case (Some e)
      with Cons.prems stale show ?thesis
        by (intro conjI exI[of _ "[?c]"]) (auto simp: mutate_def)
    qed
  qed
qed

declare stale_delete_step.simps [simp del]

lemma ReconcileStaleOSDs_unfold:
  assumes en: "IsReconcilerEnabled r OSD"
    and st: "prof_Storage profile = Some st" "ps_OSDs st = Some ds"
    and marks: "fold (stale_mark r (host s)) ds (\<lambda>k. False, \<lambda>k. False) = (P, U)"
    and loop: "for_range (stale_delete_step client P U) (host_OSDs (host s)) (False, s) = (o1, ch, s1)"
  shows "ReconcileStaleOSDs r client inst profile s =
     (if o1 \<noteq> Continue then (o1, s1) else if ch then refresh_osds client s1 else (Continue, s1))"
  using en st marks loop by (simp add: ReconcileStaleOSDs_def)

lemma ReconcileStaleOSDs_ok:
  assumes en: "IsReconcilerEnabled r OSD"
    and st: "prof_Storage profile = Some st" "ps_OSDs st = Some ds"
    and ok: "\<forall>tr c. cl_mutate client tr c = None"
  shows "ReconcileStaleOSDs r client inst profile s =
     (if stale_deletes r (host s) ds = [] then (Continue, s)
      else refresh_osds client (s\<lparr>calls := calls s @ stale_deletes r (host s) ds\<rparr>))"
proof -
  obtain P U where marks: "fold (stale_mark r (host s)) ds (\<lambda>k. False, \<lambda>k. False) = (P, U)"
    by (metis surj_pair)
  have eq: "(\<lambda>osd. \<not> P (osd_ID osd) \<or> U (osd_ID osd)) = stale_osd r (host s) ds"
    using stale_marks[OF marks] by (simp add: fun_eq_iff)
  have loop: "for_range (stale_delete_step client P U) (host_OSDs (host s)) (False, s) =
     (Continue, list_ex (stale_osd r (host s) ds) (host_OSDs (host s)),
      s\<lparr>calls := calls s @ stale_deletes r (host s) ds\<rparr>)"
    using stale_delete_loop_ok[OF ok, of P U "host_OSDs (host s)" False s, unfolded eq]
    by (simp add: stale_deletes_def)
  have ex: "list_ex (stale_osd r (host s) ds) (host_OSDs (host s)) \<longleftrightarrow> stale_deletes r (host s) ds \<noteq> []"
    by (auto simp: stale_deletes_def list_ex_iff filter_empty_conv)
  show ?thesis
    using ReconcileStaleOSDs_unfold[OF en st marks loop, of inst] ex by auto
qed

lemma refresh_osds_calls:
  "calls (snd (refresh_osds client s)) = calls s @ [OSDList (host_ID (host s))]"
  by (simp add: refresh_osds_def logged_def split: sum.splits)

lemma refresh_osds_ok:
  "cl_ListOSDs client (calls s) = Inr result \<Longrightarrow>
   refresh_osds client s =
     (Continue, s\<lparr>calls := calls s @ [OSDList (host_ID (host s))],
                   host := (host s)\<lparr>host_OSDs := result\<rparr>\<rparr>)"
  by (simp add: refresh_osds_def logged_def)

text \<open>
  Claim C5.  Let the OSD reconciler be enabled and the profile have an OSD list.  Every
  deletion that ReconcileStaleOSDs asks for is that of an OSD of the snapshot that no
  desired entry matches by backing path, or that a matching entry wants created again
  (the functions differ, or the entry has no journal and the record has a journal
  location that is not its own identifier); the only other call is the refresh of the
  OSD list.  When the client calls succeed, the deletions are exactly those of all such
  OSDs, in the order of the snapshot; with no deletion nothing changes, and with at
  least one the OSD list is fetched once more and replaces that of the snapshot.
\<close>

theorem ReconcileStaleOSDs_deletes_stale:
  assumes en: "IsReconcilerEnabled r OSD"
    and st: "prof_Storage profile = Some st" "ps_OSDs st = Some ds"
    and res: "ReconcileStaleOSDs r client inst profile s = (out, s')"
  shows "(\<exists>new. calls s' = calls s @ new \<and>
        (\<forall>c\<in>set new. c = OSDList (host_ID (host s)) \<or>
           (\<exists>osd\<in>set (host_OSDs (host s)). stale_osd r (host s) ds osd \<and> c = OSDDelete (osd_ID osd)))) \<and>
     ((\<forall>tr c. cl_mutate client tr c = None) \<longrightarrow>
        calls s' = calls s @ stale_deletes r (host s) ds @
          (if stale_deletes r (host s) ds = [] then [] else [OSDList (host_ID (host s))]) \<and>
        (stale_deletes r (host s) ds = [] \<longrightarrow> out = Continue \<and> s' = s) \<and>
        (\<forall>result. stale_deletes r (host s) ds \<noteq> [] \<and>
           cl_ListOSDs client (calls s @ stale_deletes r (host s) ds) = Inr result \<longrightarrow>
           out = Continue \<and> host s' = (host s)\<lparr>host_OSDs := result\<rparr>))"
proof (rule conjI)
  obtain P U where marks: "fold (stale_mark r (host s)) ds (\<lambda>k. False, \<lambda>k. False) = (P, U)"
    by (metis surj_pair)
  obtain o1 ch s1 where
    loop: "for_range (stale_delete_step client P U) (host_OSDs (host s)) (False, s) = (o1, ch, s1)"
    by (metis prod_cases3)
  from stale_delete_loop_general[OF loop] stale_marks[OF marks] obtain new where
    n: "host s1 = host s" "calls s1 = calls s @ new"
       "\<forall>c\<in>set new. \<exists>osd\<in>set (host_OSDs (host s)). stale_osd r (host s) ds osd \<and> c = OSDDelete (osd_ID osd)"
    by auto
  have "s' = s1 \<or> s' = snd (refresh_osds client s1)"
    using ReconcileStaleOSDs_unfold[OF en st marks loop, of inst] res
    by (auto split: if_splits dest: arg_cong[where f = snd])
  then show "\<exists>new. calls s' = calls s @ new \<and>
        (\<forall>c\<in>set new. c = OSDList (host_ID (host s)) \<or>
           (\<exists>osd\<in>set (host_OSDs (host s)). stale_osd r (host s) ds osd \<and> c = OSDDelete (osd_ID osd)))"
  proof
    assume "s' = s1"
    with n show ?thesis by auto
  next
    assume "s' = snd (refresh_osds client s1)"
    then have "calls s' = calls s @ (new @ [OSDList (host_ID (host s))])"
      using n by (simp add: refresh_osds_calls)
    with n(3) show ?thesis
      by (intro exI[of _ "new @ [OSDList (host_ID (host s))]"]) auto
  qed
next
  show "(\<forall>tr c. cl_mutate client tr c = None) \<longrightarrow>
        calls s' = calls s @ stale_deletes r (host s) ds @
          (if stale_deletes r (host s) ds = [] then [] else [OSDList (host_ID (host s))]) \<and>
        (stale_deletes r (host s) ds = [] \<longrightarrow> out = Continue \<and> s' = s) \<and>
        (\<forall>result. stale_deletes r (host s) ds \<noteq> [] \<and>
           cl_ListOSDs client (calls s @ stale_deletes r (host s) ds) = Inr result \<longrightarrow>
           out = Continue \<and> host s' = (host s)\<lparr>host_OSDs := result\<rparr>)"
  proof (rule impI)
  assume ok: "\<forall>tr c. cl_mutate client tr c = None"
  note eq = ReconcileStaleOSDs_ok[OF en st ok, of inst s]
  from res have os: "out = fst (ReconcileStaleOSDs r client inst profile s)"
    "s' = snd (ReconcileStaleOSDs r client inst profile s)"
    by simp_all
  let ?R = "ReconcileStaleOSDs r client inst profile s"
  have "calls (snd ?R) = calls s @ stale_deletes r (host s) ds @
          (if stale_deletes r (host s) ds = [] then [] else [OSDList (host_ID (host s))])"
    unfolding eq by (simp add: refresh_osds_calls)
  then have x: "calls s' = calls s @ stale_deletes r (host s) ds @
          (if stale_deletes r (host s) ds = [] then [] else [OSDList (host_ID (host s))])"
    by (simp add: os)
  have "stale_deletes r (host s) ds = [] \<longrightarrow> fst ?R = Continue \<and> snd ?R = s"
    unfolding eq by simp
  then have y: "stale_deletes r (host s) ds = [] \<longrightarrow> out = Continue \<and> s' = s"
    by (simp add: os)
  have "\<forall>result. stale_deletes r (host s) ds \<noteq> [] \<and>
           cl_ListOSDs client (calls s @ stale_deletes r (host s) ds) = Inr result \<longrightarrow>
           fst ?R = Continue \<and> host (snd ?R) = (host s)\<lparr>host_OSDs := result\<rparr>"
    unfolding eq by (auto simp: refresh_osds_ok)
  then have z: "\<forall>result. stale_deletes r (host s) ds \<noteq> [] \<and>
           cl_ListOSDs client (calls s @ stale_deletes r (host s) ds) = Inr result \<longrightarrow>
           out = Continue \<and> host s' = (host s)\<lparr>host_OSDs := result\<rparr>"
    by (simp add: os)
  from x y z show "calls s' = calls s @ stale_deletes r (host s) ds @
          (if stale_deletes r (host s) ds = [] then [] else [OSDList (host_ID (host s))]) \<and>
        (stale_deletes r (host s) ds = [] \<longrightarrow> out = Continue \<and> s' = s) \<and>
        (\<forall>result. stale_deletes r (host s) ds \<noteq> [] \<and>
           cl_ListOSDs client (calls s @ stale_deletes r (host s) ds) = Inr result \<longrightarrow>
           out = Continue \<and> host s' = (host s)\<lparr>host_OSDs := result\<rparr>)"
    by blast
  qed
qed

lemma sample_lookup_osds:
  "FindOSDByPath (sample_reconciler t) host_with_osds ''/dev/sda'' = Some sample_osd_a"
  "FindOSDByPath (sample_reconciler t) host_with_osds ''/dev/sdb'' = Some sample_osd_b"
  by (simp_all add: sample_reconciler_def sample_FindOSDByPath_def sample_FindDiskByPath_def
      host_with_osds_def sample_host_def sample_osd_a_def sample_osd_b_def)

lemma sample_stale_deletes:
  "stale_deletes (sample_reconciler t) host_with_osds [sample_plain_osd] = [OSDDelete ''osd-b'']"
  "stale_deletes (sample_reconciler t) host_with_osds [] = [OSDDelete ''osd-a'', OSDDelete ''osd-b'']"
proof -
  have p: "oi_Path sample_plain_osd = ''/dev/sda''" "oi_Function sample_plain_osd = FunctionOSD"
    "oi_Journal sample_plain_osd = None"
    by (simp_all add: sample_plain_osd_def)
  have o: "osd_ID sample_osd_a = ''osd-a''" "osd_ID sample_osd_b = ''osd-b''"
    "osd_Function sample_osd_a = FunctionOSD" "osd_JournalLocation sample_osd_a = Some ''osd-a''"
    by (simp_all add: sample_osd_a_def sample_osd_b_def)
  have h: "host_OSDs host_with_osds = [sample_osd_a, sample_osd_b]"
    by (simp add: host_with_osds_def)
  show "stale_deletes (sample_reconciler t) host_with_osds [sample_plain_osd] = [OSDDelete ''osd-b'']"
    by (simp add: stale_deletes_def stale_osd_def matches_desired_def recreate_needed_def
        sample_lookup_osds p o h)
  show "stale_deletes (sample_reconciler t) host_with_osds [] = [OSDDelete ''osd-a'', OSDDelete ''osd-b'']"
    by (simp add: stale_deletes_def stale_osd_def h o)
qed

theorem ReconcileStaleOSDs_deletes_stale_witness:
  "ReconcileStaleOSDs (sample_reconciler SystemTypeStandard) (sample_client [sample_osd_a])
     sample_instance (sample_profile (Some [sample_plain_osd])) \<lparr>host = host_with_osds, calls = []\<rparr>
   = (Continue, \<lparr>host = host_with_osds\<lparr>host_OSDs := [sample_osd_a]\<rparr>,
                 calls = [OSDDelete ''osd-b'', OSDList ''host-1'']\<rparr>)"
proof -
  let ?r = "sample_reconciler SystemTypeStandard"
  let ?c = "sample_client [sample_osd_a]"
  let ?p = "sample_profile (Some [sample_plain_osd])"
  let ?s = "\<lparr>host = host_with_osds, calls = []\<rparr>"
  let ?R = "ReconcileStaleOSDs ?r ?c sample_instance ?p ?s"
  have en: "IsReconcilerEnabled ?r OSD" by (simp add: sample_reconciler_def)
  have st: "prof_Storage ?p = Some \<lparr>ps_Monitor = None, ps_OSDs = Some [sample_plain_osd],
      ps_VolumeGroups = None, ps_FileSystems = None\<rparr>"
    by (simp add: sample_profile_def)
  have ok: "\<forall>tr c. cl_mutate ?c tr c = None" by (simp add: sample_client_def)
  have ls: "cl_ListOSDs ?c tr = Inr [sample_osd_a]" for tr by (simp add: sample_client_def)
  have hid: "host_ID host_with_osds = ''host-1''" by (simp add: host_with_osds_def sample_host_def)
  note t = ReconcileStaleOSDs_deletes_stale [OF en st _ prod.collapse [symmetric],
      of "[sample_plain_osd]" ?c sample_instance ?s, simplified]
  from t ok have "calls (snd ?R) = [OSDDelete ''osd-b'', OSDList ''host-1''] \<and>
     fst ?R = Continue \<and> host (snd ?R) = host_with_osds\<lparr>host_OSDs := [sample_osd_a]\<rparr>"
    by (simp add: sample_stale_deletes ls hid)
  then show ?thesis
    by (cases ?R, cases "snd ?R") simp
qed


subsection \<open>The admission gate\<close>

text \<open>
  Claim C3.  The gate tests its conditions in order and stops at the first one that is
  not met: no cluster of the OSD's cluster name, an undefined deployment model, too few
  enabled monitors on a standard system whose model is that of storage or controller
  nodes, no storage tier.  Each gives its own wait; none gives an error; when all are
  met the gate gives no wait.  In the OSD loop an entry without a record whose request
  was built is created exactly when the gate gives no wait, and otherwise the wait of
  the gate ends the loop without a call.
\<close>

theorem OSDProvisioningAllowed_gate:
  "(FindClusterByName r h (oi_ClusterName e) = None \<longrightarrow>
      OSDProvisioningAllowed r inst e tier h =
        Wait (ClusterPresenceMonitor inst (oi_ClusterName e))
          (Sprintf ''waiting for the %q cluster to be created before allowing OSDs''
             [ArgString (oi_ClusterName e)])) \<and>
   (\<forall>c. FindClusterByName r h (oi_ClusterName e) = Some c \<longrightarrow>
      (cluster_DeploymentModel c = DeploymentModelUndefined r \<longrightarrow>
         OSDProvisioningAllowed r inst e tier h =
           Wait (ClusterDeploymentModelMonitor inst (cluster_ID c))
             (Sprintf ''waiting for storage deployment model to be defined before allowing OSDs'' [])) \<and>
      (cluster_DeploymentModel c \<noteq> DeploymentModelUndefined r \<and> monitors_lacking r inst c \<longrightarrow>
         OSDProvisioningAllowed r inst e tier h =
           Wait (StorageMonitorCountMonitor inst (OSDMinimumMonitorCount r))
             (Sprintf ''waiting for %d monitor(s) to be enabled before allowing OSDs''
                [ArgInt (OSDMinimumMonitorCount r)])) \<and>
      (cluster_DeploymentModel c \<noteq> DeploymentModelUndefined r \<and> \<not> monitors_lacking r inst c \<and>
       tier = None \<longrightarrow>
         OSDProvisioningAllowed r inst e tier h =
           Wait (StorageTierMonitor inst (cluster_ID c) (StorageTierName r))
             (Sprintf ''waiting for the %q %s tier to be created''
                [ArgString (oi_ClusterName e), ArgString (StorageTierName r)])) \<and>
      (cluster_DeploymentModel c \<noteq> DeploymentModelUndefined r \<and> \<not> monitors_lacking r inst c \<and>
       tier \<noteq> None \<longrightarrow>
         OSDProvisioningAllowed r inst e tier h = Continue)) \<and>
   (\<forall>x. OSDProvisioningAllowed r inst e tier h \<noteq> Fail x) \<and>
   OSDProvisioningAllowed r inst e tier h \<noteq> NilDeref \<and>
   (\<forall>opts. oi_Function e = f \<and> FindOSDByPath r (host s) (oi_Path e) = None \<and>
      buildOSDOpts r (host s) e = Inr opts \<longrightarrow>
      (OSDProvisioningAllowed r inst e (oo_TierUUID opts) (host s) \<noteq> Continue \<longrightarrow>
         osd_step r client inst f e (u, s) =
           (OSDProvisioningAllowed r inst e (oo_TierUUID opts) (host s), u, s)) \<and>
      (OSDProvisioningAllowed r inst e (oo_TierUUID opts) (host s) = Continue \<longrightarrow>
         calls (snd (snd (osd_step r client inst f e (u, s)))) = calls s @ [OSDCreate opts]))"
proof -
  have a: "FindClusterByName r h (oi_ClusterName e) = None \<longrightarrow>
      OSDProvisioningAllowed r inst e tier h =
        Wait (ClusterPresenceMonitor inst (oi_ClusterName e))
          (Sprintf ''waiting for the %q cluster to be created before allowing OSDs''
             [ArgString (oi_ClusterName e)])"
    by (simp add: OSDProvisioningAllowed_def StartMonitor_def Let_def)
  have b: "\<forall>c. FindClusterByName r h (oi_ClusterName e) = Some c \<longrightarrow>
      (cluster_DeploymentModel c = DeploymentModelUndefined r \<longrightarrow>
         OSDProvisioningAllowed r inst e tier h =
           Wait (ClusterDeploymentModelMonitor inst (cluster_ID c))
             (Sprintf ''waiting for storage deployment model to be defined before allowing OSDs'' [])) \<and>
      (cluster_DeploymentModel c \<noteq> DeploymentModelUndefined r \<and> monitors_lacking r inst c \<longrightarrow>
         OSDProvisioningAllowed r inst e tier h =
           Wait (StorageMonitorCountMonitor inst (OSDMinimumMonitorCount r))
             (Sprintf ''waiting for %d monitor(s) to be enabled before allowing OSDs''
                [ArgInt (OSDMinimumMonitorCount r)])) \<and>
      (cluster_DeploymentModel c \<noteq> DeploymentModelUndefined r \<and> \<not> monitors_lacking r inst c \<and>
       tier = None \<longrightarrow>
         OSDProvisioningAllowed r inst e tier h =
           Wait (StorageTierMonitor inst (cluster_ID c) (StorageTierName r))
             (Sprintf ''waiting for the %q %s tier to be created''
                [ArgString (oi_ClusterName e), ArgString (StorageTierName r)])) \<and>
      (cluster_DeploymentModel c \<noteq> DeploymentModelUndefined r \<and> \<not> monitors_lacking r inst c \<and>
       tier \<noteq> None \<longrightarrow>
         OSDProvisioningAllowed r inst e tier h = Continue)"
    by (auto simp: OSDProvisioningAllowed_def StartMonitor_def monitors_lacking_def Let_def)
  have c: "\<forall>x. OSDProvisioningAllowed r inst e tier h \<noteq> Fail x"
    by (simp add: OSDProvisioningAllowed_def StartMonitor_def Let_def split: option.splits)
  have d: "OSDProvisioningAllowed r inst e tier h \<noteq> NilDeref"
    by (simp add: OSDProvisioningAllowed_def StartMonitor_def Let_def split: option.splits)
  have e: "\<forall>opts. oi_Function e = f \<and> FindOSDByPath r (host s) (oi_Path e) = None \<and>
      buildOSDOpts r (host s) e = Inr opts \<longrightarrow>
      (OSDProvisioningAllowed r inst e (oo_TierUUID opts) (host s) \<noteq> Continue \<longrightarrow>
         osd_step r client inst f e (u, s) =
           (OSDProvisioningAllowed r inst e (oo_TierUUID opts) (host s), u, s)) \<and>
      (OSDProvisioningAllowed r inst e (oo_TierUUID opts) (host s) = Continue \<longrightarrow>
         calls (snd (snd (osd_step r client inst f e (u, s)))) = calls s @ [OSDCreate opts])"
    by (auto simp: mutate_def split: option.splits)
  from a b c d e show ?thesis by blast
qed

theorem OSDProvisioningAllowed_gate_witness:
  "OSDProvisioningAllowed (sample_reconciler SystemTypeStandard) sample_instance sample_plain_osd
     (Some ''tier-1'') ((sample_host PersonalityStorage)\<lparr>host_Clusters := []\<rparr>)
   = Wait (ClusterPresenceMonitor sample_instance ''ceph_cluster'')
       (Sprintf ''waiting for the %q cluster to be created before allowing OSDs''
          [ArgString ''ceph_cluster'']) \<and>
   OSDProvisioningAllowed (sample_reconciler SystemTypeStandard) sample_instance sample_plain_osd
     (Some ''tier-1'') (gate_host ''undefined'')
   = Wait (ClusterDeploymentModelMonitor sample_instance ''cluster-1'')
       (Sprintf ''waiting for storage deployment model to be defined before allowing OSDs'' []) \<and>
   OSDProvisioningAllowed few_monitors sample_instance sample_plain_osd
     (Some ''tier-1'') (gate_host ''storage-nodes'')
   = Wait (StorageMonitorCountMonitor sample_instance 2)
       (Sprintf ''waiting for %d monitor(s) to be enabled before allowing OSDs'' [ArgInt 2]) \<and>
   OSDProvisioningAllowed (sample_reconciler SystemTypeStandard) sample_instance sample_plain_osd
     None (gate_host ''storage-nodes'')
   = Wait (StorageTierMonitor sample_instance ''cluster-1'' ''storage'')
       (Sprintf ''waiting for the %q %s tier to be created''
          [ArgString ''ceph_cluster'', ArgString ''storage'']) \<and>
   OSDProvisioningAllowed (sample_reconciler SystemTypeStandard) sample_instance sample_plain_osd
     (Some ''tier-1'') (gate_host ''storage-nodes'')
   = Continue"
proof -
  let ?r = "sample_reconciler SystemTypeStandard"
  let ?c = "\<lambda>model. \<lparr>cluster_ID = ''cluster-1'', cluster_Name = ''ceph_cluster'',
                           cluster_DeploymentModel = model\<rparr>"
  have n: "oi_ClusterName sample_plain_osd = ''ceph_cluster''" by (simp add: sample_plain_osd_def)
  have f0: "FindClusterByName r' ((sample_host PersonalityStorage)\<lparr>host_Clusters := []\<rparr>)
      (oi_ClusterName sample_plain_osd) = None" if "r' = ?r" for r'
    using that by (simp add: sample_reconciler_def sample_FindClusterByName_def)
  have f1: "FindClusterByName ?r (gate_host model) (oi_ClusterName sample_plain_osd) = Some (?c model)"
    "FindClusterByName few_monitors (gate_host model) (oi_ClusterName sample_plain_osd) = Some (?c model)"
    for model
    by (simp_all add: sample_reconciler_def few_monitors_def sample_FindClusterByName_def
        gate_host_def n)
  have k: "DeploymentModelUndefined ?r = ''undefined''" "DeploymentModelUndefined few_monitors = ''undefined''"
    "OSDMinimumMonitorCount few_monitors = 2" "StorageTierName ?r = ''storage''"
    by (simp_all add: sample_reconciler_def few_monitors_def)
  have l: "monitors_lacking few_monitors sample_instance (?c ''storage-nodes'')"
    "\<not> monitors_lacking ?r sample_instance (?c ''storage-nodes'')"
    by (simp_all add: monitors_lacking_def sample_reconciler_def few_monitors_def sample_instance_def)
  have a: "OSDProvisioningAllowed ?r sample_instance sample_plain_osd
     (Some ''tier-1'') ((sample_host PersonalityStorage)\<lparr>host_Clusters := []\<rparr>)
   = Wait (ClusterPresenceMonitor sample_instance ''ceph_cluster'')
       (Sprintf ''waiting for the %q cluster to be created before allowing OSDs''
          [ArgString ''ceph_cluster''])"
    using OSDProvisioningAllowed_gate [of ?r "(sample_host PersonalityStorage)\<lparr>host_Clusters := []\<rparr>"
        sample_plain_osd sample_instance "Some ''tier-1''"] f0 [OF refl]
    by (simp add: n)
  have b: "OSDProvisioningAllowed ?r sample_instance sample_plain_osd
     (Some ''tier-1'') (gate_host ''undefined'')
   = Wait (ClusterDeploymentModelMonitor sample_instance ''cluster-1'')
       (Sprintf ''waiting for storage deployment model to be defined before allowing OSDs'' [])"
    using OSDProvisioningAllowed_gate [of ?r "gate_host ''undefined''"
        sample_plain_osd sample_instance "Some ''tier-1''"] f1(1) [of "''undefined''"] k
    by simp
  have c: "OSDProvisioningAllowed few_monitors sample_instance sample_plain_osd
     (Some ''tier-1'') (gate_host ''storage-nodes'')
   = Wait (StorageMonitorCountMonitor sample_instance 2)
       (Sprintf ''waiting for %d monitor(s) to be enabled before allowing OSDs'' [ArgInt 2])"
    using OSDProvisioningAllowed_gate [of few_monitors "gate_host ''storage-nodes''"
        sample_plain_osd sample_instance "Some ''tier-1''"] f1(2) [of "''storage-nodes''"] k l
    by simp
  have d: "OSDProvisioningAllowed ?r sample_instance sample_plain_osd
     None (gate_host ''storage-nodes'')
   = Wait (StorageTierMonitor sample_instance ''cluster-1'' ''storage'')
       (Sprintf ''waiting for the %q %s tier to be created''
          [ArgString ''ceph_cluster'', ArgString ''storage''])"
    using OSDProvisioningAllowed_gate [of ?r "gate_host ''storage-nodes''"
        sample_plain_osd sample_instance None] f1(1) [of "''storage-nodes''"] k l
    by (simp add: n)
  have e: "OSDProvisioningAllowed ?r sample_instance sample_plain_osd
     (Some ''tier-1'') (gate_host ''storage-nodes'') = Continue"
    using OSDProvisioningAllowed_gate [of ?r "gate_host ''storage-nodes''"
        sample_plain_osd sample_instance "Some ''tier-1''"] f1(1) [of "''storage-nodes''"] k l
    by simp
  from a b c d e show ?thesis by blast
qed

subsection \<open>The sizes of the filesystems\<close>

lemma file_system_size_inner_fold:
  "fold (file_system_size_inner fi) fss (found, ups) =
     (found \<or> list_ex (\<lambda>fs. fs_Name fs = fsi_Name fi) fss,
      ups @ map (\<lambda>fs. \<lparr>fo_Name = fsi_Name fi, fo_Size = fsi_Size fi\<rparr>)
              (filter (\<lambda>fs. fs_Name fs = fsi_Name fi \<and> fs_Size fs < fsi_Size fi) fss))"
  by (induction fss arbitrary: found ups) auto

lemma growing_Cons:
  "growing h (fi # fis) =
     map (\<lambda>fs. \<lparr>fo_Name = fsi_Name fi, fo_Size = fsi_Size fi\<rparr>)
       (filter (\<lambda>fs. fs_Name fs = fsi_Name fi \<and> fs_Size fs < fsi_Size fi) (host_FileSystems h))
     @ growing h fis"
  by (simp add: growing_def)

lemma growing_Nil [simp]: "growing h [] = []"
  by (simp add: growing_def)

lemma file_system_size_step_eq:
  "file_system_size_step h fi ups =
     (if on_host h fi then (Continue, ups @ growing h [fi])
      else (Fail (MissingSystemResource
                    (Sprintf ''unknown host filesystem %q'' [ArgString (fsi_Name fi)])),
            ups @ growing h [fi]))"
  by (simp add: file_system_size_step_def file_system_size_inner_fold on_host_def growing_Cons)

lemma file_system_size_loop_found:
  "list_all (on_host h) fis \<Longrightarrow>
   for_range (file_system_size_step h) fis ups = (Continue, ups @ growing h fis)"
proof (induction fis arbitrary: ups)
  case Nil
  then show ?case by simp
next
  case (Cons fi fis)
  then show ?case by (simp add: file_system_size_step_eq growing_Cons [of h fi fis] growing_Cons [of h fi "[]"])
qed

lemma file_system_size_loop_missing:
  "\<not> list_all (on_host h) fis \<Longrightarrow>
   \<exists>fi\<in>set fis. \<not> on_host h fi \<and>
     fst (for_range (file_system_size_step h) fis ups) =
       Fail (MissingSystemResource (Sprintf ''unknown host filesystem %q'' [ArgString (fsi_Name fi)]))"
proof (induction fis arbitrary: ups)
  case Nil
  then show ?case by simp
next
  case (Cons fi fis)
  show ?case
  proof (cases "on_host h fi")
    case True
    with Cons.prems have "\<not> list_all (on_host h) fis" by simp
    from Cons.IH[OF this, of "ups @ growing h [fi]"] True show ?thesis
      by (auto simp: file_system_size_step_eq)
  next
    case False
    then show ?thesis by (simp add: file_system_size_step_eq)
  qed
qed

lemma growing_grows:
  "o' \<in> set (growing h fis) \<Longrightarrow>
   \<exists>fi\<in>set fis. \<exists>fs\<in>set (host_FileSystems h).
      fs_Name fs = fsi_Name fi \<and> fo_Name o' = fsi_Name fi \<and> fo_Size o' = fsi_Size fi
      \<and> fs_Size fs < fo_Size o'"
  by (fastforce simp: growing_def)

lemma ReconcileFileSystemSizes_unfold:
  assumes en: "IsReconcilerEnabled r FileSystemSizes"
    and st: "prof_Storage profile = Some st" "ps_FileSystems st = Some fis" "fis \<noteq> []"
  shows "ReconcileFileSystemSizes r client inst profile s =
     (if \<not> IsUnlockedAvailable r (host s) then
        (Wait (UnlockedAvailableHostMonitor inst (host_ID (host s)))
           (Sprintf ''waiting for host to reach available state'' []), s)
      else if \<not> list_all (on_host (host s)) fis then
        (fst (for_range (file_system_size_step (host s)) fis []), s)
      else if growing (host s) fis = [] then (Continue, s)
      else
        (case cl_mutate client (calls s) (FileSystemUpdate (host_ID (host s)) (growing (host s) fis)) of
           Some e \<Rightarrow>
             (Fail (Wrap (ClientError e) (Sprintf ''failed to update filesystems sizes'' [])),
              logged (FileSystemUpdate (host_ID (host s)) (growing (host s) fis)) s)
         | None \<Rightarrow> (Continue, logged (FileSystemUpdate (host_ID (host s)) (growing (host s) fis)) s)))"
proof (cases "list_all (on_host (host s)) fis")
  case True
  then show ?thesis
    using en st
    by (simp add: ReconcileFileSystemSizes_def StartMonitor_def file_system_size_loop_found
        mutate_def logged_def split: option.splits)
next
  case False
  from file_system_size_loop_missing[OF False, of "[]"]
  have "fst (for_range (file_system_size_step (host s)) fis []) \<noteq> Continue" by auto
  then show ?thesis
    using en st False
    by (auto simp: ReconcileFileSystemSizes_def StartMonitor_def split: prod.splits)
qed

text \<open>
  Claim C6.  Let the size reconciler be enabled and the profile have a filesystem list
  that is not empty.  On a host that is not unlocked and available the pass waits for
  the host and does nothing else.  Otherwise, if a desired filesystem has no namesake on
  the host, the pass fails with the missing resource of the first such filesystem and
  calls nothing.  Otherwise the snapshot is unchanged and the pass makes one update call
  that holds all growing entries, or no call when nothing grows.  An entry of that call
  always carries a desired size strictly above the size of a filesystem of that name on
  the host: nothing shrinks.
\<close>

theorem ReconcileFileSystemSizes_grows_only:
  assumes en: "IsReconcilerEnabled r FileSystemSizes"
    and st: "prof_Storage profile = Some st" "ps_FileSystems st = Some fis" "fis \<noteq> []"
    and res: "ReconcileFileSystemSizes r client inst profile s = (out, s')"
  shows "(\<not> IsUnlockedAvailable r (host s) \<longrightarrow>
        out = Wait (UnlockedAvailableHostMonitor inst (host_ID (host s)))
                (Sprintf ''waiting for host to reach available state'' []) \<and> s' = s) \<and>
     (IsUnlockedAvailable r (host s) \<and> \<not> list_all (on_host (host s)) fis \<longrightarrow>
        (\<exists>fi\<in>set fis. \<not> on_host (host s) fi \<and>
           out = Fail (MissingSystemResource
                         (Sprintf ''unknown host filesystem %q'' [ArgString (fsi_Name fi)]))) \<and>
        s' = s) \<and>
     (IsUnlockedAvailable r (host s) \<and> list_all (on_host (host s)) fis \<longrightarrow>
        host s' = host s \<and>
        calls s' = calls s @
          (if growing (host s) fis = [] then []
           else [FileSystemUpdate (host_ID (host s)) (growing (host s) fis)]) \<and>
        (growing (host s) fis = [] \<or>
         cl_mutate client (calls s) (FileSystemUpdate (host_ID (host s)) (growing (host s) fis)) = None
           \<longrightarrow> out = Continue)) \<and>
     (\<forall>upd\<in>set (growing (host s) fis). \<exists>fi\<in>set fis. \<exists>fs\<in>set (host_FileSystems (host s)).
        fs_Name fs = fsi_Name fi \<and> fo_Name upd = fsi_Name fi \<and> fo_Size upd = fsi_Size fi
        \<and> fs_Size fs < fo_Size upd)"
proof -
  let ?R = "ReconcileFileSystemSizes r client inst profile s"
  note eq = ReconcileFileSystemSizes_unfold[OF en st, of client inst s]
  from res have os: "out = fst ?R" "s' = snd ?R" by simp_all
  have a: "\<not> IsUnlockedAvailable r (host s) \<longrightarrow>
        fst ?R = Wait (UnlockedAvailableHostMonitor inst (host_ID (host s)))
                (Sprintf ''waiting for host to reach available state'' []) \<and> snd ?R = s"
    unfolding eq by simp
  have b: "IsUnlockedAvailable r (host s) \<and> \<not> list_all (on_host (host s)) fis \<longrightarrow>
        (\<exists>fi\<in>set fis. \<not> on_host (host s) fi \<and>
           fst ?R = Fail (MissingSystemResource
                         (Sprintf ''unknown host filesystem %q'' [ArgString (fsi_Name fi)]))) \<and>
        snd ?R = s"
    unfolding eq using file_system_size_loop_missing[of "host s" fis "[]"] by simp
  have c: "IsUnlockedAvailable r (host s) \<and> list_all (on_host (host s)) fis \<longrightarrow>
        host (snd ?R) = host s \<and>
        calls (snd ?R) = calls s @
          (if growing (host s) fis = [] then []
           else [FileSystemUpdate (host_ID (host s)) (growing (host s) fis)]) \<and>
        (growing (host s) fis = [] \<or>
         cl_mutate client (calls s) (FileSystemUpdate (host_ID (host s)) (growing (host s) fis)) = None
           \<longrightarrow> fst ?R = Continue)"
    unfolding eq by (auto simp: logged_def split: option.splits)
  have d: "\<forall>upd\<in>set (growing (host s) fis). \<exists>fi\<in>set fis. \<exists>fs\<in>set (host_FileSystems (host s)).
        fs_Name fs = fsi_Name fi \<and> fo_Name upd = fsi_Name fi \<and> fo_Size upd = fsi_Size fi
        \<and> fs_Size fs < fo_Size upd"
    using growing_grows by blast
  from a b c d show ?thesis unfolding os by blast
qed

lemma sample_growing:
  "growing host_with_filesystems
     [\<lparr>fsi_Name = ''backup'', fsi_Size = 8\<rparr>, \<lparr>fsi_Name = ''docker'', fsi_Size = 20\<rparr>]
   = [\<lparr>fo_Name = ''docker'', fo_Size = 20\<rparr>]"
  "growing host_with_filesystems [\<lparr>fsi_Name = ''backup'', fsi_Size = 8\<rparr>] = []"
  "list_all (on_host host_with_filesystems)
     [\<lparr>fsi_Name = ''backup'', fsi_Size = 8\<rparr>, \<lparr>fsi_Name = ''docker'', fsi_Size = 20\<rparr>]"
  "list_all (on_host host_with_filesystems) [\<lparr>fsi_Name = ''backup'', fsi_Size = 8\<rparr>]"
  by (simp_all add: growing_def on_host_def host_with_filesystems_def)

theorem ReconcileFileSystemSizes_grows_only_witness:
  "calls (snd (ReconcileFileSystemSizes (sample_reconciler SystemTypeStandard) (sample_client [])
      sample_instance
      (filesystem_profile [\<lparr>fsi_Name = ''backup'', fsi_Size = 8\<rparr>, \<lparr>fsi_Name = ''docker'', fsi_Size = 20\<rparr>])
      \<lparr>host = host_with_filesystems, calls = []\<rparr>))
   = [FileSystemUpdate ''host-1'' [\<lparr>fo_Name = ''docker'', fo_Size = 20\<rparr>]] \<and>
   calls (snd (ReconcileFileSystemSizes (sample_reconciler SystemTypeStandard) (sample_client [])
      sample_instance (filesystem_profile [\<lparr>fsi_Name = ''backup'', fsi_Size = 8\<rparr>])
      \<lparr>host = host_with_filesystems, calls = []\<rparr>))
   = [] \<and>
   fst (ReconcileFileSystemSizes (sample_reconciler SystemTypeStandard) (sample_client [])
      sample_instance (filesystem_profile [\<lparr>fsi_Name = ''backup'', fsi_Size = 8\<rparr>])
      \<lparr>host = host_with_filesystems\<lparr>host_AdministrativeState := ''locked''\<rparr>, calls = []\<rparr>)
   = Wait (UnlockedAvailableHostMonitor sample_instance ''host-1'')
       (Sprintf ''waiting for host to reach available state'' []) \<and>
   fst (ReconcileFileSystemSizes (sample_reconciler SystemTypeStandard) (sample_client [])
      sample_instance (filesystem_profile [\<lparr>fsi_Name = ''scratch'', fsi_Size = 8\<rparr>])
      \<lparr>host = host_with_filesystems, calls = []\<rparr>)
   = Fail (MissingSystemResource (Sprintf ''unknown host filesystem %q'' [ArgString ''scratch'']))"
proof -
  let ?r = "sample_reconciler SystemTypeStandard"
  let ?s = "\<lparr>host = host_with_filesystems, calls = []\<rparr>"
  let ?l = "\<lparr>host = host_with_filesystems\<lparr>host_AdministrativeState := ''locked''\<rparr>, calls = []\<rparr>"
  have en: "IsReconcilerEnabled ?r FileSystemSizes" by (simp add: sample_reconciler_def)
  have st: "prof_Storage (filesystem_profile fis) = Some \<lparr>ps_Monitor = None, ps_OSDs = None,
      ps_VolumeGroups = None, ps_FileSystems = Some fis\<rparr>" for fis
    by (simp add: filesystem_profile_def)
  have ua: "IsUnlockedAvailable ?r (host ?s)" "\<not> IsUnlockedAvailable ?r (host ?l)"
    by (simp_all add: sample_reconciler_def sample_IsUnlockedAvailable_def host_with_filesystems_def
        sample_host_def)
  have hid: "host_ID host_with_filesystems = ''host-1''"
    by (simp add: host_with_filesystems_def sample_host_def)
  have miss: "\<not> list_all (on_host host_with_filesystems) [\<lparr>fsi_Name = ''scratch'', fsi_Size = 8\<rparr>]"
    by (simp add: on_host_def host_with_filesystems_def)
  note t = ReconcileFileSystemSizes_grows_only [OF en st _ _ prod.collapse [symmetric],
      where client = "sample_client []" and inst = sample_instance]
  have a: "calls (snd (ReconcileFileSystemSizes ?r (sample_client []) sample_instance
      (filesystem_profile [\<lparr>fsi_Name = ''backup'', fsi_Size = 8\<rparr>, \<lparr>fsi_Name = ''docker'', fsi_Size = 20\<rparr>])
      ?s)) = [FileSystemUpdate ''host-1'' [\<lparr>fo_Name = ''docker'', fo_Size = 20\<rparr>]]"
    using t [of "[\<lparr>fsi_Name = ''backup'', fsi_Size = 8\<rparr>, \<lparr>fsi_Name = ''docker'', fsi_Size = 20\<rparr>]" _ ?s]
      ua(1) sample_growing
    by (simp add: hid)
  have b: "calls (snd (ReconcileFileSystemSizes ?r (sample_client []) sample_instance
      (filesystem_profile [\<lparr>fsi_Name = ''backup'', fsi_Size = 8\<rparr>]) ?s)) = []"
    using t [of "[\<lparr>fsi_Name = ''backup'', fsi_Size = 8\<rparr>]" _ ?s] ua(1) sample_growing
    by simp
  have c: "fst (ReconcileFileSystemSizes ?r (sample_client []) sample_instance
      (filesystem_profile [\<lparr>fsi_Name = ''backup'', fsi_Size = 8\<rparr>]) ?l)
   = Wait (UnlockedAvailableHostMonitor sample_instance ''host-1'')
       (Sprintf ''waiting for host to reach available state'' [])"
    using t [of "[\<lparr>fsi_Name = ''backup'', fsi_Size = 8\<rparr>]" _ ?l] ua(2)
    by (simp add: hid)
  have d: "fst (ReconcileFileSystemSizes ?r (sample_client []) sample_instance
      (filesystem_profile [\<lparr>fsi_Name = ''scratch'', fsi_Size = 8\<rparr>]) ?s)
   = Fail (MissingSystemResource (Sprintf ''unknown host filesystem %q'' [ArgString ''scratch'']))"
    using t [of "[\<lparr>fsi_Name = ''scratch'', fsi_Size = 8\<rparr>]" _ ?s] ua(1) miss
    by simp
  from a b c d show ?thesis by blast
qed

subsection \<open>Journal OSDs before data OSDs\<close>

lemma for_range_two:
  "body x s = (Continue, s1) \<Longrightarrow> for_range body [x, y] s = body y s1"
  by (cases "body y s1") simp

lemma functions_differ: "FunctionJournal \<noteq> FunctionOSD" "FunctionOSD \<noteq> FunctionJournal"
  by (simp_all add: FunctionJournal_def FunctionOSD_def)

lemma osd_step_other_function:
  "oi_Function e \<noteq> f \<Longrightarrow> osd_step r client inst f e (u, s) = (Continue, u, s)"
  by simp

lemma osd_step_create:
  "oi_Function e = f \<Longrightarrow> FindOSDByPath r (host s) (oi_Path e) = None \<Longrightarrow>
   buildOSDOpts r (host s) e = Inr opts \<Longrightarrow>
   OSDProvisioningAllowed r inst e (oo_TierUUID opts) (host s) = Continue \<Longrightarrow>
   osd_step r client inst f e (u, s) =
     (case cl_mutate client (calls s) (OSDCreate opts) of
        None \<Rightarrow> (Continue, True, logged (OSDCreate opts) s)
      | Some x \<Rightarrow>
          (Fail (Wrap (ClientError x) (Sprintf ''failed to create OSD'' [])), u,
           logged (OSDCreate opts) s))"
  by (simp add: mutate_def logged_def split: option.splits)

declare osd_step.simps [simp del]

lemma buildOSDOpts_journal:
  "FindDiskByPath r h (oi_Path e) = Some disk \<Longrightarrow> oi_Journal e = Some ji \<Longrightarrow>
   FindOSDByPath r h (ji_Location ji) = Some journal \<Longrightarrow> osd_Function journal = FunctionJournal \<Longrightarrow>
   \<exists>opts. buildOSDOpts r h e = Inr opts \<and> oo_HostID opts = Some (host_ID h) \<and>
     oo_DiskID opts = Some (disk_ID disk) \<and> oo_Function opts = Some (oi_Function e) \<and>
     oo_JournalLocation opts = Some (osd_ID journal) \<and> oo_JournalSize opts = Some (ji_Size ji)"
  by (simp add: buildOSDOpts_def no_OSDOpts_def Let_def split: option.splits)

lemma ReconcileOSDsByType_single_create:
  assumes st: "prof_Storage profile = Some st" "ps_OSDs st = Some ds"
    and ds: "ds = [e, x] \<or> ds = [x, e]"
    and fn: "oi_Function e = f" "oi_Function x \<noteq> f"
    and absent: "FindOSDByPath r (host s) (oi_Path e) = None"
    and build: "buildOSDOpts r (host s) e = Inr opts"
    and gate: "OSDProvisioningAllowed r inst e (oo_TierUUID opts) (host s) = Continue"
  shows "ReconcileOSDsByType r client inst profile f s =
     (case cl_mutate client (calls s) (OSDCreate opts) of
        None \<Rightarrow> refresh_osds client (logged (OSDCreate opts) s)
      | Some x \<Rightarrow>
          (Fail (Wrap (ClientError x) (Sprintf ''failed to create OSD'' [])),
           logged (OSDCreate opts) s))"
  using ds
proof
  assume "ds = [e, x]"
  then show ?thesis
    using st fn
    by (simp add: ReconcileOSDsByType_def osd_step_create[OF fn(1) absent build gate]
        osd_step_other_function logged_def split: option.splits)
next
  assume "ds = [x, e]"
  then show ?thesis
    using st fn
    by (simp add: ReconcileOSDsByType_def osd_step_create[OF fn(1) absent build gate]
        osd_step_other_function logged_def split: option.splits)
qed

text \<open>
  Claim C9.  Let the profile hold one journal OSD and one data OSD whose journal is
  located at the path of the journal OSD, in either order, and let none of the two
  exist on the host.  Let the request for the journal OSD be built, pass the gate and
  succeed, and let the refreshed snapshot show the journal OSD at its path, with the
  journal function, and a disk but no OSD at the path of the data OSD, whose request
  passes the gate.  Then ReconcileOSDs first creates the journal OSD, refreshes the OSD
  list, and then creates the data OSD with a request whose journal location is the
  identifier that the refreshed snapshot gives for the journal OSD.
\<close>

theorem journal_created_before_data:
  assumes en: "IsReconcilerEnabled r OSD"
    and st: "prof_Storage profile = Some st" "ps_OSDs st = Some ds"
    and ds: "ds = [j, d] \<or> ds = [d, j]"
    and fj: "oi_Function j = FunctionJournal"
    and fd: "oi_Function d = FunctionOSD" "oi_Journal d = Some ji" "ji_Location ji = oi_Path j"
    and absent: "FindOSDByPath r (host s) (oi_Path j) = None"
    and build: "buildOSDOpts r (host s) j = Inr optsJ"
    and gate: "OSDProvisioningAllowed r inst j (oo_TierUUID optsJ) (host s) = Continue"
    and created: "cl_mutate client (calls s) (OSDCreate optsJ) = None"
    and listed: "cl_ListOSDs client (calls s @ [OSDCreate optsJ]) = Inr osds'"
    and found: "FindOSDByPath r ((host s)\<lparr>host_OSDs := osds'\<rparr>) (oi_Path j) = Some journal"
      "osd_Function journal = FunctionJournal"
    and data: "FindOSDByPath r ((host s)\<lparr>host_OSDs := osds'\<rparr>) (oi_Path d) = None"
      "FindDiskByPath r ((host s)\<lparr>host_OSDs := osds'\<rparr>) (oi_Path d) = Some disk"
    and gate2: "\<forall>opts. buildOSDOpts r ((host s)\<lparr>host_OSDs := osds'\<rparr>) d = Inr opts \<longrightarrow>
        OSDProvisioningAllowed r inst d (oo_TierUUID opts) ((host s)\<lparr>host_OSDs := osds'\<rparr>) = Continue"
    and res: "ReconcileOSDs r client inst profile s = (out, s')"
  shows "\<exists>optsD. buildOSDOpts r ((host s)\<lparr>host_OSDs := osds'\<rparr>) d = Inr optsD \<and>
     oo_JournalLocation optsD = Some (osd_ID journal) \<and>
     oo_JournalSize optsD = Some (ji_Size ji) \<and>
     oo_DiskID optsD = Some (disk_ID disk) \<and>
     calls s' = calls s @ [OSDCreate optsJ, OSDList (host_ID (host s)), OSDCreate optsD] @
       (if cl_mutate client (calls s @ [OSDCreate optsJ, OSDList (host_ID (host s))]) (OSDCreate optsD)
             = None
        then [OSDList (host_ID (host s))] else [])"
proof -
  let ?h = "(host s)\<lparr>host_OSDs := osds'\<rparr>"
  let ?s1 = "\<lparr>host = ?h, calls = calls s @ [OSDCreate optsJ, OSDList (host_ID (host s))]\<rparr>"
  from buildOSDOpts_journal[OF data(2) fd(2) found(1)[folded fd(3)] found(2)]
  obtain optsD where
    bd: "buildOSDOpts r ?h d = Inr optsD" and
    od: "oo_JournalLocation optsD = Some (osd_ID journal)" "oo_JournalSize optsD = Some (ji_Size ji)"
      "oo_DiskID optsD = Some (disk_ID disk)"
    by blast
  have ds1: "ds = [j, d] \<or> ds = [d, j]" by (rule ds)
  have ds2: "ds = [d, j] \<or> ds = [j, d]" using ds by blast
  have dj: "oi_Function d \<noteq> FunctionJournal" "oi_Function j \<noteq> FunctionOSD"
    using fj fd(1) functions_differ by simp_all
  have p1: "ReconcileOSDsByType r client inst profile FunctionJournal s = (Continue, ?s1)"
    using ReconcileOSDsByType_single_create[OF st ds1 fj dj(1) absent build gate, of client]
      created listed
    by (cases s) (simp add: refresh_osds_def logged_def)
  have g2: "OSDProvisioningAllowed r inst d (oo_TierUUID optsD) (host ?s1) = Continue"
    using gate2 bd by simp
  have p2: "ReconcileOSDsByType r client inst profile FunctionOSD ?s1 =
     (case cl_mutate client (calls ?s1) (OSDCreate optsD) of
        None \<Rightarrow> refresh_osds client (logged (OSDCreate optsD) ?s1)
      | Some x \<Rightarrow>
          (Fail (Wrap (ClientError x) (Sprintf ''failed to create OSD'' [])),
           logged (OSDCreate optsD) ?s1))"
    by (rule ReconcileOSDsByType_single_create[OF st ds2 fd(1) dj(2) _ _ g2])
       (simp_all add: data bd)
  have "ReconcileOSDs r client inst profile s = ReconcileOSDsByType r client inst profile FunctionOSD ?s1"
    using en st ds
      for_range_two[where body = "ReconcileOSDsByType r client inst profile" and x = FunctionJournal
        and y = FunctionOSD and s = s, OF p1]
    by (auto simp: ReconcileOSDs_def)
  with res have "s' = snd (ReconcileOSDsByType r client inst profile FunctionOSD ?s1)" by simp
  then have "calls s' = calls s @ [OSDCreate optsJ, OSDList (host_ID (host s)), OSDCreate optsD] @
       (if cl_mutate client (calls s @ [OSDCreate optsJ, OSDList (host_ID (host s))]) (OSDCreate optsD)
             = None
        then [OSDList (host_ID (host s))] else [])"
    unfolding p2 by (auto simp: logged_def refresh_osds_def split: option.splits sum.splits)
  with bd od show ?thesis by blast
qed

lemma sample_gate_passes:
  "OSDProvisioningAllowed (sample_reconciler SystemTypeStandard) sample_instance e (Some t)
     ((sample_host p)\<lparr>host_OSDs := osds\<rparr>) = Continue"
  if "oi_ClusterName e = ''ceph_cluster''"
  using that
  by (simp add: OSDProvisioningAllowed_def sample_reconciler_def sample_FindClusterByName_def
      sample_host_def Let_def)

lemma sample_requests:
  "buildOSDOpts (sample_reconciler t) ((sample_host p)\<lparr>host_OSDs := osds\<rparr>) sample_journal_osd
     = Inr journal_request"
  "buildOSDOpts (sample_reconciler t) ((sample_host p)\<lparr>host_OSDs := [sample_journal_record]\<rparr>)
     sample_data_osd = Inr data_request"
  by (simp_all add: buildOSDOpts_def sample_reconciler_def sample_FindDiskByPath_def
      sample_FindOSDByPath_def sample_host_def sample_journal_osd_def sample_data_osd_def
      sample_journal_record_def journal_request_def data_request_def no_OSDOpts_def)

lemma sample_finds:
  "FindOSDByPath (sample_reconciler t) ((sample_host p)\<lparr>host_OSDs := []\<rparr>) path = None"
  "FindOSDByPath (sample_reconciler t) ((sample_host p)\<lparr>host_OSDs := [sample_journal_record]\<rparr>)
     ''/dev/sda'' = Some sample_journal_record"
  "FindOSDByPath (sample_reconciler t) ((sample_host p)\<lparr>host_OSDs := [sample_journal_record]\<rparr>)
     ''/dev/sdb'' = None"
  "FindDiskByPath (sample_reconciler t) ((sample_host p)\<lparr>host_OSDs := osds\<rparr>) ''/dev/sdb''
     = Some \<lparr>disk_ID = ''disk-b'', disk_DevicePath = ''/dev/sdb''\<rparr>"
  by (simp_all add: sample_reconciler_def sample_FindDiskByPath_def sample_FindOSDByPath_def
      sample_host_def sample_journal_record_def split: option.splits)

theorem journal_created_before_data_witness:
  "calls (snd (ReconcileOSDs (sample_reconciler SystemTypeStandard)
      (sample_client [sample_journal_record]) sample_instance
      (sample_profile (Some [sample_data_osd, sample_journal_osd]))
      \<lparr>host = (sample_host PersonalityStorage)\<lparr>host_OSDs := []\<rparr>, calls = []\<rparr>))
   = [OSDCreate journal_request, OSDList ''host-1'', OSDCreate data_request, OSDList ''host-1'']"
proof -
  let ?r = "sample_reconciler SystemTypeStandard"
  let ?c = "sample_client [sample_journal_record]"
  let ?p = "sample_profile (Some [sample_data_osd, sample_journal_osd])"
  let ?h = "(sample_host PersonalityStorage)\<lparr>host_OSDs := []\<rparr>"
  let ?h' = "(sample_host PersonalityStorage)\<lparr>host_OSDs := [sample_journal_record]\<rparr>"
  let ?s = "\<lparr>host = ?h, calls = []\<rparr>"
  let ?ji = "\<lparr>ji_Location = ''/dev/sda'', ji_Size = 1\<rparr>"
  have en: "IsReconcilerEnabled ?r OSD" by (simp add: sample_reconciler_def)
  have st: "prof_Storage ?p = Some \<lparr>ps_Monitor = None,
      ps_OSDs = Some [sample_data_osd, sample_journal_osd], ps_VolumeGroups = None,
      ps_FileSystems = None\<rparr>"
    by (simp add: sample_profile_def)
  have fj: "oi_Function sample_journal_osd = FunctionJournal" "oi_Path sample_journal_osd = ''/dev/sda''"
    "oi_ClusterName sample_journal_osd = ''ceph_cluster''"
    by (simp_all add: sample_journal_osd_def)
  have fd: "oi_Function sample_data_osd = FunctionOSD" "oi_Journal sample_data_osd = Some ?ji"
    "oi_Path sample_data_osd = ''/dev/sdb''" "oi_ClusterName sample_data_osd = ''ceph_cluster''"
    by (simp_all add: sample_data_osd_def)
  have hh: "(host ?s)\<lparr>host_OSDs := [sample_journal_record]\<rparr> = ?h'" "host ?s = ?h" by simp_all
  have hid: "host_ID ?h = ''host-1''" by (simp add: sample_host_def)
  have ok: "cl_mutate ?c tr c = None" "cl_ListOSDs ?c tr = Inr [sample_journal_record]" for tr c
    by (simp_all add: sample_client_def)
  have tu: "oo_TierUUID journal_request = Some ''tier-1''" "oo_TierUUID data_request = Some ''tier-1''"
    by (simp_all add: journal_request_def data_request_def)
  have gate2: "\<forall>opts. buildOSDOpts ?r ((host ?s)\<lparr>host_OSDs := [sample_journal_record]\<rparr>)
          sample_data_osd = Inr opts \<longrightarrow>
        OSDProvisioningAllowed ?r sample_instance sample_data_osd (oo_TierUUID opts)
          ((host ?s)\<lparr>host_OSDs := [sample_journal_record]\<rparr>) = Continue"
    by (simp add: sample_requests tu sample_gate_passes fd)
  have "\<exists>optsD. buildOSDOpts ?r ((host ?s)\<lparr>host_OSDs := [sample_journal_record]\<rparr>)
        sample_data_osd = Inr optsD \<and>
     oo_JournalLocation optsD = Some (osd_ID sample_journal_record) \<and>
     oo_JournalSize optsD = Some (ji_Size ?ji) \<and>
     oo_DiskID optsD = Some (disk_ID \<lparr>disk_ID = ''disk-b'', disk_DevicePath = ''/dev/sdb''\<rparr>) \<and>
     calls (snd (ReconcileOSDs ?r ?c sample_instance ?p ?s)) =
       calls ?s @ [OSDCreate journal_request, OSDList (host_ID (host ?s)), OSDCreate optsD] @
       (if cl_mutate ?c (calls ?s @ [OSDCreate journal_request, OSDList (host_ID (host ?s))])
              (OSDCreate optsD) = None
        then [OSDList (host_ID (host ?s))] else [])"
  proof (rule journal_created_before_data [OF en st _ _ fj(1) fd(1) fd(2)])
    show "ps_OSDs \<lparr>ps_Monitor = None,
      ps_OSDs = Some [sample_data_osd, sample_journal_osd], ps_VolumeGroups = None,
      ps_FileSystems = None\<rparr> = Some [sample_data_osd, sample_journal_osd]"
      by simp
    show "[sample_data_osd, sample_journal_osd] = [sample_journal_osd, sample_data_osd] \<or>
      [sample_data_osd, sample_journal_osd] = [sample_data_osd, sample_journal_osd]"
      by simp
    show "ji_Location ?ji = oi_Path sample_journal_osd" by (simp add: fj)
    show "FindOSDByPath ?r (host ?s) (oi_Path sample_journal_osd) = None"
      by (simp add: sample_finds)
    show "buildOSDOpts ?r (host ?s) sample_journal_osd = Inr journal_request"
      by (simp add: sample_requests)
    show "OSDProvisioningAllowed ?r sample_instance sample_journal_osd (oo_TierUUID journal_request)
        (host ?s) = Continue"
      by (simp add: tu sample_gate_passes fj)
    show "cl_mutate ?c (calls ?s) (OSDCreate journal_request) = None" by (rule ok)
    show "cl_ListOSDs ?c (calls ?s @ [OSDCreate journal_request]) = Inr [sample_journal_record]"
      by (rule ok)
    show "FindOSDByPath ?r ((host ?s)\<lparr>host_OSDs := [sample_journal_record]\<rparr>)
        (oi_Path sample_journal_osd) = Some sample_journal_record"
      by (simp add: fj sample_finds)
    show "osd_Function sample_journal_record = FunctionJournal"
      by (simp add: sample_journal_record_def)
    show "FindOSDByPath ?r ((host ?s)\<lparr>host_OSDs := [sample_journal_record]\<rparr>)
        (oi_Path sample_data_osd) = None"
      by (simp add: fd sample_finds)
    show "FindDiskByPath ?r ((host ?s)\<lparr>host_OSDs := [sample_journal_record]\<rparr>)
        (oi_Path sample_data_osd) = Some \<lparr>disk_ID = ''disk-b'', disk_DevicePath = ''/dev/sdb''\<rparr>"
      by (simp add: fd sample_finds)
    show "\<forall>opts. buildOSDOpts ?r ((host ?s)\<lparr>host_OSDs := [sample_journal_record]\<rparr>)
          sample_data_osd = Inr opts \<longrightarrow>
        OSDProvisioningAllowed ?r sample_instance sample_data_osd (oo_TierUUID opts)
          ((host ?s)\<lparr>host_OSDs := [sample_journal_record]\<rparr>) = Continue"
      by (rule gate2)
    show "ReconcileOSDs ?r ?c sample_instance ?p ?s =
      (fst (ReconcileOSDs ?r ?c sample_instance ?p ?s), snd (ReconcileOSDs ?r ?c sample_instance ?p ?s))"
      by simp
  qed
  then show ?thesis
    by (auto simp: sample_requests ok hid)
qed

subsection \<open>The power state during a pass\<close>

lemma for_range_invariant:
  assumes run: "for_range body xs s = (out, s')" and start: "Q s"
    and step: "\<And>x s out s'. x \<in> set xs \<Longrightarrow> body x s = (out, s') \<Longrightarrow> Q s \<Longrightarrow> Q s'"
  shows "Q s'"
  using run start step
proof (induction xs arbitrary: s)
  case Nil
  then show ?case by simp
next
  case (Cons x xs)
  obtain o1 s1 where b: "body x s = (o1, s1)" by (metis surj_pair)
  from Cons.prems(3)[OF _ b Cons.prems(2)] have i1: "Q s1" by simp
  show ?case
  proof (cases "o1 = Continue")
    case True
    with Cons.prems(1) b have r1: "for_range body xs s1 = (out, s')" by simp
    show ?thesis
    proof (rule Cons.IH[OF r1 i1])
      fix y t o2 t'
      assume "y \<in> set xs" "body y t = (o2, t')" "Q t"
      then show "Q t'" using Cons.prems(3)[of y t o2 t'] by simp
    qed
  next
    case False
    with Cons.prems(1) b i1 show ?thesis by simp
  qed
qed

lemma mutate_power_state:
  "mutate client c s = (x, s') \<Longrightarrow> power_state s' = power_state s"
  by (auto simp: mutate_def power_state_def)

lemma refresh_power_state:
  "refresh_file_systems client s = (out, s') \<Longrightarrow> power_state s' = power_state s"
  "refresh_volume_groups client s = (out, s') \<Longrightarrow> power_state s' = power_state s"
  "refresh_physical_volumes client s = (out, s') \<Longrightarrow> power_state s' = power_state s"
  "refresh_osds client s = (out, s') \<Longrightarrow> power_state s' = power_state s"
  by (auto simp: refresh_file_systems_def refresh_volume_groups_def refresh_physical_volumes_def
      refresh_osds_def logged_def power_state_def split: sum.splits)

lemma refresh_partitions_power_state:
  "keeps_power_state client \<Longrightarrow> refresh_partitions client s = (out, s') \<Longrightarrow>
   power_state s' = power_state s"
  by (auto simp: refresh_partitions_def keeps_power_state_def logged_def power_state_def Let_def
      split: sum.splits)

lemma ReconcileMonitor_power_state:
  "ReconcileMonitor r client inst profile s = (out, s') \<Longrightarrow> power_state s' = power_state s"
  using ReconcileMonitor_calls by (simp add: power_state_def)

lemma delete_file_system_step_power_state:
  "delete_file_system_step client n fs (u, s) = (out, u', s') \<Longrightarrow> power_state s' = power_state s"
  by (auto simp: mutate_def power_state_def split: if_splits option.splits prod.splits
      dest!: refresh_power_state(1))

lemma create_file_system_step_power_state:
  "create_file_system_step client n fs (u, s) = (out, u', s') \<Longrightarrow> power_state s' = power_state s"
  by (auto simp: mutate_def power_state_def split: if_splits option.splits prod.splits
      dest!: refresh_power_state(1))

lemma DeleteFileSystems_power_state:
  assumes "DeleteFileSystems r client removed s = (out, u, s')"
  shows "power_state s' = power_state s"
proof -
  have inner: "power_state (snd us') = v"
    if "for_range (delete_file_system_step client n) fss us = (out, us')" "power_state (snd us) = v"
    for n fss us out us' v
    using that
    by (rule for_range_invariant[where Q = "\<lambda>us. power_state (snd us) = v"])
       (auto dest: delete_file_system_step_power_state)
  have "power_state (snd (u, s')) = power_state s"
    using assms[unfolded DeleteFileSystems_def]
    by (rule for_range_invariant[where Q = "\<lambda>us. power_state (snd us) = power_state s"])
       (auto dest: inner)
  then show ?thesis by simp
qed

lemma CreateFileSystems_power_state:
  assumes "CreateFileSystems r client added profile s = (out, u, s')"
  shows "power_state s' = power_state s"
proof -
  have inner: "power_state (snd us') = v"
    if "for_range (create_file_system_step client n) fss us = (out, us')" "power_state (snd us) = v"
    for n fss us out us' v
    using that
    by (rule for_range_invariant[where Q = "\<lambda>us. power_state (snd us) = v"])
       (auto dest: create_file_system_step_power_state)
  have "power_state (snd (u, s')) = power_state s"
    using assms[unfolded CreateFileSystems_def]
    by (rule for_range_invariant[where Q = "\<lambda>us. power_state (snd us) = power_state s"])
       (auto dest: inner split: option.splits)
  then show ?thesis by simp
qed

lemma ReconcileFileSystemTypes_power_state:
  "ReconcileFileSystemTypes r client inst profile s = (out, s') \<Longrightarrow>
   power_state s' = power_state s"
  by (auto simp: ReconcileFileSystemTypes_def Let_def
      split: option.splits if_splits prod.splits
      dest!: DeleteFileSystems_power_state CreateFileSystems_power_state)

lemma volume_group_step_power_state:
  "volume_group_step r client vg (u, s) = (out, u', s') \<Longrightarrow> power_state s' = power_state s"
  by (auto simp: mutate_def power_state_def split: option.splits)

lemma physical_volume_step_power_state:
  "physical_volume_step r client grp vg pv (u, s) = (out, u', s') \<Longrightarrow>
   power_state s' = power_state s"
  by (auto simp: mutate_def power_state_def Let_def split: option.splits if_splits)

lemma ReconcilePartitions_power_state:
  assumes keeps: "keeps_power_state client"
    and res: "ReconcilePartitions r client inst profile grp s = (out, s')"
  shows "power_state s' = power_state s"
proof (cases "IsReconcilerEnabled r Partition")
  case False
  with res show ?thesis by (simp add: ReconcilePartitions_def)
next
  case en: True
  obtain o1 u1 s1 where
    loop: "for_range (partition_step r client grp) (vgi_PhysicalVolumes grp) (False, s) = (o1, u1, s1)"
    by (metis prod_cases3)
  obtain o2 s2 where rf: "refresh_partitions client s1 = (o2, s2)"
    by (metis surj_pair)
  from partition_loop_general[OF loop] have p1: "power_state s1 = power_state s"
    by (simp add: power_state_def)
  from refresh_partitions_power_state[OF keeps rf] have p2: "power_state s2 = power_state s1" .
  have "s' = s1 \<or> s' = s2"
    using ReconcilePartitions_unfold[OF en loop, of inst profile] res rf
    by (auto simp: partition_status_loop split: if_splits)
  with p1 p2 show ?thesis by auto
qed

lemma ReconcilePhysicalVolumes_power_state:
  assumes keeps: "keeps_power_state client"
    and res: "ReconcilePhysicalVolumes r client inst profile grp s = (out, s')"
  shows "power_state s' = power_state s"
proof -
  obtain o1 s1 where rp: "ReconcilePartitions r client inst profile grp s = (o1, s1)"
    by (metis surj_pair)
  from ReconcilePartitions_power_state[OF keeps rp] have p1: "power_state s1 = power_state s" .
  have loop: "power_state (snd us') = power_state s1"
    if "for_range (physical_volume_step r client grp vg) pvs (False, s1) = (o2, us')"
    for vg pvs o2 us'
    using that
    by (rule for_range_invariant[where Q = "\<lambda>us. power_state (snd us) = power_state s1"])
       (auto dest: physical_volume_step_power_state)
  show ?thesis
    using res rp p1
    by (auto simp: ReconcilePhysicalVolumes_def split: if_splits option.splits prod.splits
        dest!: loop refresh_power_state(3))
qed

lemma ReconcileVolumeGroups_power_state:
  assumes keeps: "keeps_power_state client"
    and res: "ReconcileVolumeGroups r client inst profile s = (out, s')"
  shows "power_state s' = power_state s"
proof -
  have loop1: "power_state (snd us') = power_state s"
    if "for_range (volume_group_step r client) vgs (False, s) = (o1, us')" for vgs o1 us'
    using that
    by (rule for_range_invariant[where Q = "\<lambda>us. power_state (snd us) = power_state s"])
       (auto dest: volume_group_step_power_state)
  have loop2: "power_state s3 = v"
    if "for_range (ReconcilePhysicalVolumes r client inst profile) vgs s2 = (o3, s3)"
      "power_state s2 = v" for vgs s2 o3 s3 v
    using that
    by (rule for_range_invariant[where Q = "\<lambda>s. power_state s = v"])
       (auto dest: ReconcilePhysicalVolumes_power_state[OF keeps])
  show ?thesis
  proof (cases "\<exists>st vgs. prof_Storage profile = Some st \<and> ps_VolumeGroups st = Some vgs \<and>
      IsReconcilerEnabled r VolumeGroup")
    case False
    with res show ?thesis
      by (auto simp: ReconcileVolumeGroups_def split: option.splits if_splits)
  next
    case True
    then obtain st vgs where st: "prof_Storage profile = Some st" "ps_VolumeGroups st = Some vgs"
      "IsReconcilerEnabled r VolumeGroup" by blast
    obtain o1 u1 s1 where l1: "for_range (volume_group_step r client) vgs (False, s) = (o1, u1, s1)"
      by (metis prod_cases3)
    from loop1[OF l1] have p1: "power_state s1 = power_state s" by simp
    obtain o2 s2 where rf: "(if u1 then refresh_volume_groups client s1 else (Continue, s1)) = (o2, s2)"
      by (metis surj_pair)
    have p2: "power_state s2 = power_state s"
      using rf p1 by (auto split: if_splits dest: refresh_power_state(2))
    have "s' = s1 \<or> s' = s2 \<or>
      for_range (ReconcilePhysicalVolumes r client inst profile) vgs s2 = (out, s')"
      using res st l1 rf by (auto simp: ReconcileVolumeGroups_def split: if_splits)
    with p1 p2 loop2[OF _ p2] show ?thesis by auto
  qed
qed

lemma ReconcileStaleOSDs_power_state:
  assumes res: "ReconcileStaleOSDs r client inst profile s = (out, s')"
  shows "power_state s' = power_state s"
proof (cases "\<exists>st ds. prof_Storage profile = Some st \<and> ps_OSDs st = Some ds \<and>
      IsReconcilerEnabled r OSD")
  case False
  with res show ?thesis
    by (auto simp: ReconcileStaleOSDs_def split: option.splits if_splits)
next
  case True
  then obtain st ds where st: "prof_Storage profile = Some st" "ps_OSDs st = Some ds"
    and en: "IsReconcilerEnabled r OSD" by blast
  obtain P U where marks: "fold (stale_mark r (host s)) ds (\<lambda>k. False, \<lambda>k. False) = (P, U)"
    by (metis surj_pair)
  obtain o1 ch s1 where
    loop: "for_range (stale_delete_step client P U) (host_OSDs (host s)) (False, s) = (o1, ch, s1)"
    by (metis prod_cases3)
  from stale_delete_loop_general[OF loop] have p1: "power_state s1 = power_state s"
    by (simp add: power_state_def)
  have "s' = s1 \<or> (\<exists>o2. refresh_osds client s1 = (o2, s'))"
    using ReconcileStaleOSDs_unfold[OF en st marks loop, of inst] res
    by (auto split: if_splits) metis
  with p1 show ?thesis by (auto dest: refresh_power_state(4))
qed

lemma early_steps_power_state:
  assumes keeps: "keeps_power_state client"
    and run: "run_steps [ReconcileMonitor r client inst profile,
        ReconcileFileSystemTypes r client inst profile,
        ReconcileVolumeGroups r client inst profile,
        ReconcileStaleOSDs r client inst profile] s = (out, s4)"
  shows "power_state s4 = power_state s"
  using run[unfolded run_steps_def]
  by (rule for_range_invariant[where Q = "\<lambda>x. power_state x = power_state s"])
     (auto dest: ReconcileMonitor_power_state ReconcileFileSystemTypes_power_state
        ReconcileVolumeGroups_power_state[OF keeps] ReconcileStaleOSDs_power_state)

subsection \<open>The order of the orchestrator\<close>

lemma for_range_append:
  "for_range body (xs @ ys) s =
     (if fst (for_range body xs s) = Continue then for_range body ys (snd (for_range body xs s))
      else for_range body xs s)"
  by (induction xs arbitrary: s) (auto split: prod.splits)

lemma for_range_single: "for_range body [x] s = body x s"
  by (cases "body x s") simp

lemma run_steps_stop:
  assumes "run_steps pre s = (Continue, s1)" "fst (step s1) \<noteq> Continue"
  shows "run_steps (pre @ step # post) s = step s1"
  using assms by (cases "step s1") (simp add: run_steps_def for_range_append)

lemma ReconcileStorage_run_steps:
  assumes en: "IsReconcilerEnabled r Storage" and st: "prof_Storage profile = Some st"
  shows "ReconcileStorage r client inst profile s = run_steps (storage_steps r client inst profile) s"
proof -
  have osd: "(case OSDProvisioningState r (inst_Namespace inst) (host_Personality (host s4)) of
        RequiredStateDisabled \<Rightarrow> ReconcileOSDs r client inst profile s4
      | RequiredStateAny \<Rightarrow> ReconcileOSDs r client inst profile s4
      | RequiredStateEnabled \<Rightarrow> (Continue, s4)
      | RequiredStateNone \<Rightarrow> (Continue, s4)) = osd_stage r client inst profile s4" for s4
    by (simp add: osd_stage_def split: RequiredState.splits)
  show ?thesis
    using en st
    by (simp add: ReconcileStorage_def run_steps_def storage_steps_def osd for_range_single
        split: prod.splits)
qed

lemma volume_group_loop_found:
  "\<forall>vg\<in>set vgs. FindVolumeGroup r (host s) (vgi_Name vg) \<noteq> None \<Longrightarrow>
   for_range (volume_group_step r client) vgs (u, s) = (Continue, u, s)"
  by (induction vgs) auto

lemma osd_stage_claimed:
  "power_state s = ''disabled'' \<Longrightarrow>
   osd_stage r client inst profile s = claimed_osd_stage r client inst profile s"
  by (simp add: osd_stage_def claimed_osd_stage_def host_state_satisfies_def power_state_def
      split: RequiredState.splits)

lemma steps_split:
  "storage_steps r client inst profile =
     butlast (claimed_steps r client inst profile) @ [osd_stage r client inst profile]"
  "claimed_steps r client inst profile =
     butlast (claimed_steps r client inst profile) @ [claimed_osd_stage r client inst profile]"
  "butlast (claimed_steps r client inst profile) =
     [ReconcileMonitor r client inst profile, ReconcileFileSystemTypes r client inst profile,
      ReconcileVolumeGroups r client inst profile, ReconcileStaleOSDs r client inst profile]"
  by (simp_all add: storage_steps_def claimed_steps_def)

lemma run_steps_last:
  "run_steps (pre @ [step]) s =
     (if fst (run_steps pre s) = Continue then step (snd (run_steps pre s)) else run_steps pre s)"
  by (auto simp: run_steps_def for_range_append split: prod.splits)

lemma ReconcileStorage_claimed_steps:
  assumes en: "IsReconcilerEnabled r Storage" and st: "prof_Storage profile = Some st"
    and down: "power_state s = ''disabled''" and keeps: "keeps_power_state client"
  shows "ReconcileStorage r client inst profile s = run_steps (claimed_steps r client inst profile) s"
proof -
  let ?pre = "butlast (claimed_steps r client inst profile)"
  have "power_state (snd (run_steps ?pre s)) = ''disabled''"
    using early_steps_power_state[OF keeps, of r inst profile s "fst (run_steps ?pre s)"
        "snd (run_steps ?pre s)"] down
    by (simp add: steps_split(3))
  then have "osd_stage r client inst profile (snd (run_steps ?pre s))
      = claimed_osd_stage r client inst profile (snd (run_steps ?pre s))"
    by (rule osd_stage_claimed)
  then have "run_steps (?pre @ [osd_stage r client inst profile]) s
      = run_steps (?pre @ [claimed_osd_stage r client inst profile]) s"
    by (simp add: run_steps_last)
  then show ?thesis
    using ReconcileStorage_run_steps[OF en st, of client inst s] steps_split(1,2)[of r client inst profile]
    by simp
qed

text \<open>
  Claim C2.  Let the storage reconciler be enabled, the profile have a storage section,
  and the host be disabled when the pass starts, on a remote system whose system
  partitions leave the operational state of the host alone.  Then ReconcileStorage runs,
  in this order, the reconcilers of the monitor, the filesystem types, the volume
  groups, the stale OSDs and the OSDs; the first step that yields a wait or an error
  ends the pass with that result, and the later steps do not run.  When the first four
  steps succeed the host is still disabled, and the pass runs ReconcileOSDs exactly
  when that power state satisfies the required state that OSDProvisioningState gives;
  otherwise it skips the OSDs and ends with success, with no wait.  The volume group
  step runs ReconcilePhysicalVolumes for each desired group, which runs
  ReconcilePartitions first.
\<close>

theorem ReconcileStorage_order:
  assumes en: "IsReconcilerEnabled r Storage" and st: "prof_Storage profile = Some st"
    and down: "power_state s = ''disabled''" and keeps: "keeps_power_state client"
  shows "ReconcileStorage r client inst profile s = run_steps (claimed_steps r client inst profile) s \<and>
     (\<forall>pre step post s1.
        claimed_steps r client inst profile = pre @ step # post \<and>
        run_steps pre s = (Continue, s1) \<and> fst (step s1) \<noteq> Continue \<longrightarrow>
        ReconcileStorage r client inst profile s = step s1) \<and>
     (\<forall>s4. run_steps (butlast (claimed_steps r client inst profile)) s = (Continue, s4) \<longrightarrow>
        power_state s4 = ''disabled'' \<and>
        ReconcileStorage r client inst profile s =
          (if host_state_satisfies
                (OSDProvisioningState r (inst_Namespace inst) (host_Personality (host s4)))
                (host s4)
           then ReconcileOSDs r client inst profile s4 else (Continue, s4))) \<and>
     (\<forall>vgs. IsReconcilerEnabled r VolumeGroup \<and> ps_VolumeGroups st = Some vgs \<and>
        (\<forall>vg\<in>set vgs. FindVolumeGroup r (host s) (vgi_Name vg) \<noteq> None) \<longrightarrow>
        ReconcileVolumeGroups r client inst profile s =
          for_range (ReconcilePhysicalVolumes r client inst profile) vgs s) \<and>
     (\<forall>grp vg. IsReconcilerEnabled r PhysicalVolume \<and>
        FindVolumeGroup r (host s) (vgi_Name grp) = Some vg \<and>
        fst (ReconcilePartitions r client inst profile grp s) \<noteq> Continue \<longrightarrow>
        ReconcilePhysicalVolumes r client inst profile grp s =
          ReconcilePartitions r client inst profile grp s)"
proof -
  note a = ReconcileStorage_claimed_steps[OF en st down keeps, of inst]
  have b: "\<forall>pre step post s1.
        claimed_steps r client inst profile = pre @ step # post \<and>
        run_steps pre s = (Continue, s1) \<and> fst (step s1) \<noteq> Continue \<longrightarrow>
        ReconcileStorage r client inst profile s = step s1"
    unfolding a using run_steps_stop by metis
  have c: "\<forall>s4. run_steps (butlast (claimed_steps r client inst profile)) s = (Continue, s4) \<longrightarrow>
        power_state s4 = ''disabled'' \<and>
        ReconcileStorage r client inst profile s =
          (if host_state_satisfies
                (OSDProvisioningState r (inst_Namespace inst) (host_Personality (host s4)))
                (host s4)
           then ReconcileOSDs r client inst profile s4 else (Continue, s4))"
  proof (intro allI impI)
    fix s4
    assume run: "run_steps (butlast (claimed_steps r client inst profile)) s = (Continue, s4)"
    from early_steps_power_state[OF keeps run[unfolded steps_split(3)]] down
    have p: "power_state s4 = ''disabled''" by simp
    have "run_steps (claimed_steps r client inst profile) s
        = claimed_osd_stage r client inst profile s4"
      using run_steps_last[of "butlast (claimed_steps r client inst profile)"
          "claimed_osd_stage r client inst profile" s] run steps_split(2)[of r client inst profile]
      by simp
    with p a show "power_state s4 = ''disabled'' \<and>
        ReconcileStorage r client inst profile s =
          (if host_state_satisfies
                (OSDProvisioningState r (inst_Namespace inst) (host_Personality (host s4)))
                (host s4)
           then ReconcileOSDs r client inst profile s4 else (Continue, s4))"
      by (simp add: claimed_osd_stage_def)
  qed
  have d: "\<forall>vgs. IsReconcilerEnabled r VolumeGroup \<and> ps_VolumeGroups st = Some vgs \<and>
        (\<forall>vg\<in>set vgs. FindVolumeGroup r (host s) (vgi_Name vg) \<noteq> None) \<longrightarrow>
        ReconcileVolumeGroups r client inst profile s =
          for_range (ReconcilePhysicalVolumes r client inst profile) vgs s"
    using st by (simp add: ReconcileVolumeGroups_def volume_group_loop_found del: volume_group_step.simps)
  have e: "\<forall>grp vg. IsReconcilerEnabled r PhysicalVolume \<and>
        FindVolumeGroup r (host s) (vgi_Name grp) = Some vg \<and>
        fst (ReconcilePartitions r client inst profile grp s) \<noteq> Continue \<longrightarrow>
        ReconcilePhysicalVolumes r client inst profile grp s =
          ReconcilePartitions r client inst profile grp s"
    by (auto simp: ReconcilePhysicalVolumes_def split: prod.splits)
  from a b c d e show ?thesis by blast
qed

text \<open>
  The theorem at work on three passes over a disabled host of a standard system.  On a
  storage host every step after the monitor sends its requests, the OSD step last.  On
  a worker host the monitor is created first and the OSD step is skipped with success,
  although the OSD of the profile does not exist.  When the new partition is still
  being created, the volume group step ends the pass with a wait and neither OSD step
  runs.
\<close>

theorem ReconcileStorage_order_witness:
  "fst (ReconcileStorage (sample_reconciler SystemTypeStandard) (storage_client ready_partition)
        sample_instance (full_profile PersonalityStorage) (locked_pass PersonalityStorage)) = Continue \<and>
   calls (snd (ReconcileStorage (sample_reconciler SystemTypeStandard) (storage_client ready_partition)
        sample_instance (full_profile PersonalityStorage) (locked_pass PersonalityStorage))) =
       [FileSystemCreate \<lparr>cfo_Name = ''instances'', cfo_Size = 10, cfo_HostUUID = ''host-1''\<rparr>,
        FileSystemList ''host-1'',
        VolumeGroupCreate
          \<lparr>vgo_HostID = Some ''host-1'', vgo_Name = Some ''nova-local'', vgo_Capabilities = None\<rparr>,
        VolumeGroupList ''host-1'',
        PartitionCreate
          \<lparr>dpo_HostID = ''host-1'', dpo_DiskID = ''disk-b'', dpo_TypeName = Some ''lvm_phys_vol'',
           dpo_TypeGUID = Some ''ba5eba11-0000-1111-2222-000000000001'', dpo_Size = 10\<rparr>,
        PartitionList ''host-1'', SystemPartitionsPopulate,
        PhysicalVolumeCreate
          \<lparr>pvo_HostID = ''host-1'', pvo_DeviceID = ''part-2'', pvo_VolumeGroupID = ''vg-1'',
           pvo_Type = ''partition''\<rparr>,
        PhysicalVolumeList ''host-1'', OSDDelete ''osd-b'', OSDList ''host-1'',
        OSDCreate plain_request, OSDList ''host-1''] \<and>
   fst (ReconcileStorage (sample_reconciler SystemTypeStandard) (storage_client ready_partition)
        sample_instance (full_profile PersonalityWorker) (locked_pass PersonalityWorker)) = Continue \<and>
   calls (snd (ReconcileStorage (sample_reconciler SystemTypeStandard) (storage_client ready_partition)
        sample_instance (full_profile PersonalityWorker) (locked_pass PersonalityWorker))) =
       [CephMonitorList,
        CephMonitorCreate \<lparr>mo_HostUUID = Some ''host-1'', mo_Size = Some 20\<rparr>,
        FileSystemCreate \<lparr>cfo_Name = ''instances'', cfo_Size = 10, cfo_HostUUID = ''host-1''\<rparr>,
        FileSystemList ''host-1'',
        VolumeGroupCreate
          \<lparr>vgo_HostID = Some ''host-1'', vgo_Name = Some ''nova-local'', vgo_Capabilities = None\<rparr>,
        VolumeGroupList ''host-1'',
        PartitionCreate
          \<lparr>dpo_HostID = ''host-1'', dpo_DiskID = ''disk-b'', dpo_TypeName = Some ''lvm_phys_vol'',
           dpo_TypeGUID = Some ''ba5eba11-0000-1111-2222-000000000001'', dpo_Size = 10\<rparr>,
        PartitionList ''host-1'', SystemPartitionsPopulate,
        PhysicalVolumeCreate
          \<lparr>pvo_HostID = ''host-1'', pvo_DeviceID = ''part-2'', pvo_VolumeGroupID = ''vg-1'',
           pvo_Type = ''partition''\<rparr>,
        PhysicalVolumeList ''host-1'', OSDDelete ''osd-b'', OSDList ''host-1''] \<and>
   fst (ReconcileStorage (sample_reconciler SystemTypeStandard) (storage_client creating_partition)
        sample_instance (full_profile PersonalityStorage) (locked_pass PersonalityStorage)) = Wait (PartitionStateMonitor sample_instance ''host-1'')
          (Sprintf ''waiting for partitions to transition to ready state'' []) \<and>
   calls (snd (ReconcileStorage (sample_reconciler SystemTypeStandard) (storage_client creating_partition)
        sample_instance (full_profile PersonalityStorage) (locked_pass PersonalityStorage))) =
       [FileSystemCreate \<lparr>cfo_Name = ''instances'', cfo_Size = 10, cfo_HostUUID = ''host-1''\<rparr>,
        FileSystemList ''host-1'',
        VolumeGroupCreate
          \<lparr>vgo_HostID = Some ''host-1'', vgo_Name = Some ''nova-local'', vgo_Capabilities = None\<rparr>,
        VolumeGroupList ''host-1'',
        PartitionCreate
          \<lparr>dpo_HostID = ''host-1'', dpo_DiskID = ''disk-b'', dpo_TypeName = Some ''lvm_phys_vol'',
           dpo_TypeGUID = Some ''ba5eba11-0000-1111-2222-000000000001'', dpo_Size = 10\<rparr>,
        PartitionList ''host-1'', SystemPartitionsPopulate]"
proof -
  let ?r = "sample_reconciler SystemTypeStandard"
  have en: "IsReconcilerEnabled ?r Storage" by (simp add: sample_reconciler_def)
  have st: "prof_Storage (full_profile p) =
      Some \<lparr>ps_Monitor = Some \<lparr>mi_Size = Some 20\<rparr>, ps_OSDs = Some [sample_plain_osd],
            ps_VolumeGroups = Some [nova_group],
            ps_FileSystems = Some [\<lparr>fsi_Name = ''instances'', fsi_Size = 10\<rparr>]\<rparr>" for p
    by (simp add: full_profile_def)
  have down: "power_state (locked_pass p) = ''disabled''" for p
    by (simp add: power_state_def locked_pass_def)
  have keeps: "keeps_power_state (storage_client q)" for q
    by (simp add: keeps_power_state_def storage_client_def)
  note a = ReconcileStorage_order [OF en st [of PersonalityStorage] down [of PersonalityStorage]
      keeps [of ready_partition], where inst = sample_instance, THEN conjunct1]
  note b = ReconcileStorage_order [OF en st [of PersonalityWorker] down [of PersonalityWorker]
      keeps [of ready_partition], where inst = sample_instance, THEN conjunct1]
  note c = ReconcileStorage_order [OF en st [of PersonalityStorage] down [of PersonalityStorage]
      keeps [of creating_partition], where inst = sample_instance, THEN conjunct1]
  have ra: "fst (run_steps (claimed_steps (sample_reconciler SystemTypeStandard) (storage_client ready_partition)
        sample_instance (full_profile PersonalityStorage)) (locked_pass PersonalityStorage)) = Continue \<and>
   calls (snd (run_steps (claimed_steps (sample_reconciler SystemTypeStandard) (storage_client ready_partition)
        sample_instance (full_profile PersonalityStorage)) (locked_pass PersonalityStorage))) =
       [FileSystemCreate \<lparr>cfo_Name = ''instances'', cfo_Size = 10, cfo_HostUUID = ''host-1''\<rparr>,
        FileSystemList ''host-1'',
        VolumeGroupCreate
          \<lparr>vgo_HostID = Some ''host-1'', vgo_Name = Some ''nova-local'', vgo_Capabilities = None\<rparr>,
        VolumeGroupList ''host-1'',
        PartitionCreate
          \<lparr>dpo_HostID = ''host-1'', dpo_DiskID = ''disk-b'', dpo_TypeName = Some ''lvm_phys_vol'',
           dpo_TypeGUID = Some ''ba5eba11-0000-1111-2222-000000000001'', dpo_Size = 10\<rparr>,
        PartitionList ''host-1'', SystemPartitionsPopulate,
        PhysicalVolumeCreate
          \<lparr>pvo_HostID = ''host-1'', pvo_DeviceID = ''part-2'', pvo_VolumeGroupID = ''vg-1'',
           pvo_Type = ''partition''\<rparr>,
        PhysicalVolumeList ''host-1'', OSDDelete ''osd-b'', OSDList ''host-1'',
        OSDCreate plain_request, OSDList ''host-1'']"
    by code_simp
  have rb: "fst (run_steps (claimed_steps (sample_reconciler SystemTypeStandard) (storage_client ready_partition)
        sample_instance (full_profile PersonalityWorker)) (locked_pass PersonalityWorker)) = Continue \<and>
   calls (snd (run_steps (claimed_steps (sample_reconciler SystemTypeStandard) (storage_client ready_partition)
        sample_instance (full_profile PersonalityWorker)) (locked_pass PersonalityWorker))) =
       [CephMonitorList,
        CephMonitorCreate \<lparr>mo_HostUUID = Some ''host-1'', mo_Size = Some 20\<rparr>,
        FileSystemCreate \<lparr>cfo_Name = ''instances'', cfo_Size = 10, cfo_HostUUID = ''host-1''\<rparr>,
        FileSystemList ''host-1'',
        VolumeGroupCreate
          \<lparr>vgo_HostID = Some ''host-1'', vgo_Name = Some ''nova-local'', vgo_Capabilities = None\<rparr>,
        VolumeGroupList ''host-1'',
        PartitionCreate
          \<lparr>dpo_HostID = ''host-1'', dpo_DiskID = ''disk-b'', dpo_TypeName = Some ''lvm_phys_vol'',
           dpo_TypeGUID = Some ''ba5eba11-0000-1111-2222-000000000001'', dpo_Size = 10\<rparr>,
        PartitionList ''host-1'', SystemPartitionsPopulate,
        PhysicalVolumeCreate
          \<lparr>pvo_HostID = ''host-1'', pvo_DeviceID = ''part-2'', pvo_VolumeGroupID = ''vg-1'',
           pvo_Type = ''partition''\<rparr>,
        PhysicalVolumeList ''host-1'', OSDDelete ''osd-b'', OSDList ''host-1'']"
    by code_simp
  have rc: "fst (run_steps (claimed_steps (sample_reconciler SystemTypeStandard) (storage_client creating_partition)
        sample_instance (full_profile PersonalityStorage)) (locked_pass PersonalityStorage)) = Wait (PartitionStateMonitor sample_instance ''host-1'')
          (Sprintf ''waiting for partitions to transition to ready state'' []) \<and>
   calls (snd (run_steps (claimed_steps (sample_reconciler SystemTypeStandard) (storage_client creating_partition)
        sample_instance (full_profile PersonalityStorage)) (locked_pass PersonalityStorage))) =
       [FileSystemCreate \<lparr>cfo_Name = ''instances'', cfo_Size = 10, cfo_HostUUID = ''host-1''\<rparr>,
        FileSystemList ''host-1'',
        VolumeGroupCreate
          \<lparr>vgo_HostID = Some ''host-1'', vgo_Name = Some ''nova-local'', vgo_Capabilities = None\<rparr>,
        VolumeGroupList ''host-1'',
        PartitionCreate
          \<lparr>dpo_HostID = ''host-1'', dpo_DiskID = ''disk-b'', dpo_TypeName = Some ''lvm_phys_vol'',
           dpo_TypeGUID = Some ''ba5eba11-0000-1111-2222-000000000001'', dpo_Size = 10\<rparr>,
        PartitionList ''host-1'', SystemPartitionsPopulate]"
    by code_simp
  show ?thesis unfolding a b c using ra rb rc by simp
qed

end
